theory Spec2Isabelle
  imports Complex_Main "HOL-Library.Word"
begin

unbundle bit_operations_syntax

section \<open>Motion data\<close>

text \<open>
  The motion engine of \<^verbatim>\<open>CubismOverrideMotion\<close>. JavaScript numbers are modelled as
  real numbers: the development is about which segment, branch and write the code selects,
  not about IEEE rounding or NaN. Indices are natural numbers, as the running
  totals of \<^verbatim>\<open>parse\<close> produce them. Reading a property of \<^verbatim>\<open>undefined\<close> (an element
  of a vector read out of range) throws a TypeError in the source; the model returns
  \<open>None\<close> there.

  One infinity is modelled. The duration of a looping motion under \<^verbatim>\<open>MotionBehavior_V2\<close> is
  \<^verbatim>\<open>duration + 1.0 / fps\<close>, which is \<^verbatim>\<open>Infinity\<close> when the frame rate of the motion data is
  0 (a real number does not tell \<^verbatim>\<open>-0\<close> from \<^verbatim>\<open>0\<close>; the model reads it as \<^verbatim>\<open>0\<close>). A
  duration, and the end time that \<^verbatim>\<open>evaluateCurve\<close> is given, is therefore a \<open>span\<close>: a
  real number or \<open>Infinity\<close>. The two comparisons the source makes with it are
  \<^verbatim>\<open>time < endTime\<close> (\<open>before\<close>) and \<^verbatim>\<open>timeOffsetSeconds >= duration\<close> (\<open>reaches\<close>);
  \<open>positiveSpan\<close> says that a duration is greater than 0.
\<close>

datatype span = Finite real | Infinity

fun before :: "real \<Rightarrow> span \<Rightarrow> bool" where
  "before time (Finite endTime) \<longleftrightarrow> time < endTime"
| "before time Infinity \<longleftrightarrow> True"

fun reaches :: "real \<Rightarrow> span \<Rightarrow> bool" where
  "reaches offset (Finite dur) \<longleftrightarrow> offset \<ge> dur"
| "reaches offset Infinity \<longleftrightarrow> False"

fun positiveSpan :: "span \<Rightarrow> bool" where
  "positiveSpan (Finite dur) \<longleftrightarrow> 0 < dur"
| "positiveSpan Infinity \<longleftrightarrow> True"

datatype CubismMotionSegmentType =
    CubismMotionSegmentType_Linear
  | CubismMotionSegmentType_Bezier
  | CubismMotionSegmentType_Stepped
  | CubismMotionSegmentType_InverseStepped

datatype CubismMotionCurveTarget =
    CubismMotionCurveTarget_Model
  | CubismMotionCurveTarget_Parameter
  | CubismMotionCurveTarget_PartOpacity

record CubismMotionPoint =
  p_time :: real
  p_value :: real

text \<open>
  A segment stores its evaluator as a function-valued field, as the source does. A field
  that was never assigned (\<^verbatim>\<open>null\<close>) is the evaluator that always throws.
\<close>

record CubismMotionSegment =
  evaluate :: "CubismMotionPoint list \<Rightarrow> real \<Rightarrow> real option"
  basePointIndex :: nat
  segmentType :: CubismMotionSegmentType

record CubismMotionCurve =
  c_type :: CubismMotionCurveTarget
  c_id :: string
  segmentCount :: nat
  baseSegmentIndex :: nat
  fadeInTime :: real
  fadeOutTime :: real

text \<open>
  An event whose payload was never assigned has the \<^verbatim>\<open>value\<close> \<^verbatim>\<open>undefined\<close>, which is
  \<open>None\<close>; \<open>Some s\<close> is a \<^verbatim>\<open>csmString\<close> holding \<open>s\<close>.
\<close>

record CubismMotionEvent =
  fireTime :: real
  ev_value :: "string option"

record CubismMotionData =
  duration :: real
  loop :: bool
  curveCount :: nat
  eventCount :: nat
  fps :: real
  curves :: "CubismMotionCurve list"
  segments :: "CubismMotionSegment list"
  points :: "CubismMotionPoint list"
  events :: "CubismMotionEvent list"

text \<open>\<^verbatim>\<open>csmVector.at(i)\<close> and \<^verbatim>\<open>points[i]\<close>: \<open>None\<close> is \<^verbatim>\<open>undefined\<close>.\<close>

definition csmVector_at :: "'a list \<Rightarrow> nat \<Rightarrow> 'a option" where
  "csmVector_at xs i = (if i < length xs then Some (xs ! i) else None)"

text \<open>\<^verbatim>\<open>csmVector.get(offset)\<close>: the elements from \<open>offset\<close> on.\<close>

definition csmVector_get :: "'a list \<Rightarrow> nat \<Rightarrow> 'a list" where
  "csmVector_get xs offset = drop offset xs"

section \<open>Segment evaluators\<close>

definition lerpPoints :: "CubismMotionPoint \<Rightarrow> CubismMotionPoint \<Rightarrow> real \<Rightarrow> CubismMotionPoint" where
  "lerpPoints a b t =
     \<lparr> p_time = p_time a + (p_time b - p_time a) * t,
       p_value = p_value a + (p_value b - p_value a) * t \<rparr>"

definition linearEvaluate :: "CubismMotionPoint list \<Rightarrow> real \<Rightarrow> real option" where
  "linearEvaluate pts time =
     (case csmVector_at pts 0 of None \<Rightarrow> None
      | Some p0 \<Rightarrow>
     (case csmVector_at pts 1 of None \<Rightarrow> None
      | Some p1 \<Rightarrow>
        (let t = (time - p_time p0) / (p_time p1 - p_time p0);
             t = (if t < 0 then 0 else t)
         in Some (p_value p0 + (p_value p1 - p_value p0) * t))))"

definition deCasteljau :: "CubismMotionPoint \<Rightarrow> CubismMotionPoint \<Rightarrow> CubismMotionPoint \<Rightarrow>
    CubismMotionPoint \<Rightarrow> real \<Rightarrow> real" where
  "deCasteljau q0 q1 q2 q3 t =
     (let p01 = lerpPoints q0 q1 t;
          p12 = lerpPoints q1 q2 t;
          p23 = lerpPoints q2 q3 t;
          p012 = lerpPoints p01 p12 t;
          p123 = lerpPoints p12 p23 t
      in p_value (lerpPoints p012 p123 t))"

definition bezierEvaluate :: "CubismMotionPoint list \<Rightarrow> real \<Rightarrow> real option" where
  "bezierEvaluate pts time =
     (case csmVector_at pts 0 of None \<Rightarrow> None
      | Some q0 \<Rightarrow>
     (case csmVector_at pts 3 of None \<Rightarrow> None
      | Some q3 \<Rightarrow>
     (case csmVector_at pts 1 of None \<Rightarrow> None
      | Some q1 \<Rightarrow>
     (case csmVector_at pts 2 of None \<Rightarrow> None
      | Some q2 \<Rightarrow>
        (let t = (time - p_time q0) / (p_time q3 - p_time q0);
             t = (if t < 0 then 0 else t)
         in Some (deCasteljau q0 q1 q2 q3 t))))))"

text \<open>
  \<^verbatim>\<open>CubismMath.cardanoAlgorithmForBezier\<close> belongs to the framework and is not part of
  the sources; it is the parameter \<open>cardano\<close>.
\<close>

definition bezierEvaluateCardanoInterpretation ::
    "(real \<Rightarrow> real \<Rightarrow> real \<Rightarrow> real \<Rightarrow> real) \<Rightarrow> CubismMotionPoint list \<Rightarrow> real \<Rightarrow> real option" where
  "bezierEvaluateCardanoInterpretation cardano pts time =
     (case csmVector_at pts 0 of None \<Rightarrow> None
      | Some q0 \<Rightarrow>
     (case csmVector_at pts 3 of None \<Rightarrow> None
      | Some q3 \<Rightarrow>
     (case csmVector_at pts 1 of None \<Rightarrow> None
      | Some q1 \<Rightarrow>
     (case csmVector_at pts 2 of None \<Rightarrow> None
      | Some q2 \<Rightarrow>
        (let x = time; x1 = p_time q0; x2 = p_time q3; cx1 = p_time q1; cx2 = p_time q2;
             a = x2 - 3 * cx2 + 3 * cx1 - x1;
             b = 3 * cx2 - 6 * cx1 + 3 * x1;
             c = 3 * cx1 - 3 * x1;
             d = x1 - x;
             t = cardano a b c d
         in Some (deCasteljau q0 q1 q2 q3 t))))))"

definition steppedEvaluate :: "CubismMotionPoint list \<Rightarrow> real \<Rightarrow> real option" where
  "steppedEvaluate pts time = map_option p_value (csmVector_at pts 0)"

definition inverseSteppedEvaluate :: "CubismMotionPoint list \<Rightarrow> real \<Rightarrow> real option" where
  "inverseSteppedEvaluate pts time = map_option p_value (csmVector_at pts 1)"

section \<open>Curve sampling\<close>

text \<open>
  The scan of \<^verbatim>\<open>evaluateCurve\<close>: \<open>i\<close> runs from the curve's first segment to
  \<open>totalSegmentCount\<close>; the result is the target (\<open>None\<close> for \<^verbatim>\<open>-1\<close>) and the last value of
  \<^verbatim>\<open>pointPosition\<close>.
\<close>

function findSegment :: "CubismMotionData \<Rightarrow> real \<Rightarrow> nat \<Rightarrow> nat \<Rightarrow> nat \<Rightarrow> (nat option \<times> nat) option" where
  "findSegment md time totalSegmentCount i pointPosition =
     (if i < totalSegmentCount then
        (case csmVector_at (segments md) i of None \<Rightarrow> None
         | Some seg \<Rightarrow>
            (let pp = basePointIndex seg +
                      (if segmentType seg = CubismMotionSegmentType_Bezier then 3 else 1)
             in (case csmVector_at (points md) pp of None \<Rightarrow> None
                 | Some p \<Rightarrow>
                     if p_time p > time then Some (Some i, pp)
                     else findSegment md time totalSegmentCount (Suc i) pp)))
      else Some (None, pointPosition))"
  by pat_completeness auto
termination
  by (relation "measure (\<lambda>(md, time, totalSegmentCount, i, pointPosition). totalSegmentCount - i)") auto

declare findSegment.simps [simp del]

text \<open>
  \<^verbatim>\<open>correctEndPoint\<close> (lines 264 to 299). With the end time \<^verbatim>\<open>Infinity\<close> the second of the two
  points lies at \<^verbatim>\<open>Infinity\<close>: \<^verbatim>\<open>steppedEvaluate\<close> and \<^verbatim>\<open>inverseSteppedEvaluate\<close> read the
  values only, and the quotient of \<^verbatim>\<open>linearEvaluate\<close> is a number divided by \<^verbatim>\<open>Infinity\<close>,
  which is 0, so that it returns the value of its first point.
\<close>

definition correctEndPoint :: "CubismMotionData \<Rightarrow> nat option \<Rightarrow> nat \<Rightarrow> nat \<Rightarrow> real \<Rightarrow> span \<Rightarrow> real option" where
  "correctEndPoint md segmentIndex beginIndex endIndex time endTime =
     (case csmVector_at (points md) endIndex of None \<Rightarrow> None
      | Some src0 \<Rightarrow>
     (case csmVector_at (points md) beginIndex of None \<Rightarrow> None
      | Some src1 \<Rightarrow>
     (case Option.bind segmentIndex (csmVector_at (segments md)) of None \<Rightarrow> None
      | Some seg \<Rightarrow>
        (case endTime of
           Finite e \<Rightarrow>
             (let motionPoint = [\<lparr> p_time = p_time src0, p_value = p_value src0 \<rparr>,
                                 \<lparr> p_time = e, p_value = p_value src1 \<rparr>]
              in (case segmentType seg of
                    CubismMotionSegmentType_Stepped \<Rightarrow> steppedEvaluate motionPoint time
                  | CubismMotionSegmentType_InverseStepped \<Rightarrow>
                      inverseSteppedEvaluate motionPoint time
                  | _ \<Rightarrow> linearEvaluate motionPoint time))
         | Infinity \<Rightarrow>
             (case segmentType seg of
                CubismMotionSegmentType_Stepped \<Rightarrow> Some (p_value src0)
              | CubismMotionSegmentType_InverseStepped \<Rightarrow> Some (p_value src1)
              | _ \<Rightarrow> Some (p_value src0))))))"

text \<open>
  \<^verbatim>\<open>totalSegmentCount - 1\<close> is \<^verbatim>\<open>-1\<close> for a total of zero, and reading the segment at
  \<^verbatim>\<open>-1\<close> gives \<^verbatim>\<open>undefined\<close>: \<open>None\<close> as an index.
\<close>

definition minus_one :: "nat \<Rightarrow> nat option" where
  "minus_one n = (if n = 0 then None else Some (n - 1))"

definition evaluateCurve :: "CubismMotionData \<Rightarrow> nat \<Rightarrow> real \<Rightarrow> bool \<Rightarrow> span \<Rightarrow> real option" where
  "evaluateCurve md index time isCorrection endTime =
     (case csmVector_at (curves md) index of None \<Rightarrow> None
      | Some curve \<Rightarrow>
        (let totalSegmentCount = baseSegmentIndex curve + segmentCount curve
         in (case findSegment md time totalSegmentCount (baseSegmentIndex curve) 0 of
               None \<Rightarrow> None
             | Some (None, pointPosition) \<Rightarrow>
                 if isCorrection \<and> before time endTime then
                   (case csmVector_at (segments md) (baseSegmentIndex curve) of None \<Rightarrow> None
                    | Some seg0 \<Rightarrow>
                        correctEndPoint md (minus_one totalSegmentCount) (basePointIndex seg0)
                          pointPosition time endTime)
                 else map_option p_value (csmVector_at (points md) pointPosition)
             | Some (Some target, pointPosition) \<Rightarrow>
                 (case csmVector_at (segments md) target of None \<Rightarrow> None
                  | Some segment \<Rightarrow>
                      evaluate segment (csmVector_get (points md) (basePointIndex segment)) time))))"


section \<open>The motion, the playback entry and the model\<close>

datatype MotionBehavior = MotionBehavior_V1 | MotionBehavior_V2

text \<open>
  The playback entry (\<^verbatim>\<open>CubismMotionQueueEntry\<close>), with the fields its getters and
  setters read and write.
\<close>

record CubismMotionQueueEntry =
  startTimeSeconds :: real
  fadeInStartTimeSeconds :: real
  endTimeSeconds :: real
  finished :: bool

text \<open>
  The fields of \<^verbatim>\<open>CubismOverrideMotion\<close> that \<^verbatim>\<open>create\<close>, \<^verbatim>\<open>parse\<close> and
  \<^verbatim>\<open>doUpdateParameters\<close> read or write.
  \<open>onFinishedMotion\<close> tells whether a finished-motion callback is registered; an
  identifier handle is modelled by the string that \<^verbatim>\<open>revealIdString\<close> gives for it;
  \<open>None\<close> for a list of target ids is \<^verbatim>\<open>null\<close>.
\<close>

record CubismOverrideMotion =
  sourceFrameRate :: real
  loopDurationSeconds :: real
  motionData :: "CubismMotionData option"
  motionBehavior :: MotionBehavior
  isLoop :: bool
  isLoopFadeIn :: bool
  previousLoopState :: bool
  fadeInSeconds :: real
  fadeOutSeconds :: real
  weight :: real
  onFinishedMotion :: bool
  eyeBlinkParameterIds :: "string list option"
  lipSyncParameterIds :: "string list option"
  eyeBlinkAdditive :: bool
  lipSyncAdditive :: bool
  parameterAdditiveIndicies :: "int list"
  partOpacityAdditiveIndicies :: "int list"
  modelOpacity :: real
  lastWeight :: real

text \<open>
  The model is the framework's \<^verbatim>\<open>CubismModel\<close>: the engine reads its parameter and part
  identifiers and calls its setters. \<^verbatim>\<open>getParameterIndex\<close> is a method of the framework
  and is kept as a function-valued field. The calls the engine makes on the model, and
  the call of the finished-motion callback, are recorded in order as a list of effects; a
  weight of \<open>None\<close> is a call without the weight argument.
\<close>

record CubismModel =
  parameterIds :: "string list"
  partIds :: "string list"
  getParameterIndex :: "string \<Rightarrow> int"

datatype effect =
    SetModelOpacity real
  | SetParameterValueByIndex int real "real option"
  | AddParameterValueByIndex int real "real option"
  | SetParameterValueById string real real
  | AddParameterValueById string real real
  | FinishedMotionCallback

fun findParameterIndexFrom :: "string list \<Rightarrow> string \<Rightarrow> nat \<Rightarrow> nat option" where
  "findParameterIndexFrom [] name i = None"
| "findParameterIndexFrom (id0 # ids) name i =
     (if id0 = name then Some i else findParameterIndexFrom ids name (Suc i))"

definition findParameterIndex :: "CubismModel \<Rightarrow> string \<Rightarrow> nat option" where
  "findParameterIndex model name = findParameterIndexFrom (parameterIds model) name 0"

definition findPartIndex :: "CubismModel \<Rightarrow> string \<Rightarrow> nat option" where
  "findPartIndex model name = findParameterIndexFrom (partIds model) name 0"

section \<open>The blending pass\<close>

definition EffectNameEyeBlink :: string where "EffectNameEyeBlink = ''EyeBlink''"
definition EffectNameLipSync :: string where "EffectNameLipSync = ''LipSync''"
definition IdNameOpacity :: string where "IdNameOpacity = ''Opacity''"

text \<open>\<^verbatim>\<open>Number.MAX_VALUE\<close>, the sentinel of an overlay value that is not set.\<close>

definition MAX_VALUE :: real where
  "MAX_VALUE = (2 ^ 53 - 1) * 2 ^ 971"

definition maxTargetSize :: nat where
  "maxTargetSize = 64"

text \<open>
  The claim flags are JavaScript numbers under \<^verbatim>\<open>|=\<close>, \<^verbatim>\<open><<\<close> and \<^verbatim>\<open>>>\<close>, which
  work on 32-bit integers and take the shift count modulo 32.
\<close>

definition setFlag :: "32 word \<Rightarrow> nat \<Rightarrow> 32 word" where
  "setFlag flags i = flags OR push_bit (i mod 32) 1"

definition testFlag :: "32 word \<Rightarrow> nat \<Rightarrow> bool" where
  "testFlag flags i \<longleftrightarrow> signed_drop_bit (i mod 32) flags AND 1 \<noteq> 0"

record PassState =
  eyeBlinkValue :: real
  lipSyncValue :: real
  eyeBlinkFlags :: "32 word"
  lipSyncFlags :: "32 word"
  opacity :: real
  trace :: "effect list"

text \<open>The loop over the Model curves (lines 492 to 510).\<close>

function modelCurves :: "CubismMotionData \<Rightarrow> real \<Rightarrow> bool \<Rightarrow> span \<Rightarrow> nat \<Rightarrow> PassState \<Rightarrow>
    (nat \<times> PassState) option" where
  "modelCurves md time isCorrection dur c st =
     (if c < curveCount md then
        (case csmVector_at (curves md) c of None \<Rightarrow> None
         | Some curve \<Rightarrow>
             if c_type curve = CubismMotionCurveTarget_Model then
               (case evaluateCurve md c time isCorrection dur of None \<Rightarrow> None
                | Some v \<Rightarrow>
                    modelCurves md time isCorrection dur (Suc c)
                      (if c_id curve = EffectNameEyeBlink then st\<lparr>eyeBlinkValue := v\<rparr>
                       else if c_id curve = EffectNameLipSync then st\<lparr>lipSyncValue := v\<rparr>
                       else if c_id curve = IdNameOpacity then
                         st\<lparr>opacity := v, trace := trace st @ [SetModelOpacity v]\<rparr>
                       else st))
             else Some (c, st))
      else Some (c, st))"
  by pat_completeness auto
termination
  by (relation "measure (\<lambda>(md, time, isCorrection, dur, c, st). curveCount md - c)") auto

declare modelCurves.simps [simp del]

text \<open>
  The search of a target list for the curve's identifier (lines 534 to 546 and 550 to
  562): the index of the first entry, among the first \<open>maxTargetSize\<close>, that equals it.
\<close>

fun claimIndex :: "string list \<Rightarrow> string \<Rightarrow> nat \<Rightarrow> nat option" where
  "claimIndex [] name i = None"
| "claimIndex (id0 # ids) name i =
     (if i < maxTargetSize then
        (if id0 = name then Some i else claimIndex ids name (Suc i))
      else None)"

definition targetIds :: "string list option \<Rightarrow> string list" where
  "targetIds ids = (case ids of None \<Rightarrow> [] | Some xs \<Rightarrow> xs)"

text \<open>The weight of a Parameter curve's write (lines 565 to 602).\<close>

definition paramWeight :: "(real \<Rightarrow> real) \<Rightarrow> CubismOverrideMotion \<Rightarrow> CubismMotionQueueEntry \<Rightarrow>
    CubismMotionCurve \<Rightarrow> real \<Rightarrow> real \<Rightarrow> real \<Rightarrow> real \<Rightarrow> real" where
  "paramWeight getEasingSine m entry curve userTimeSeconds fadeWeight tmpFadeIn tmpFadeOut =
     (if fadeInTime curve < 0 \<and> fadeOutTime curve < 0 then fadeWeight
      else
        (let fin = (if fadeInTime curve < 0 then tmpFadeIn
                    else if fadeInTime curve = 0 then 1
                    else getEasingSine
                           ((userTimeSeconds - fadeInStartTimeSeconds entry) / fadeInTime curve));
             fout = (if fadeOutTime curve < 0 then tmpFadeOut
                     else if fadeOutTime curve = 0 \<or> endTimeSeconds entry < 0 then 1
                     else getEasingSine
                            ((endTimeSeconds entry - userTimeSeconds) / fadeOutTime curve))
         in weight m * fin * fout))"

text \<open>One Parameter curve whose parameter the model has (lines 530 to 609).\<close>

definition applyParameterCurve :: "(real \<Rightarrow> real) \<Rightarrow> CubismOverrideMotion \<Rightarrow> CubismMotionQueueEntry \<Rightarrow>
    real \<Rightarrow> real \<Rightarrow> real \<Rightarrow> real \<Rightarrow> CubismMotionCurve \<Rightarrow> nat \<Rightarrow> real \<Rightarrow> PassState \<Rightarrow> PassState" where
  "applyParameterCurve getEasingSine m entry userTimeSeconds fadeWeight tmpFadeIn tmpFadeOut
       curve parameterIndex v st =
     (let eyeBlinkClaim =
            (if eyeBlinkValue st \<noteq> MAX_VALUE
             then claimIndex (targetIds (eyeBlinkParameterIds m)) (c_id curve) 0 else None);
          v1 = (case eyeBlinkClaim of None \<Rightarrow> v | Some i \<Rightarrow> v * eyeBlinkValue st);
          flags1 = (case eyeBlinkClaim of None \<Rightarrow> eyeBlinkFlags st
                    | Some i \<Rightarrow> setFlag (eyeBlinkFlags st) i);
          lipSyncClaim =
            (if lipSyncValue st \<noteq> MAX_VALUE
             then claimIndex (targetIds (lipSyncParameterIds m)) (c_id curve) 0 else None);
          v2 = (case lipSyncClaim of None \<Rightarrow> v1 | Some i \<Rightarrow> v1 + lipSyncValue st);
          flags2 = (case lipSyncClaim of None \<Rightarrow> lipSyncFlags st
                    | Some i \<Rightarrow> setFlag (lipSyncFlags st) i);
          w = paramWeight getEasingSine m entry curve userTimeSeconds fadeWeight tmpFadeIn tmpFadeOut
      in st\<lparr> eyeBlinkFlags := flags1, lipSyncFlags := flags2,
              trace := trace st @
                [if int parameterIndex \<in> set (parameterAdditiveIndicies m)
                 then AddParameterValueByIndex (int parameterIndex) v2 (Some w)
                 else SetParameterValueByIndex (int parameterIndex) v2 (Some w)] \<rparr>)"

text \<open>The loop over the Parameter curves (lines 514 to 610).\<close>

function parameterCurves :: "(real \<Rightarrow> real) \<Rightarrow> CubismOverrideMotion \<Rightarrow> CubismModel \<Rightarrow>
    CubismMotionQueueEntry \<Rightarrow> real \<Rightarrow> real \<Rightarrow> real \<Rightarrow> real \<Rightarrow>
    CubismMotionData \<Rightarrow> real \<Rightarrow> bool \<Rightarrow> span \<Rightarrow> nat \<Rightarrow> PassState \<Rightarrow> (nat \<times> PassState) option" where
  "parameterCurves getEasingSine m model entry userTimeSeconds fadeWeight tmpFadeIn tmpFadeOut
       md time isCorrection dur c st =
     (if c < curveCount md then
        (case csmVector_at (curves md) c of None \<Rightarrow> None
         | Some curve \<Rightarrow>
             if c_type curve = CubismMotionCurveTarget_Parameter then
               (case findParameterIndex model (c_id curve) of
                  None \<Rightarrow>
                    parameterCurves getEasingSine m model entry userTimeSeconds fadeWeight
                      tmpFadeIn tmpFadeOut md time isCorrection dur (Suc c) st
                | Some parameterIndex \<Rightarrow>
                    (case evaluateCurve md c time isCorrection dur of None \<Rightarrow> None
                     | Some v \<Rightarrow>
                         parameterCurves getEasingSine m model entry userTimeSeconds fadeWeight
                           tmpFadeIn tmpFadeOut md time isCorrection dur (Suc c)
                           (applyParameterCurve getEasingSine m entry userTimeSeconds fadeWeight
                              tmpFadeIn tmpFadeOut curve parameterIndex v st)))
             else Some (c, st))
      else Some (c, st))"
  by pat_completeness auto
termination
  by (relation "measure (\<lambda>(getEasingSine, m, model, entry, userTimeSeconds, fadeWeight,
        tmpFadeIn, tmpFadeOut, md, time, isCorrection, dur, c, st). curveCount md - c)") auto

declare parameterCurves.simps [simp del]

text \<open>
  The overlay pass over one list of target ids (lines 614 to 637 and 641 to 661): the
  writes it makes, from index \<open>i\<close> on.
\<close>

fun overlayTargets :: "string list \<Rightarrow> nat \<Rightarrow> 32 word \<Rightarrow> bool \<Rightarrow> real \<Rightarrow> real \<Rightarrow> effect list" where
  "overlayTargets [] i flags isAdditive v fadeWeight = []"
| "overlayTargets (id0 # ids) i flags isAdditive v fadeWeight =
     (if i < maxTargetSize then
        (if testFlag flags i then overlayTargets ids (Suc i) flags isAdditive v fadeWeight
         else (if isAdditive then AddParameterValueById id0 v fadeWeight
               else SetParameterValueById id0 v fadeWeight)
              # overlayTargets ids (Suc i) flags isAdditive v fadeWeight)
      else [])"

text \<open>
  Both loops of the overlay pass read \<^verbatim>\<open>this._eyeBlinkAdditive\<close> (lines 631 and 655).
\<close>

definition overlayPass :: "CubismOverrideMotion \<Rightarrow> real \<Rightarrow> PassState \<Rightarrow> PassState" where
  "overlayPass m fadeWeight st =
     (let eyeBlinkWrites =
            (if eyeBlinkValue st \<noteq> MAX_VALUE
             then overlayTargets (targetIds (eyeBlinkParameterIds m)) 0 (eyeBlinkFlags st)
                    (eyeBlinkAdditive m) (eyeBlinkValue st) fadeWeight
             else []);
          lipSyncWrites =
            (if lipSyncValue st \<noteq> MAX_VALUE
             then overlayTargets (targetIds (lipSyncParameterIds m)) 0 (lipSyncFlags st)
                    (eyeBlinkAdditive m) (lipSyncValue st) fadeWeight
             else [])
      in st\<lparr> trace := trace st @ eyeBlinkWrites @ lipSyncWrites \<rparr>)"

text \<open>The loop over the PartOpacity curves (lines 665 to 691).\<close>

function partOpacityCurves :: "CubismOverrideMotion \<Rightarrow> CubismModel \<Rightarrow> CubismMotionData \<Rightarrow> real \<Rightarrow>
    bool \<Rightarrow> span \<Rightarrow> nat \<Rightarrow> PassState \<Rightarrow> (nat \<times> PassState) option" where
  "partOpacityCurves m model md time isCorrection dur c st =
     (if c < curveCount md then
        (case csmVector_at (curves md) c of None \<Rightarrow> None
         | Some curve \<Rightarrow>
             if c_type curve = CubismMotionCurveTarget_PartOpacity then
               (let parameterIndex = getParameterIndex model (c_id curve)
                in if parameterIndex = -1 then
                     partOpacityCurves m model md time isCorrection dur (Suc c) st
                   else
                     (case evaluateCurve md c time isCorrection dur of None \<Rightarrow> None
                      | Some v \<Rightarrow>
                          partOpacityCurves m model md time isCorrection dur (Suc c)
                            (st\<lparr> trace := trace st @
                               [if parameterIndex \<in> set (partOpacityAdditiveIndicies m)
                                then AddParameterValueByIndex parameterIndex v None
                                else SetParameterValueByIndex parameterIndex v None] \<rparr>)))
             else Some (c, st))
      else Some (c, st))"
  by pat_completeness auto
termination
  by (relation "measure (\<lambda>(m, model, md, time, isCorrection, dur, c, st). curveCount md - c)") auto

declare partOpacityCurves.simps [simp del]


text \<open>The state a pass starts from (lines 434 to 440).\<close>

definition initialPassState :: "CubismOverrideMotion \<Rightarrow> PassState" where
  "initialPassState m =
     \<lparr> eyeBlinkValue = MAX_VALUE, lipSyncValue = MAX_VALUE,
       eyeBlinkFlags = 0, lipSyncFlags = 0, opacity = modelOpacity m, trace = [] \<rparr>"

text \<open>
  The curves of one call, in the order of the source: the Model curves, the Parameter
  curves, the overlay pass, the PartOpacity curves (lines 489 to 691). \<open>None\<close> is a
  TypeError thrown on the way.
\<close>

definition blendCurves :: "(real \<Rightarrow> real) \<Rightarrow> CubismOverrideMotion \<Rightarrow> CubismModel \<Rightarrow>
    CubismMotionQueueEntry \<Rightarrow> real \<Rightarrow> real \<Rightarrow> real \<Rightarrow> real \<Rightarrow>
    CubismMotionData \<Rightarrow> real \<Rightarrow> bool \<Rightarrow> span \<Rightarrow> PassState option" where
  "blendCurves getEasingSine m model entry userTimeSeconds fadeWeight tmpFadeIn tmpFadeOut
       md time isCorrection dur =
     (case modelCurves md time isCorrection dur 0 (initialPassState m) of
        None \<Rightarrow> None
      | Some (c1, st1) \<Rightarrow>
          (case parameterCurves getEasingSine m model entry userTimeSeconds fadeWeight
                  tmpFadeIn tmpFadeOut md time isCorrection dur c1 st1 of
             None \<Rightarrow> None
           | Some (c2, st2) \<Rightarrow>
               map_option snd
                 (partOpacityCurves m model md time isCorrection dur c2
                    (overlayPass m fadeWeight st2))))"

section \<open>Looping and completion\<close>

text \<open>
  The loop \<^verbatim>\<open>while (time > duration) time -= duration\<close> (lines 484 to 486) does not end
  when the duration is not positive; \<open>None\<close> is a loop that runs forever.
\<close>

partial_function (option) repeatTime :: "real \<Rightarrow> real \<Rightarrow> real option" where
  "repeatTime time dur = (if time > dur then repeatTime (time - dur) dur else Some time)"

text \<open>
  \<^verbatim>\<open>updateForNextLoop\<close> (lines 940 to 967): the entry it leaves and the effects it has.
\<close>

definition updateForNextLoop :: "CubismOverrideMotion \<Rightarrow> CubismMotionQueueEntry \<Rightarrow> real \<Rightarrow> real \<Rightarrow>
    CubismMotionQueueEntry \<times> effect list" where
  "updateForNextLoop m entry userTimeSeconds time =
     (case motionBehavior m of
        MotionBehavior_V2 \<Rightarrow>
          (let e1 = entry\<lparr> startTimeSeconds := userTimeSeconds - time \<rparr>;
               e2 = (if isLoopFadeIn m
                     then e1\<lparr> fadeInStartTimeSeconds := userTimeSeconds - time \<rparr> else e1)
           in (e2, if onFinishedMotion m then [FinishedMotionCallback] else []))
      | MotionBehavior_V1 \<Rightarrow>
          (let e1 = entry\<lparr> startTimeSeconds := userTimeSeconds \<rparr>;
               e2 = (if isLoopFadeIn m
                     then e1\<lparr> fadeInStartTimeSeconds := userTimeSeconds \<rparr> else e1)
           in (e2, [])))"

text \<open>
  \<^verbatim>\<open>adjustEndTime\<close> is inherited from the framework's \<^verbatim>\<open>ACubismMotion\<close> and is not part
  of the sources. As its name and the comment at its call say, it computes the entry's
  end time; it is the parameter \<open>adjustEndTime\<close>, which gives the new end time
  (lines 419 to 425).
\<close>

definition adjustedEntry :: "(CubismOverrideMotion \<Rightarrow> CubismMotionQueueEntry \<Rightarrow> real) \<Rightarrow>
    CubismOverrideMotion \<Rightarrow> CubismMotionQueueEntry \<Rightarrow> CubismMotionQueueEntry" where
  "adjustedEntry adjustEndTime m entry =
     (if motionBehavior m = MotionBehavior_V2 \<and> previousLoopState m \<noteq> isLoop m
      then entry\<lparr> endTimeSeconds := adjustEndTime m entry \<rparr> else entry)"

definition adjustedMotion :: "CubismOverrideMotion \<Rightarrow> CubismOverrideMotion" where
  "adjustedMotion m =
     (if motionBehavior m = MotionBehavior_V2 \<and> previousLoopState m \<noteq> isLoop m
      then m\<lparr> previousLoopState := isLoop m \<rparr> else m)"

text \<open>The elapsed time, not below zero (lines 427 to 432).\<close>

definition timeOffsetSeconds :: "CubismMotionQueueEntry \<Rightarrow> real \<Rightarrow> real" where
  "timeOffsetSeconds entry userTimeSeconds =
     (let t = userTimeSeconds - startTimeSeconds entry in if t < 0 then 0 else t)"

text \<open>The asset-level fades \<^verbatim>\<open>tmpFadeIn\<close> and \<^verbatim>\<open>tmpFadeOut\<close> (lines 456 to 470).\<close>

definition tmpFadeIn :: "(real \<Rightarrow> real) \<Rightarrow> CubismOverrideMotion \<Rightarrow> CubismMotionQueueEntry \<Rightarrow> real \<Rightarrow> real" where
  "tmpFadeIn getEasingSine m entry userTimeSeconds =
     (if fadeInSeconds m \<le> 0 then 1
      else getEasingSine ((userTimeSeconds - fadeInStartTimeSeconds entry) / fadeInSeconds m))"

definition tmpFadeOut :: "(real \<Rightarrow> real) \<Rightarrow> CubismOverrideMotion \<Rightarrow> CubismMotionQueueEntry \<Rightarrow> real \<Rightarrow> real" where
  "tmpFadeOut getEasingSine m entry userTimeSeconds =
     (if fadeOutSeconds m \<le> 0 \<or> endTimeSeconds entry < 0 then 1
      else getEasingSine ((endTimeSeconds entry - userTimeSeconds) / fadeOutSeconds m))"

text \<open>
  The duration the call compares with, one frame longer for a V2 loop (lines 476 to 483):
  \<^verbatim>\<open>duration += 1.0 / this._motionData.fps\<close> gives \<^verbatim>\<open>Infinity\<close> when the frame rate is 0.
\<close>

definition passDuration :: "CubismOverrideMotion \<Rightarrow> CubismMotionData \<Rightarrow> span" where
  "passDuration m md =
     (if isLoop m \<and> motionBehavior m = MotionBehavior_V2
      then (if fps md = 0 then Infinity else Finite (duration md + 1 / fps md))
      else Finite (duration md))"

text \<open>
  The sampling time of a looping motion (lines 484 to 486): no number is greater than
  \<^verbatim>\<open>Infinity\<close>, so the loop does not run for an infinite duration.
\<close>

definition loopTime :: "real \<Rightarrow> span \<Rightarrow> real option" where
  "loopTime offset dur = (case dur of Finite d \<Rightarrow> repeatTime offset d | Infinity \<Rightarrow> Some offset)"

record UpdateResult =
  r_motion :: CubismOverrideMotion
  r_entry :: CubismMotionQueueEntry
  r_effects :: "effect list"

datatype 'a outcome = Diverges | Throws | Returns 'a

text \<open>The end of the call (lines 693 to 704).\<close>

definition finishPass :: "CubismOverrideMotion \<Rightarrow> CubismMotionQueueEntry \<Rightarrow> real \<Rightarrow> real \<Rightarrow> span \<Rightarrow>
    real \<Rightarrow> CubismMotionQueueEntry \<times> effect list" where
  "finishPass m entry userTimeSeconds offset dur time =
     (if reaches offset dur then
        (if isLoop m then updateForNextLoop m entry userTimeSeconds time
         else (entry\<lparr> finished := True \<rparr>,
               if onFinishedMotion m then [FinishedMotionCallback] else []))
      else (entry, []))"

text \<open>
  \<^verbatim>\<open>doUpdateParameters\<close> (lines 409 to 705). \<^verbatim>\<open>CubismMath.getEasingSine\<close> belongs to the
  framework and is the parameter \<open>getEasingSine\<close>.
\<close>

definition doUpdateParameters :: "(CubismOverrideMotion \<Rightarrow> CubismMotionQueueEntry \<Rightarrow> real) \<Rightarrow>
    (real \<Rightarrow> real) \<Rightarrow> CubismOverrideMotion \<Rightarrow> CubismModel \<Rightarrow> real \<Rightarrow> real \<Rightarrow>
    CubismMotionQueueEntry \<Rightarrow> UpdateResult outcome" where
  "doUpdateParameters adjustEndTime getEasingSine m model userTimeSeconds fadeWeight motionQueueEntry =
     (case motionData m of
        None \<Rightarrow> Returns \<lparr> r_motion = m, r_entry = motionQueueEntry, r_effects = [] \<rparr>
      | Some md \<Rightarrow>
          (let entry = adjustedEntry adjustEndTime m motionQueueEntry;
               m1 = adjustedMotion m;
               offset = timeOffsetSeconds entry userTimeSeconds;
               fin = tmpFadeIn getEasingSine m1 entry userTimeSeconds;
               fout = tmpFadeOut getEasingSine m1 entry userTimeSeconds;
               dur = passDuration m1 md;
               isCorrection = (motionBehavior m1 = MotionBehavior_V2 \<and> isLoop m1)
           in (case (if isLoop m1 then loopTime offset dur else Some offset) of
                 None \<Rightarrow> Diverges
               | Some time \<Rightarrow>
                   (case blendCurves getEasingSine m1 model entry userTimeSeconds fadeWeight
                           fin fout md time isCorrection dur of
                      None \<Rightarrow> Throws
                    | Some st \<Rightarrow>
                        (let (entry', callbacks) =
                               finishPass m1 entry userTimeSeconds offset dur time
                         in Returns
                              \<lparr> r_motion = m1\<lparr> modelOpacity := opacity st, lastWeight := fadeWeight \<rparr>,
                                r_entry = entry',
                                r_effects = trace st @ callbacks \<rparr>)))))"

section \<open>Events\<close>

text \<open>
  The loop of \<^verbatim>\<open>getFiredEvent\<close> (lines 1236 to 1245). Of an event whose fire time lies in
  the interval it reads \<^verbatim>\<open>value.s\<close>, which throws a TypeError when the event has no payload.
\<close>

function firedEvents :: "CubismMotionData \<Rightarrow> real \<Rightarrow> real \<Rightarrow> nat \<Rightarrow> string list \<Rightarrow> string list option" where
  "firedEvents md beforeCheckTimeSeconds motionTimeSeconds u fired =
     (if u < eventCount md then
        (case csmVector_at (events md) u of None \<Rightarrow> None
         | Some ev \<Rightarrow>
             if fireTime ev > beforeCheckTimeSeconds \<and> fireTime ev \<le> motionTimeSeconds then
               (case ev_value ev of
                  None \<Rightarrow> None
                | Some s \<Rightarrow>
                    firedEvents md beforeCheckTimeSeconds motionTimeSeconds (Suc u) (fired @ [s]))
             else firedEvents md beforeCheckTimeSeconds motionTimeSeconds (Suc u) fired)
      else Some fired)"
  by pat_completeness auto
termination
  by (relation "measure (\<lambda>(md, beforeCheckTimeSeconds, motionTimeSeconds, u, fired).
        eventCount md - u)") auto

declare firedEvents.simps [simp del]

definition getFiredEvent :: "CubismOverrideMotion \<Rightarrow> real \<Rightarrow> real \<Rightarrow> string list option" where
  "getFiredEvent m beforeCheckTimeSeconds motionTimeSeconds =
     (case motionData m of
        None \<Rightarrow> Some []
      | Some md \<Rightarrow> firedEvents md beforeCheckTimeSeconds motionTimeSeconds 0 [])"

section \<open>Reference definitions\<close>

text \<open>
  The position of a segment's last control point in the point list: a Bezier segment
  has four control points, every other segment two.
\<close>

definition lastControlPoint :: "CubismMotionSegment \<Rightarrow> nat" where
  "lastControlPoint seg =
     basePointIndex seg + (if segmentType seg = CubismMotionSegmentType_Bezier then 3 else 1)"

text \<open>The third of a Bezier segment's four control points, the second point otherwise.\<close>

definition thirdOfFour :: "CubismMotionSegment \<Rightarrow> nat" where
  "thirdOfFour seg =
     basePointIndex seg + (if segmentType seg = CubismMotionSegmentType_Bezier then 2 else 1)"

text \<open>The segments of a curve, in curve order.\<close>

definition curveSegments :: "CubismMotionData \<Rightarrow> CubismMotionCurve \<Rightarrow> CubismMotionSegment list" where
  "curveSegments md curve = take (segmentCount curve) (drop (baseSegmentIndex curve) (segments md))"

text \<open>
  Sampling as the specification words it: the first segment, in curve order, whose point
  at position \<open>pos\<close> lies after the query time is evaluated on its own control points;
  when there is none, the curve's last stored point gives the value.
\<close>

definition sampleBy :: "(CubismMotionSegment \<Rightarrow> nat) \<Rightarrow> CubismMotionData \<Rightarrow> nat \<Rightarrow> real \<Rightarrow> real option" where
  "sampleBy pos md index time =
     (let segs = curveSegments md (curves md ! index)
      in case find (\<lambda>seg. time < p_time (points md ! pos seg)) segs of
           Some seg \<Rightarrow> evaluate seg (drop (basePointIndex seg) (points md)) time
         | None \<Rightarrow> Some (p_value (points md ! lastControlPoint (last segs))))"

text \<open>
  A curve whose indices are in range: it exists, has at least one segment, its segments
  lie in the segment list and their control points in the point list.
\<close>

definition curveInRange :: "CubismMotionData \<Rightarrow> nat \<Rightarrow> bool" where
  "curveInRange md index \<longleftrightarrow>
     index < length (curves md) \<and>
     1 \<le> segmentCount (curves md ! index) \<and>
     baseSegmentIndex (curves md ! index) + segmentCount (curves md ! index) \<le> length (segments md) \<and>
     (\<forall>seg \<in> set (curveSegments md (curves md ! index)). lastControlPoint seg < length (points md))"

text \<open>The events of a motion whose fire time lies in the half-open interval \<open>(a, b]\<close>.\<close>

definition eventsIn :: "CubismMotionData \<Rightarrow> real \<Rightarrow> real \<Rightarrow> CubismMotionEvent list" where
  "eventsIn md a b =
     filter (\<lambda>ev. a < fireTime ev \<and> fireTime ev \<le> b) (take (eventCount md) (events md))"

section \<open>Example motions\<close>

text \<open>A motion of one Bezier segment with control points at the times 0, 1, 2 and 3.\<close>

definition bezier_md :: CubismMotionData where
  "bezier_md =
     \<lparr> duration = 3, loop = False, curveCount = 1, eventCount = 0, fps = 30,
       curves = [\<lparr> c_type = CubismMotionCurveTarget_Parameter, c_id = ''ParamAngleX'',
                   segmentCount = 1, baseSegmentIndex = 0, fadeInTime = -1, fadeOutTime = -1 \<rparr>],
       segments = [\<lparr> evaluate = bezierEvaluate, basePointIndex = 0,
                     segmentType = CubismMotionSegmentType_Bezier \<rparr>],
       points = [\<lparr> p_time = 0, p_value = 0 \<rparr>, \<lparr> p_time = 1, p_value = 0 \<rparr>,
                 \<lparr> p_time = 2, p_value = 1 \<rparr>, \<lparr> p_time = 3, p_value = 1 \<rparr>],
       events = [] \<rparr>"

text \<open>A looping motion of two Linear segments that ends away from where it starts.\<close>

definition loop_md :: CubismMotionData where
  "loop_md =
     \<lparr> duration = 2, loop = True, curveCount = 1, eventCount = 0, fps = 30,
       curves = [\<lparr> c_type = CubismMotionCurveTarget_Parameter, c_id = ''ParamAngleX'',
                   segmentCount = 2, baseSegmentIndex = 0, fadeInTime = -1, fadeOutTime = -1 \<rparr>],
       segments = [\<lparr> evaluate = linearEvaluate, basePointIndex = 0,
                     segmentType = CubismMotionSegmentType_Linear \<rparr>,
                   \<lparr> evaluate = linearEvaluate, basePointIndex = 1,
                     segmentType = CubismMotionSegmentType_Linear \<rparr>],
       points = [\<lparr> p_time = 0, p_value = 0 \<rparr>, \<lparr> p_time = 1, p_value = 1 \<rparr>,
                 \<lparr> p_time = 2, p_value = 1/2 \<rparr>],
       events = [] \<rparr>"

text \<open>
  The scenario of the specification: a motion of two seconds with one Linear
  Parameter curve from \<open>(0, 0)\<close> to \<open>(2, 1)\<close>, and an event at 1.5 seconds.
\<close>

definition scenario_md :: CubismMotionData where
  "scenario_md =
     \<lparr> duration = 2, loop = False, curveCount = 1, eventCount = 1, fps = 30,
       curves = [\<lparr> c_type = CubismMotionCurveTarget_Parameter, c_id = ''ParamAngleX'',
                   segmentCount = 1, baseSegmentIndex = 0, fadeInTime = -1, fadeOutTime = -1 \<rparr>],
       segments = [\<lparr> evaluate = linearEvaluate, basePointIndex = 0,
                     segmentType = CubismMotionSegmentType_Linear \<rparr>],
       points = [\<lparr> p_time = 0, p_value = 0 \<rparr>, \<lparr> p_time = 2, p_value = 1 \<rparr>],
       events = [\<lparr> fireTime = 3/2, ev_value = Some ''blink'' \<rparr>] \<rparr>"

definition scenario_motion :: CubismOverrideMotion where
  "scenario_motion =
     \<lparr> sourceFrameRate = 30, loopDurationSeconds = 2,
       motionData = Some scenario_md, motionBehavior = MotionBehavior_V2, isLoop = False,
       isLoopFadeIn = True, previousLoopState = False, fadeInSeconds = 1, fadeOutSeconds = 1,
       weight = 1, onFinishedMotion = True, eyeBlinkParameterIds = None,
       lipSyncParameterIds = None, eyeBlinkAdditive = False, lipSyncAdditive = False,
       parameterAdditiveIndicies = [], partOpacityAdditiveIndicies = [],
       modelOpacity = 1, lastWeight = 0 \<rparr>"

definition scenario_model :: CubismModel where
  "scenario_model =
     \<lparr> parameterIds = [''ParamAngleX''], partIds = [], getParameterIndex = (\<lambda>name. -1) \<rparr>"

definition entry0 :: CubismMotionQueueEntry where
  "entry0 =
     \<lparr> startTimeSeconds = 0, fadeInStartTimeSeconds = 0, endTimeSeconds = -1, finished = False \<rparr>"

section \<open>Well-formed motions and the structure of a pass\<close>

text \<open>
  The evaluators stored in a curve's segments return a value on the segment's own
  control points (an evaluator that was never assigned throws).
\<close>

definition evaluatorsDefined :: "CubismMotionData \<Rightarrow> nat \<Rightarrow> bool" where
  "evaluatorsDefined md index \<longleftrightarrow>
     (\<forall>seg \<in> set (curveSegments md (curves md ! index)).
        \<forall>time. evaluate seg (drop (basePointIndex seg) (points md)) time \<noteq> None)"

text \<open>A motion all of whose declared curves are in range and can be evaluated.\<close>

definition wellFormed :: "CubismMotionData \<Rightarrow> bool" where
  "wellFormed md \<longleftrightarrow> (\<forall>c < curveCount md. curveInRange md c \<and> evaluatorsDefined md c)"

text \<open>
  The curve groups a pass runs through: the leading curves of type Model, then the
  curves of type Parameter that follow them, then the curves of type PartOpacity after
  those, all among the first \<open>curveCount\<close> curves.
\<close>

definition declaredCurves :: "CubismMotionData \<Rightarrow> CubismMotionCurve list" where
  "declaredCurves md = take (curveCount md) (curves md)"

definition modelGroupEnd :: "CubismMotionData \<Rightarrow> nat" where
  "modelGroupEnd md =
     length (takeWhile (\<lambda>curve. c_type curve = CubismMotionCurveTarget_Model) (declaredCurves md))"

definition parameterGroupEnd :: "CubismMotionData \<Rightarrow> nat" where
  "parameterGroupEnd md =
     modelGroupEnd md +
     length (takeWhile (\<lambda>curve. c_type curve = CubismMotionCurveTarget_Parameter)
               (drop (modelGroupEnd md) (declaredCurves md)))"

text \<open>What one iteration of each curve loop does to the state of the pass.\<close>

definition modelStep :: "CubismMotionData \<Rightarrow> real \<Rightarrow> bool \<Rightarrow> span \<Rightarrow> nat \<Rightarrow> PassState \<Rightarrow> PassState" where
  "modelStep md time isCorrection dur k st =
     (case evaluateCurve md k time isCorrection dur of
        None \<Rightarrow> st
      | Some v \<Rightarrow>
          if c_id (curves md ! k) = EffectNameEyeBlink then st\<lparr>eyeBlinkValue := v\<rparr>
          else if c_id (curves md ! k) = EffectNameLipSync then st\<lparr>lipSyncValue := v\<rparr>
          else if c_id (curves md ! k) = IdNameOpacity then
            st\<lparr>opacity := v, trace := trace st @ [SetModelOpacity v]\<rparr>
          else st)"

definition parameterStep :: "(real \<Rightarrow> real) \<Rightarrow> CubismOverrideMotion \<Rightarrow> CubismModel \<Rightarrow>
    CubismMotionQueueEntry \<Rightarrow> real \<Rightarrow> real \<Rightarrow> real \<Rightarrow> real \<Rightarrow>
    CubismMotionData \<Rightarrow> real \<Rightarrow> bool \<Rightarrow> span \<Rightarrow> nat \<Rightarrow> PassState \<Rightarrow> PassState" where
  "parameterStep getEasingSine m model entry userTimeSeconds fadeWeight fin fout
       md time isCorrection dur k st =
     (case findParameterIndex model (c_id (curves md ! k)) of
        None \<Rightarrow> st
      | Some parameterIndex \<Rightarrow>
          (case evaluateCurve md k time isCorrection dur of
             None \<Rightarrow> st
           | Some v \<Rightarrow>
               applyParameterCurve getEasingSine m entry userTimeSeconds fadeWeight fin fout
                 (curves md ! k) parameterIndex v st))"

definition partOpacityStep :: "CubismOverrideMotion \<Rightarrow> CubismModel \<Rightarrow> CubismMotionData \<Rightarrow> real \<Rightarrow>
    bool \<Rightarrow> span \<Rightarrow> nat \<Rightarrow> PassState \<Rightarrow> PassState" where
  "partOpacityStep m model md time isCorrection dur k st =
     (let parameterIndex = getParameterIndex model (c_id (curves md ! k))
      in if parameterIndex = -1 then st
         else (case evaluateCurve md k time isCorrection dur of
                 None \<Rightarrow> st
               | Some v \<Rightarrow>
                   st\<lparr> trace := trace st @
                     [if parameterIndex \<in> set (partOpacityAdditiveIndicies m)
                      then AddParameterValueByIndex parameterIndex v None
                      else SetParameterValueByIndex parameterIndex v None] \<rparr>))"

text \<open>Views of the effects: the writes by identifier, and the weighted writes by index.\<close>

fun byIdWrite :: "effect \<Rightarrow> (string \<times> real \<times> real) option" where
  "byIdWrite (SetParameterValueById name v w) = Some (name, v, w)"
| "byIdWrite (AddParameterValueById name v w) = Some (name, v, w)"
| "byIdWrite _ = None"

fun weightedWrite :: "effect \<Rightarrow> (int \<times> real \<times> real) option" where
  "weightedWrite (SetParameterValueByIndex i v (Some w)) = Some (i, v, w)"
| "weightedWrite (AddParameterValueByIndex i v (Some w)) = Some (i, v, w)"
| "weightedWrite _ = None"

text \<open>
  The identifiers that the Parameter curves of a pass claim: those of the curves in the
  Parameter group whose parameter the model has.
\<close>

definition claimedIds :: "CubismModel \<Rightarrow> CubismMotionData \<Rightarrow> string list" where
  "claimedIds model md =
     map (\<lambda>k. c_id (curves md ! k))
       (filter (\<lambda>k. findParameterIndex model (c_id (curves md ! k)) \<noteq> None)
          [modelGroupEnd md..<parameterGroupEnd md])"

text \<open>
  The value a Parameter curve writes: its sampled value, multiplied by the pending
  eye-blink value when its identifier is an eye-blink target, and with the pending
  lip-sync value added when its identifier is a lip-sync target.
\<close>

definition overlaidValue :: "CubismOverrideMotion \<Rightarrow> real \<Rightarrow> real \<Rightarrow> string \<Rightarrow> real \<Rightarrow> real" where
  "overlaidValue m ev lv name v =
     (let v1 = (if ev \<noteq> MAX_VALUE \<and> name \<in> set (take maxTargetSize (targetIds (eyeBlinkParameterIds m)))
                then v * ev else v)
      in if lv \<noteq> MAX_VALUE \<and> name \<in> set (take maxTargetSize (targetIds (lipSyncParameterIds m)))
         then v1 + lv else v1)"

text \<open>
  The weight of a Parameter curve's write as the specification words it: the global fade
  weight when both per-curve fade times are negative; otherwise the motion weight times
  a fade-in and a fade-out factor, where a fade time of zero gives the factor 1, a
  negative fade time gives the asset-level ramp of that side, and a positive one the
  eased ramp over the curve's own fade time (the fade-out ramps only when the entry has
  an end time).
\<close>

definition fadeInFactor :: "(real \<Rightarrow> real) \<Rightarrow> CubismOverrideMotion \<Rightarrow> CubismMotionQueueEntry \<Rightarrow>
    real \<Rightarrow> CubismMotionCurve \<Rightarrow> real" where
  "fadeInFactor getEasingSine m entry userTimeSeconds curve =
     (if fadeInTime curve = 0 then 1
      else if fadeInTime curve < 0 then tmpFadeIn getEasingSine m entry userTimeSeconds
      else getEasingSine ((userTimeSeconds - fadeInStartTimeSeconds entry) / fadeInTime curve))"

definition fadeOutFactor :: "(real \<Rightarrow> real) \<Rightarrow> CubismOverrideMotion \<Rightarrow> CubismMotionQueueEntry \<Rightarrow>
    real \<Rightarrow> CubismMotionCurve \<Rightarrow> real" where
  "fadeOutFactor getEasingSine m entry userTimeSeconds curve =
     (if fadeOutTime curve = 0 then 1
      else if fadeOutTime curve < 0 then tmpFadeOut getEasingSine m entry userTimeSeconds
      else if endTimeSeconds entry < 0 then 1
      else getEasingSine ((endTimeSeconds entry - userTimeSeconds) / fadeOutTime curve))"

definition curveWeight :: "(real \<Rightarrow> real) \<Rightarrow> CubismOverrideMotion \<Rightarrow> CubismMotionQueueEntry \<Rightarrow>
    real \<Rightarrow> real \<Rightarrow> CubismMotionCurve \<Rightarrow> real" where
  "curveWeight getEasingSine m entry userTimeSeconds fadeWeight curve =
     (if fadeInTime curve < 0 \<and> fadeOutTime curve < 0 then fadeWeight
      else weight m * fadeInFactor getEasingSine m entry userTimeSeconds curve
                    * fadeOutFactor getEasingSine m entry userTimeSeconds curve)"

text \<open>The sampling time of a pass: the elapsed time, reduced for a looping motion.\<close>

definition passTime :: "CubismOverrideMotion \<Rightarrow> CubismMotionData \<Rightarrow> CubismMotionQueueEntry \<Rightarrow> real \<Rightarrow> real option" where
  "passTime m md entry userTimeSeconds =
     (if isLoop m
      then loopTime (timeOffsetSeconds entry userTimeSeconds) (passDuration m md)
      else Some (timeOffsetSeconds entry userTimeSeconds))"

text \<open>The setters of the additive flags (lines 898 to 904).\<close>

definition setEyeBlinkAdditive :: "CubismOverrideMotion \<Rightarrow> bool \<Rightarrow> CubismOverrideMotion" where
  "setEyeBlinkAdditive m b = m\<lparr> eyeBlinkAdditive := b \<rparr>"

definition setLipSyncAdditive :: "CubismOverrideMotion \<Rightarrow> bool \<Rightarrow> CubismOverrideMotion" where
  "setLipSyncAdditive m b = m\<lparr> lipSyncAdditive := b \<rparr>"

text \<open>The result of a call that returns.\<close>

fun returned :: "'a outcome \<Rightarrow> 'a option" where
  "returned (Returns r) = Some r"
| "returned Diverges = None"
| "returned Throws = None"

text \<open>
  Stand-ins for the two framework functions in the examples: an end time that is left
  as it is, and an easing that is linear between 0 and 1.
\<close>

definition keepEndTime :: "CubismOverrideMotion \<Rightarrow> CubismMotionQueueEntry \<Rightarrow> real" where
  "keepEndTime m entry = endTimeSeconds entry"

definition linearEasing :: "real \<Rightarrow> real" where
  "linearEasing x = (if x < 0 then 0 else if 1 < x then 1 else x)"

text \<open>A motion of no length and no curves, and an entry that starts at 5 seconds.\<close>

definition still_md :: CubismMotionData where
  "still_md =
     \<lparr> duration = 0, loop = False, curveCount = 0, eventCount = 0, fps = 30,
       curves = [], segments = [], points = [], events = [] \<rparr>"

definition still_motion :: CubismOverrideMotion where
  "still_motion = scenario_motion\<lparr> motionData := Some still_md \<rparr>"

definition late_entry :: CubismMotionQueueEntry where
  "late_entry =
     \<lparr> startTimeSeconds = 5, fadeInStartTimeSeconds = 5, endTimeSeconds = -1, finished = False \<rparr>"

text \<open>The looping motion under the current and under the legacy behavior.\<close>

definition loop_motion :: CubismOverrideMotion where
  "loop_motion =
     scenario_motion\<lparr> motionData := Some loop_md, isLoop := True, previousLoopState := True \<rparr>"

definition legacy_motion :: CubismOverrideMotion where
  "legacy_motion =
     loop_motion\<lparr> motionBehavior := MotionBehavior_V1, isLoopFadeIn := False \<rparr>"

text \<open>The looping motion with the frame rate 0, under the current behavior.\<close>

definition frozen_md :: CubismMotionData where
  "frozen_md = loop_md\<lparr> fps := 0 \<rparr>"

definition frozen_motion :: CubismOverrideMotion where
  "frozen_motion = loop_motion\<lparr> motionData := Some frozen_md \<rparr>"

text \<open>The number of calls of the finished-motion callback among the effects.\<close>

definition callbackCount :: "effect list \<Rightarrow> nat" where
  "callbackCount effects = count_list effects FinishedMotionCallback"

text \<open>
  A motion with a lip-sync curve of the constant value 1/2 and one lip-sync target that no
  Parameter curve drives, and a model with that parameter.
\<close>

definition lipsync_md :: CubismMotionData where
  "lipsync_md =
     \<lparr> duration = 2, loop = False, curveCount = 1, eventCount = 0, fps = 30,
       curves = [\<lparr> c_type = CubismMotionCurveTarget_Model, c_id = ''LipSync'',
                   segmentCount = 1, baseSegmentIndex = 0, fadeInTime = -1, fadeOutTime = -1 \<rparr>],
       segments = [\<lparr> evaluate = linearEvaluate, basePointIndex = 0,
                     segmentType = CubismMotionSegmentType_Linear \<rparr>],
       points = [\<lparr> p_time = 0, p_value = 1/2 \<rparr>, \<lparr> p_time = 2, p_value = 1/2 \<rparr>],
       events = [] \<rparr>"

definition lipsync_motion :: CubismOverrideMotion where
  "lipsync_motion =
     scenario_motion\<lparr> motionData := Some lipsync_md, eyeBlinkParameterIds := Some [],
                       lipSyncParameterIds := Some [''ParamMouthOpenY''] \<rparr>"

definition mouth_model :: CubismModel where
  "mouth_model =
     \<lparr> parameterIds = [''ParamMouthOpenY''], partIds = [], getParameterIndex = (\<lambda>name. -1) \<rparr>"

text \<open>
  A motion with an eye-blink curve of the constant value 1/2, no Parameter curve, and 65
  eye-blink targets with pairwise distinct identifiers: \<open>x\<close>, \<open>xx\<close>, and so on.
\<close>

definition eyeblink_md :: CubismMotionData where
  "eyeblink_md =
     \<lparr> duration = 2, loop = False, curveCount = 1, eventCount = 0, fps = 30,
       curves = [\<lparr> c_type = CubismMotionCurveTarget_Model, c_id = ''EyeBlink'',
                   segmentCount = 1, baseSegmentIndex = 0, fadeInTime = -1, fadeOutTime = -1 \<rparr>],
       segments = [\<lparr> evaluate = linearEvaluate, basePointIndex = 0,
                     segmentType = CubismMotionSegmentType_Linear \<rparr>],
       points = [\<lparr> p_time = 0, p_value = 1/2 \<rparr>, \<lparr> p_time = 2, p_value = 1/2 \<rparr>],
       events = [] \<rparr>"

definition manyTargets :: "string list" where
  "manyTargets = map (\<lambda>n. replicate (Suc n) CHR ''x'') [0..<65]"

definition eyeblink_motion :: CubismOverrideMotion where
  "eyeblink_motion =
     scenario_motion\<lparr> motionData := Some eyeblink_md, eyeBlinkParameterIds := Some manyTargets,
                       lipSyncParameterIds := Some [] \<rparr>"

text \<open>
  A motion with an eye-blink curve, a Parameter curve on the first of two eye-blink
  targets, and a per-curve fade-in of half a second on that curve.
\<close>

definition blink_md :: CubismMotionData where
  "blink_md =
     \<lparr> duration = 2, loop = False, curveCount = 2, eventCount = 0, fps = 30,
       curves = [\<lparr> c_type = CubismMotionCurveTarget_Model, c_id = ''EyeBlink'',
                   segmentCount = 1, baseSegmentIndex = 0, fadeInTime = -1, fadeOutTime = -1 \<rparr>,
                 \<lparr> c_type = CubismMotionCurveTarget_Parameter, c_id = ''ParamEyeLOpen'',
                   segmentCount = 1, baseSegmentIndex = 1, fadeInTime = 1/2, fadeOutTime = -1 \<rparr>],
       segments = [\<lparr> evaluate = linearEvaluate, basePointIndex = 0,
                     segmentType = CubismMotionSegmentType_Linear \<rparr>,
                   \<lparr> evaluate = linearEvaluate, basePointIndex = 2,
                     segmentType = CubismMotionSegmentType_Linear \<rparr>],
       points = [\<lparr> p_time = 0, p_value = 1/2 \<rparr>, \<lparr> p_time = 2, p_value = 1/2 \<rparr>,
                 \<lparr> p_time = 0, p_value = 0 \<rparr>, \<lparr> p_time = 2, p_value = 1 \<rparr>],
       events = [] \<rparr>"

definition blink_motion :: CubismOverrideMotion where
  "blink_motion =
     scenario_motion\<lparr> motionData := Some blink_md,
                       eyeBlinkParameterIds := Some [''ParamEyeLOpen'', ''ParamEyeROpen''],
                       lipSyncParameterIds := Some [] \<rparr>"

definition eye_model :: CubismModel where
  "eye_model =
     \<lparr> parameterIds = [''ParamEyeLOpen'', ''ParamEyeROpen''], partIds = [],
       getParameterIndex = (\<lambda>name. -1) \<rparr>"

text \<open>
  A motion of four Parameter curves on one Linear segment from \<open>(0, 0)\<close> to \<open>(2, 1)\<close>,
  with the per-curve fade times \<open>(-1, -1)\<close>, \<open>(1/2, -1)\<close>, \<open>(-1, 0)\<close> and \<open>(0, 0)\<close>; a model
  with the four parameters; and an entry that ends at 1 second, so that the asset-level
  fade-out ramps.
\<close>

definition fade_md :: CubismMotionData where
  "fade_md =
     \<lparr> duration = 2, loop = False, curveCount = 4, eventCount = 0, fps = 30,
       curves = [\<lparr> c_type = CubismMotionCurveTarget_Parameter, c_id = ''ParamA'',
                   segmentCount = 1, baseSegmentIndex = 0, fadeInTime = -1, fadeOutTime = -1 \<rparr>,
                 \<lparr> c_type = CubismMotionCurveTarget_Parameter, c_id = ''ParamB'',
                   segmentCount = 1, baseSegmentIndex = 0, fadeInTime = 1/2, fadeOutTime = -1 \<rparr>,
                 \<lparr> c_type = CubismMotionCurveTarget_Parameter, c_id = ''ParamC'',
                   segmentCount = 1, baseSegmentIndex = 0, fadeInTime = -1, fadeOutTime = 0 \<rparr>,
                 \<lparr> c_type = CubismMotionCurveTarget_Parameter, c_id = ''ParamD'',
                   segmentCount = 1, baseSegmentIndex = 0, fadeInTime = 0, fadeOutTime = 0 \<rparr>],
       segments = [\<lparr> evaluate = linearEvaluate, basePointIndex = 0,
                     segmentType = CubismMotionSegmentType_Linear \<rparr>],
       points = [\<lparr> p_time = 0, p_value = 0 \<rparr>, \<lparr> p_time = 2, p_value = 1 \<rparr>],
       events = [] \<rparr>"

definition fade_motion :: CubismOverrideMotion where
  "fade_motion = scenario_motion\<lparr> motionData := Some fade_md \<rparr>"

definition fade_model :: CubismModel where
  "fade_model =
     \<lparr> parameterIds = [''ParamA'', ''ParamB'', ''ParamC'', ''ParamD''], partIds = [],
       getParameterIndex = (\<lambda>name. -1) \<rparr>"

definition ending_entry :: CubismMotionQueueEntry where
  "ending_entry =
     \<lparr> startTimeSeconds = 0, fadeInStartTimeSeconds = 0, endTimeSeconds = 1, finished = False \<rparr>"

text \<open>
  The motion of \<open>blink_md\<close> with 33 eye-blink targets of pairwise distinct identifiers,
  the target that the Parameter curve drives being the last of them; and with the target
  that the Parameter curve drives listed twice.
\<close>

definition aliasTargets :: "string list" where
  "aliasTargets = map (\<lambda>n. replicate (Suc n) CHR ''x'') [0..<32] @ [''ParamEyeLOpen'']"

definition alias_motion :: CubismOverrideMotion where
  "alias_motion = blink_motion\<lparr> eyeBlinkParameterIds := Some aliasTargets \<rparr>"

definition twin_motion :: CubismOverrideMotion where
  "twin_motion =
     blink_motion\<lparr> eyeBlinkParameterIds := Some [''ParamEyeLOpen'', ''ParamEyeLOpen''] \<rparr>"

section \<open>Parsing a motion\<close>

text \<open>
  The motion JSON that \<^verbatim>\<open>parse\<close> reads, with the members it uses. A member that may be
  absent is an option. \<^verbatim>\<open>JSON.parse\<close> may also give a falsy value (\<^verbatim>\<open>null\<close>, \<^verbatim>\<open>0\<close>,
  \<^verbatim>\<open>false\<close>, an empty string): that is \<open>None\<close> for the whole document.
\<close>

record MotionJsonMeta =
  Duration :: real
  Loop :: bool
  CurveCount :: nat
  Fps :: real
  UserDataCount :: nat
  TotalSegmentCount :: nat
  TotalPointCount :: nat
  AreBeziersRestricted :: bool
  MetaFadeInTime :: "real option"
  MetaFadeOutTime :: "real option"

record MotionJsonCurve =
  Target :: string
  CurveId :: string
  FadeInTime :: "real option"
  FadeOutTime :: "real option"
  Segments :: "real list"

record MotionJsonUserData =
  Time :: real
  Value :: string

record MotionJson =
  Meta :: MotionJsonMeta
  Curves :: "MotionJsonCurve list"
  UserData :: "MotionJsonUserData list option"

text \<open>
  What \<^verbatim>\<open>parse\<close> takes from the framework, which is not part of the sources: the
  elements that \<^verbatim>\<open>updateSize\<close> fills the vectors with (the values the constructors of
  the curve, segment, point and event classes give), whether \<^verbatim>\<open>CSM_ASSERT\<close> throws when
  its argument is false, and the cubic solver.
\<close>

record Framework =
  newCurve :: CubismMotionCurve
  newSegment :: CubismMotionSegment
  newPoint :: CubismMotionPoint
  newEvent :: CubismMotionEvent
  assertThrows :: bool
  cardanoAlgorithmForBezier :: "real \<Rightarrow> real \<Rightarrow> real \<Rightarrow> real \<Rightarrow> real"

text \<open>
  The state of the two nested loops of \<^verbatim>\<open>parse\<close>: the motion data under construction
  and the running totals. An element of the segment stream read past its end is
  \<^verbatim>\<open>undefined\<close> in the source, which stores it in the point without throwing; the model
  stores 0 and sets \<open>undefinedStored\<close>.
\<close>

record ParseState =
  parsed :: CubismMotionData
  totalPointCount :: nat
  totalSegmentCount :: nat
  undefinedStored :: bool

definition streamNumber :: "real list \<Rightarrow> nat \<Rightarrow> real" where
  "streamNumber segs k = (if k < length segs then segs ! k else 0)"

text \<open>
  \<^verbatim>\<open>points.at(i).time = Segments[k]; points.at(i).value = Segments[k + 1]\<close>: a
  TypeError when the point vector has no element \<open>i\<close>.
\<close>

definition storePoint :: "real list \<Rightarrow> nat \<Rightarrow> nat \<Rightarrow> ParseState \<Rightarrow> ParseState option" where
  "storePoint segs i k st =
     (if i < length (points (parsed st)) then
        Some (st\<lparr> parsed := (parsed st)\<lparr> points := (points (parsed st))
                         [i := \<lparr> p_time = streamNumber segs k,
                                 p_value = streamNumber segs (k + 1) \<rparr>] \<rparr>,
                  undefinedStored := undefinedStored st \<or> \<not> k + 1 < length segs \<rparr>)
      else None)"

text \<open>
  An assignment to a field of \<^verbatim>\<open>segments.at(totalSegmentCount)\<close>: a TypeError when the
  segment vector has no such element.
\<close>

definition updateSegment :: "(CubismMotionSegment \<Rightarrow> CubismMotionSegment) \<Rightarrow> ParseState \<Rightarrow>
    ParseState option" where
  "updateSegment f st =
     (if totalSegmentCount st < length (segments (parsed st)) then
        Some (st\<lparr> parsed := (parsed st)\<lparr> segments := (segments (parsed st))
                         [totalSegmentCount st := f (segments (parsed st) ! totalSegmentCount st)] \<rparr> \<rparr>)
      else None)"

text \<open>
  The head of an iteration of the segment loop (lines 1088 to 1102): the first iteration
  of a curve stores the curve's first point and moves on by two; a later one shares the
  previous point.
\<close>

definition beginSegment :: "real list \<Rightarrow> nat \<Rightarrow> ParseState \<Rightarrow> (ParseState \<times> nat) option" where
  "beginSegment segs segmentPosition st =
     (if segmentPosition = 0 then
        (case updateSegment (\<lambda>s. s\<lparr> basePointIndex := totalPointCount st \<rparr>) st of
           None \<Rightarrow> None
         | Some st1 \<Rightarrow>
             (case storePoint segs (totalPointCount st1) segmentPosition st1 of
                None \<Rightarrow> None
              | Some st2 \<Rightarrow>
                  Some (st2\<lparr> totalPointCount := totalPointCount st2 + 1 \<rparr>, segmentPosition + 2)))
      else
        map_option (\<lambda>st1. (st1, segmentPosition))
          (updateSegment (\<lambda>s. s\<lparr> basePointIndex := totalPointCount st - 1 \<rparr>) st))"

text \<open>
  The switch on the segment type code (lines 1104 to 1194). An element read past the end
  of the stream is \<^verbatim>\<open>undefined\<close> and takes the default branch, as every code other than
  0, 1, 2 and 3 does; the default branch calls \<^verbatim>\<open>CSM_ASSERT(0)\<close> and leaves the position
  where it is.
\<close>

definition parseSegment :: "Framework \<Rightarrow> bool \<Rightarrow> real list \<Rightarrow> nat \<Rightarrow> ParseState \<Rightarrow>
    (ParseState \<times> nat) option" where
  "parseSegment fw areBeziersRestricted segs segmentPosition st =
     (let code = csmVector_at segs segmentPosition in
      if code = Some 0 then
        (case updateSegment (\<lambda>s. s\<lparr> segmentType := CubismMotionSegmentType_Linear,
                                     evaluate := linearEvaluate \<rparr>) st of
           None \<Rightarrow> None
         | Some st1 \<Rightarrow>
             (case storePoint segs (totalPointCount st1) (segmentPosition + 1) st1 of
                None \<Rightarrow> None
              | Some st2 \<Rightarrow>
                  Some (st2\<lparr> totalPointCount := totalPointCount st2 + 1 \<rparr>, segmentPosition + 3)))
      else if code = Some 1 then
        (case updateSegment (\<lambda>s. s\<lparr> segmentType := CubismMotionSegmentType_Bezier,
                                     evaluate := (if areBeziersRestricted then bezierEvaluate
                                                  else bezierEvaluateCardanoInterpretation
                                                         (cardanoAlgorithmForBezier fw)) \<rparr>) st of
           None \<Rightarrow> None
         | Some st1 \<Rightarrow>
             (case storePoint segs (totalPointCount st1) (segmentPosition + 1) st1 of
                None \<Rightarrow> None
              | Some st2 \<Rightarrow>
             (case storePoint segs (totalPointCount st2 + 1) (segmentPosition + 3) st2 of
                None \<Rightarrow> None
              | Some st3 \<Rightarrow>
             (case storePoint segs (totalPointCount st3 + 2) (segmentPosition + 5) st3 of
                None \<Rightarrow> None
              | Some st4 \<Rightarrow>
                  Some (st4\<lparr> totalPointCount := totalPointCount st4 + 3 \<rparr>, segmentPosition + 7)))))
      else if code = Some 2 then
        (case updateSegment (\<lambda>s. s\<lparr> segmentType := CubismMotionSegmentType_Stepped,
                                     evaluate := steppedEvaluate \<rparr>) st of
           None \<Rightarrow> None
         | Some st1 \<Rightarrow>
             (case storePoint segs (totalPointCount st1) (segmentPosition + 1) st1 of
                None \<Rightarrow> None
              | Some st2 \<Rightarrow>
                  Some (st2\<lparr> totalPointCount := totalPointCount st2 + 1 \<rparr>, segmentPosition + 3)))
      else if code = Some 3 then
        (case updateSegment (\<lambda>s. s\<lparr> segmentType := CubismMotionSegmentType_InverseStepped,
                                     evaluate := inverseSteppedEvaluate \<rparr>) st of
           None \<Rightarrow> None
         | Some st1 \<Rightarrow>
             (case storePoint segs (totalPointCount st1) (segmentPosition + 1) st1 of
                None \<Rightarrow> None
              | Some st2 \<Rightarrow>
                  Some (st2\<lparr> totalPointCount := totalPointCount st2 + 1 \<rparr>, segmentPosition + 3)))
      else if assertThrows fw then None
      else Some (st, segmentPosition))"

text \<open>The end of an iteration (lines 1196 and 1197).\<close>

definition countSegment :: "nat \<Rightarrow> ParseState \<Rightarrow> ParseState option" where
  "countSegment curveIndex st =
     (if curveIndex < length (curves (parsed st)) then
        Some (st\<lparr> parsed := (parsed st)\<lparr> curves := (curves (parsed st))
                         [curveIndex := (curves (parsed st) ! curveIndex)
                            \<lparr> segmentCount := segmentCount (curves (parsed st) ! curveIndex) + 1 \<rparr>] \<rparr>,
                  totalSegmentCount := totalSegmentCount st + 1 \<rparr>)
      else None)"

text \<open>The loop over the segment stream of one curve (lines 1083 to 1198).\<close>

function parseSegments :: "Framework \<Rightarrow> bool \<Rightarrow> real list \<Rightarrow> nat \<Rightarrow> nat \<Rightarrow> ParseState \<Rightarrow>
    ParseState option" where
  "parseSegments fw areBeziersRestricted segs curveIndex segmentPosition st =
     (if segmentPosition < length segs then
        (case beginSegment segs segmentPosition st of
           None \<Rightarrow> None
         | Some (st1, pos1) \<Rightarrow>
             (case parseSegment fw areBeziersRestricted segs pos1 st1 of
                None \<Rightarrow> None
              | Some (st2, pos2) \<Rightarrow>
                  (case countSegment curveIndex st2 of
                     None \<Rightarrow> None
                   | Some st3 \<Rightarrow>
                       parseSegments fw areBeziersRestricted segs curveIndex pos2 st3)))
      else Some st)"
  by pat_completeness auto

lemma storePoint_keeps:
  "storePoint segs i k st = Some st' \<Longrightarrow>
     length (segments (parsed st')) = length (segments (parsed st)) \<and>
     totalSegmentCount st' = totalSegmentCount st \<and>
     curveCount (parsed st') = curveCount (parsed st) \<and>
     length (curves (parsed st')) = length (curves (parsed st))"
  by (auto simp add: storePoint_def split: if_splits)

lemma updateSegment_keeps:
  "updateSegment f st = Some st' \<Longrightarrow>
     totalSegmentCount st < length (segments (parsed st)) \<and>
     length (segments (parsed st')) = length (segments (parsed st)) \<and>
     totalSegmentCount st' = totalSegmentCount st \<and>
     curveCount (parsed st') = curveCount (parsed st) \<and>
     length (curves (parsed st')) = length (curves (parsed st))"
  by (auto simp add: updateSegment_def split: if_splits)

lemma beginSegment_keeps:
  "beginSegment segs pos st = Some (st', pos') \<Longrightarrow>
     totalSegmentCount st < length (segments (parsed st)) \<and>
     length (segments (parsed st')) = length (segments (parsed st)) \<and>
     totalSegmentCount st' = totalSegmentCount st \<and>
     curveCount (parsed st') = curveCount (parsed st) \<and>
     length (curves (parsed st')) = length (curves (parsed st))"
  by (auto simp add: beginSegment_def split: if_splits option.splits
      dest!: storePoint_keeps updateSegment_keeps)

lemma parseSegment_keeps:
  "parseSegment fw r segs pos st = Some (st', pos') \<Longrightarrow>
     length (segments (parsed st')) = length (segments (parsed st)) \<and>
     totalSegmentCount st' = totalSegmentCount st \<and>
     curveCount (parsed st') = curveCount (parsed st) \<and>
     length (curves (parsed st')) = length (curves (parsed st))"
  by (auto simp add: parseSegment_def Let_def split: if_splits option.splits
      dest!: storePoint_keeps updateSegment_keeps)

lemma countSegment_keeps:
  "countSegment c st = Some st' \<Longrightarrow>
     length (segments (parsed st')) = length (segments (parsed st)) \<and>
     totalSegmentCount st' = totalSegmentCount st + 1 \<and>
     curveCount (parsed st') = curveCount (parsed st) \<and>
     length (curves (parsed st')) = length (curves (parsed st))"
  by (auto simp add: countSegment_def split: if_splits)

termination parseSegments
proof (relation "measure (\<lambda>(fw, r, segs, c, pos, st).
          length (segments (parsed st)) - totalSegmentCount st)", goal_cases)
  case 1
  show ?case by simp
next
  case (2 fw r segs c pos st x2 st1 pos1 x2a st2 pos2 st3)
  from beginSegment_keeps[of segs pos st st1 pos1] 2
  have a: "totalSegmentCount st < length (segments (parsed st))"
    "length (segments (parsed st1)) = length (segments (parsed st))"
    "totalSegmentCount st1 = totalSegmentCount st" by auto
  from parseSegment_keeps[of fw r segs pos1 st1 st2 pos2] 2
  have b: "length (segments (parsed st2)) = length (segments (parsed st1))"
    "totalSegmentCount st2 = totalSegmentCount st1" by auto
  from countSegment_keeps[of c st2 st3] 2
  have c: "length (segments (parsed st3)) = length (segments (parsed st2))"
    "totalSegmentCount st3 = totalSegmentCount st2 + 1" by auto
  show ?case using a b c by simp
qed

declare parseSegments.simps [simp del]

lemma parseSegments_keeps:
  "parseSegments fw r segs c pos st = Some st' \<Longrightarrow>
     curveCount (parsed st') = curveCount (parsed st) \<and>
     length (curves (parsed st')) = length (curves (parsed st))"
proof (induction fw r segs c pos st rule: parseSegments.induct)
  case (1 fw r segs c pos st)
  show ?case
  proof (cases "pos < length segs")
    case False
    with "1.prems" show ?thesis by (simp add: parseSegments.simps)
  next
    case True
    from "1.prems" True obtain st1 pos1 st2 pos2 st3 where
      s: "beginSegment segs pos st = Some (st1, pos1)"
         "parseSegment fw r segs pos1 st1 = Some (st2, pos2)"
         "countSegment c st2 = Some st3"
         "parseSegments fw r segs c pos2 st3 = Some st'"
      by (subst (asm) parseSegments.simps) (auto split: option.splits)
    from "1.IH"[OF True s(1) refl s(2) refl s(3) s(4)]
      beginSegment_keeps[OF s(1)] parseSegment_keeps[OF s(2)] countSegment_keeps[OF s(3)]
    show ?thesis by simp
  qed
qed

text \<open>The head of an iteration of the curve loop (lines 1052 to 1080).\<close>

definition beginCurve :: "MotionJsonCurve \<Rightarrow> nat \<Rightarrow> ParseState \<Rightarrow> ParseState option" where
  "beginCurve curve curveIndex st =
     (if curveIndex < length (curves (parsed st)) then
        (let old = curves (parsed st) ! curveIndex;
             typed = (if Target curve = ''Model''
                        then old\<lparr> c_type := CubismMotionCurveTarget_Model \<rparr>
                      else if Target curve = ''Parameter''
                        then old\<lparr> c_type := CubismMotionCurveTarget_Parameter \<rparr>
                      else if Target curve = ''PartOpacity''
                        then old\<lparr> c_type := CubismMotionCurveTarget_PartOpacity \<rparr>
                      else old);
             new = typed\<lparr> c_id := CurveId curve,
                           baseSegmentIndex := totalSegmentCount st,
                           fadeInTime := (case FadeInTime curve of Some t \<Rightarrow> t | None \<Rightarrow> -1),
                           fadeOutTime := (case FadeOutTime curve of Some t \<Rightarrow> t | None \<Rightarrow> -1) \<rparr>
         in Some (st\<lparr> parsed := (parsed st)\<lparr> curves := (curves (parsed st))[curveIndex := new] \<rparr> \<rparr>))
      else None)"

text \<open>
  The loop over the curves (lines 1047 to 1199). Reading a member of
  \<^verbatim>\<open>json.Curves[curveCount]\<close> throws when the array has no such element.
\<close>

function parseCurves :: "Framework \<Rightarrow> MotionJson \<Rightarrow> nat \<Rightarrow> ParseState \<Rightarrow> ParseState option" where
  "parseCurves fw json curveIndex st =
     (if curveIndex < curveCount (parsed st) then
        (case csmVector_at (Curves json) curveIndex of
           None \<Rightarrow> None
         | Some curve \<Rightarrow>
             (case beginCurve curve curveIndex st of
                None \<Rightarrow> None
              | Some st1 \<Rightarrow>
                  (case parseSegments fw (AreBeziersRestricted (Meta json)) (Segments curve)
                          curveIndex 0 st1 of
                     None \<Rightarrow> None
                   | Some st2 \<Rightarrow> parseCurves fw json (Suc curveIndex) st2)))
      else Some st)"
  by pat_completeness auto

lemma beginCurve_keeps:
  "beginCurve curve c st = Some st' \<Longrightarrow> curveCount (parsed st') = curveCount (parsed st)"
  by (auto simp add: beginCurve_def Let_def split: if_splits)

termination parseCurves
proof (relation "measure (\<lambda>(fw, json, c, st). curveCount (parsed st) - c)", goal_cases)
  case 1
  show ?case by simp
next
  case (2 fw json c st curve st1 st2)
  from beginCurve_keeps[of curve c st st1] parseSegments_keeps[of fw _ _ c 0 st1 st2] 2
  show ?case by auto
qed

declare parseCurves.simps [simp del]

text \<open>The loop over the user data (lines 1201 to 1213).\<close>

function parseUserData :: "MotionJsonUserData list \<Rightarrow> nat \<Rightarrow> nat \<Rightarrow> CubismMotionData \<Rightarrow>
    CubismMotionData option" where
  "parseUserData userData userDataCount k md =
     (if k < userDataCount then
        (if k < length (events md) then
           (case csmVector_at userData k of
              None \<Rightarrow> None
            | Some u \<Rightarrow>
                parseUserData userData userDataCount (Suc k)
                  (md\<lparr> events := (events md)[k := \<lparr> fireTime = Time u, ev_value = Some (Value u) \<rparr>] \<rparr>))
         else None)
      else Some md)"
  by pat_completeness auto
termination
  by (relation "measure (\<lambda>(userData, userDataCount, k, md). userDataCount - k)") auto

declare parseUserData.simps [simp del]

text \<open>
  \<^verbatim>\<open>parse\<close> (lines 983 to 1214): the motion it leaves, and whether an \<^verbatim>\<open>undefined\<close> was
  stored in a point; \<open>Throws\<close> is a TypeError. The parameters \<^verbatim>\<open>model\<close>, \<^verbatim>\<open>size\<close> and
  \<^verbatim>\<open>shouldCheckMotionConsistency\<close> of the source are not used by it.
\<close>

definition parse :: "Framework \<Rightarrow> CubismOverrideMotion \<Rightarrow> MotionJson option \<Rightarrow>
    (CubismOverrideMotion \<times> bool) outcome" where
  "parse fw m json =
     (case json of
        None \<Rightarrow> Returns (m, False)
      | Some j \<Rightarrow>
          (let md0 = \<lparr> duration = Duration (Meta j), loop = Loop (Meta j),
                       curveCount = CurveCount (Meta j), eventCount = UserDataCount (Meta j),
                       fps = Fps (Meta j),
                       curves = replicate (CurveCount (Meta j)) (newCurve fw),
                       segments = replicate (TotalSegmentCount (Meta j)) (newSegment fw),
                       points = replicate (TotalPointCount (Meta j)) (newPoint fw),
                       events = replicate (UserDataCount (Meta j)) (newEvent fw) \<rparr>;
               m1 = m\<lparr> fadeInSeconds :=
                           (case MetaFadeInTime (Meta j) of
                              Some t \<Rightarrow> if t < 0 then 1 else t | None \<Rightarrow> 1),
                         fadeOutSeconds :=
                           (case MetaFadeOutTime (Meta j) of
                              Some t \<Rightarrow> if t < 0 then 1 else t | None \<Rightarrow> 1) \<rparr>
           in (case parseCurves fw j 0
                     \<lparr> parsed = md0, totalPointCount = 0, totalSegmentCount = 0,
                       undefinedStored = False \<rparr> of
                 None \<Rightarrow> Throws
               | Some st \<Rightarrow>
                   (case (case UserData j of
                            None \<Rightarrow> Some (parsed st)
                          | Some userData \<Rightarrow>
                              parseUserData userData (UserDataCount (Meta j)) 0 (parsed st)) of
                      None \<Rightarrow> Throws
                    | Some md \<Rightarrow> Returns (m1\<lparr> motionData := Some md \<rparr>, undefinedStored st)))))"

text \<open>
  The constructor (lines 909 to 925), applied to the object that the constructor of the
  framework's base class leaves, and the field initializer of \<^verbatim>\<open>_motionBehavior\<close>.
\<close>

definition newMotion :: "CubismOverrideMotion \<Rightarrow> CubismOverrideMotion" where
  "newMotion base =
     base\<lparr> sourceFrameRate := 30, loopDurationSeconds := -1, isLoop := False,
           isLoopFadeIn := True, lastWeight := 0, motionData := None,
           eyeBlinkParameterIds := None, lipSyncParameterIds := None, modelOpacity := 1,
           eyeBlinkAdditive := False, lipSyncAdditive := False,
           parameterAdditiveIndicies := [], partOpacityAdditiveIndicies := [],
           motionBehavior := MotionBehavior_V2 \<rparr>"

text \<open>
  \<^verbatim>\<open>create\<close> (lines 376 to 400): \<open>Returns None\<close> is the result \<^verbatim>\<open>null\<close>. An exception of
  \<^verbatim>\<open>parse\<close> is not caught. The field \<^verbatim>\<open>_onBeganMotion\<close> is left out of the record, and
  the registered handler is the flag \<open>onFinishedMotion\<close>.
\<close>

definition create :: "Framework \<Rightarrow> CubismOverrideMotion \<Rightarrow> MotionJson option \<Rightarrow> bool \<Rightarrow>
    CubismOverrideMotion option outcome" where
  "create fw base json onFinishedMotionHandler =
     (case parse fw (newMotion base) json of
        Diverges \<Rightarrow> Diverges
      | Throws \<Rightarrow> Throws
      | Returns (ret, u) \<Rightarrow>
          (case motionData ret of
             Some md \<Rightarrow>
               Returns (Some (ret\<lparr> sourceFrameRate := fps md,
                                   loopDurationSeconds := duration md,
                                   onFinishedMotion := onFinishedMotionHandler \<rparr>))
           | None \<Rightarrow> Returns None))"

text \<open>
  A motion JSON of one curve whose segment stream holds the type code 7: the first point
  \<open>(0, 0)\<close>, then the code 7 with the coordinates \<open>(1, 1)\<close>. The framework values are
  those of its constructors, with a \<^verbatim>\<open>CSM_ASSERT\<close> that does not throw.
\<close>

definition bad_json :: MotionJson where
  "bad_json =
     \<lparr> Meta = \<lparr> Duration = 1, Loop = False, CurveCount = 1, Fps = 30, UserDataCount = 0,
                TotalSegmentCount = 1, TotalPointCount = 2, AreBeziersRestricted = False,
                MetaFadeInTime = None, MetaFadeOutTime = None \<rparr>,
       Curves = [\<lparr> Target = ''Parameter'', CurveId = ''ParamAngleX'', FadeInTime = None,
                   FadeOutTime = None, Segments = [0, 0, 7, 1, 1] \<rparr>],
       UserData = None \<rparr>"

definition framework0 :: Framework where
  "framework0 =
     \<lparr> newCurve = \<lparr> c_type = CubismMotionCurveTarget_Model, c_id = [], segmentCount = 0,
                    baseSegmentIndex = 0, fadeInTime = 0, fadeOutTime = 0 \<rparr>,
       newSegment = \<lparr> evaluate = (\<lambda>pts time. None), basePointIndex = 0,
                      segmentType = CubismMotionSegmentType_Linear \<rparr>,
       newPoint = \<lparr> p_time = 0, p_value = 0 \<rparr>,
       newEvent = \<lparr> fireTime = 0, ev_value = None \<rparr>,
       assertThrows = False,
       cardanoAlgorithmForBezier = (\<lambda>a b c d. 0) \<rparr>"

text \<open>The same document with the recognized type code 0 in place of 7.\<close>

definition good_json :: MotionJson where
  "good_json =
     bad_json\<lparr> Curves := [\<lparr> Target = ''Parameter'', CurveId = ''ParamAngleX'', FadeInTime = None,
                              FadeOutTime = None, Segments = [0, 0, 0, 1, 1] \<rparr>] \<rparr>"

text \<open>
  A document that declares one event and has no \<^verbatim>\<open>UserData\<close>: the event keeps the fire time
  0 of its constructor and is given no payload.
\<close>

definition nodata_json :: MotionJson where
  "nodata_json =
     \<lparr> Meta = \<lparr> Duration = 1, Loop = False, CurveCount = 0, Fps = 30, UserDataCount = 1,
                TotalSegmentCount = 0, TotalPointCount = 0, AreBeziersRestricted = False,
                MetaFadeInTime = None, MetaFadeOutTime = None \<rparr>,
       Curves = [], UserData = None \<rparr>"

text \<open>
  Whether the segment stream of a curve holds a type code other than 0, 1, 2 and 3, read
  from position \<open>segmentPosition\<close> on: the stream is the first point (two numbers), then
  for each segment its type code followed by two numbers, or by six for a Bezier segment
  (code 1).
\<close>

function unrecognizedTypeCode :: "real list \<Rightarrow> nat \<Rightarrow> bool" where
  "unrecognizedTypeCode segs segmentPosition =
     (if segmentPosition < length segs then
        (if segs ! segmentPosition = 1 then unrecognizedTypeCode segs (segmentPosition + 7)
         else if segs ! segmentPosition = 0 \<or> segs ! segmentPosition = 2 \<or>
                 segs ! segmentPosition = 3
           then unrecognizedTypeCode segs (segmentPosition + 3)
         else True)
      else False)"
  by pat_completeness auto
termination
  by (relation "measure (\<lambda>(segs, segmentPosition). length segs - segmentPosition)") auto

declare unrecognizedTypeCode.simps [simp del]

section \<open>Properties\<close>

subsection \<open>Vector access\<close>

lemma csmVector_at_Some [simp]: "i < length xs \<Longrightarrow> csmVector_at xs i = Some (xs ! i)"
  by (simp add: csmVector_at_def)

lemma csmVector_at_None [simp]: "\<not> i < length xs \<Longrightarrow> csmVector_at xs i = None"
  by (simp add: csmVector_at_def)

lemma take_drop_nth: "b + n \<le> length xs \<Longrightarrow> take n (drop b xs) = map ((!) xs) [b..<b + n]"
  by (simp add: list_eq_iff_nth_eq)

lemma find_map_option: "find P (map f xs) = map_option f (find (P \<circ> f) xs)"
  by (induction xs) auto

subsection \<open>The segment scan\<close>

text \<open>
  The scan returns the first index from \<open>i\<close> on whose last control point lies after
  the query time, and otherwise the last position it computed.
\<close>

lemma findSegment_scan:
  assumes "segmentEnd \<le> length (segments md)"
    and "\<forall>j. i \<le> j \<and> j < segmentEnd \<longrightarrow> lastControlPoint (segments md ! j) < length (points md)"
  shows "findSegment md time segmentEnd i pointPosition =
     (case find (\<lambda>j. time < p_time (points md ! lastControlPoint (segments md ! j))) [i..<segmentEnd] of
        Some j \<Rightarrow> Some (Some j, lastControlPoint (segments md ! j))
      | None \<Rightarrow> Some (None, if i < segmentEnd
                              then lastControlPoint (segments md ! (segmentEnd - 1))
                              else pointPosition))"
  using assms
proof (induction md time segmentEnd i pointPosition rule: findSegment.induct)
  case (1 md time segmentEnd i pointPosition)
  show ?case
  proof (cases "i < segmentEnd")
    case False
    then show ?thesis by (simp add: findSegment.simps)
  next
    case True
    let ?seg = "segments md ! i"
    let ?pp = "lastControlPoint ?seg"
    have seg: "csmVector_at (segments md) i = Some ?seg" using True "1.prems"(1) by simp
    have pp: "csmVector_at (points md) ?pp = Some (points md ! ?pp)" using True "1.prems"(2) by simp
    have upt: "[i..<segmentEnd] = i # [Suc i..<segmentEnd]"
      using True by (simp add: upt_conv_Cons)
    show ?thesis
    proof (cases "time < p_time (points md ! ?pp)")
      case hit: True
      show ?thesis
        apply (subst findSegment.simps)
        using True seg pp hit upt by (simp add: lastControlPoint_def Let_def)
    next
      case miss: False
      have IH: "findSegment md time segmentEnd (Suc i) ?pp =
        (case find (\<lambda>j. time < p_time (points md ! lastControlPoint (segments md ! j))) [Suc i..<segmentEnd] of
        Some j \<Rightarrow> Some (Some j, lastControlPoint (segments md ! j))
      | None \<Rightarrow> Some (None, if Suc i < segmentEnd
                              then lastControlPoint (segments md ! (segmentEnd - 1))
                              else ?pp))"
        apply (rule "1.IH"[OF True seg _ pp])
        using miss "1.prems" by (auto simp: lastControlPoint_def)
      have last: "\<not> Suc i < segmentEnd \<Longrightarrow> segmentEnd - 1 = i" using True by simp
      show ?thesis
        apply (subst findSegment.simps)
        using True seg pp miss upt IH last
        by (auto simp add: lastControlPoint_def Let_def split: option.splits)
    qed
  qed
qed

lemma curveSegments_nth:
  assumes "curveInRange md index"
  shows "curveSegments md (curves md ! index) =
     map ((!) (segments md)) [baseSegmentIndex (curves md ! index)..<
        baseSegmentIndex (curves md ! index) + segmentCount (curves md ! index)]"
  using assms by (simp add: curveInRange_def curveSegments_def take_drop_nth)

lemma findSegment_curve:
  assumes "curveInRange md index"
  shows "findSegment md time (baseSegmentIndex (curves md ! index) + segmentCount (curves md ! index))
           (baseSegmentIndex (curves md ! index)) 0 =
     (case find (\<lambda>j. time < p_time (points md ! lastControlPoint (segments md ! j)))
          [baseSegmentIndex (curves md ! index)..<
           baseSegmentIndex (curves md ! index) + segmentCount (curves md ! index)] of
        Some j \<Rightarrow> Some (Some j, lastControlPoint (segments md ! j))
      | None \<Rightarrow> Some (None, lastControlPoint (last (curveSegments md (curves md ! index)))))"
proof -
  let ?c = "curves md ! index"
  let ?b = "baseSegmentIndex ?c"
  let ?n = "segmentCount ?c"
  have le: "?b + ?n \<le> length (segments md)" and pos: "1 \<le> ?n"
    using assms by (simp_all add: curveInRange_def)
  have rng: "\<forall>j. ?b \<le> j \<and> j < ?b + ?n \<longrightarrow> lastControlPoint (segments md ! j) < length (points md)"
  proof (intro allI impI)
    fix j assume j: "?b \<le> j \<and> j < ?b + ?n"
    then have "segments md ! j \<in> set (curveSegments md ?c)"
      unfolding curveSegments_nth[OF assms] by auto
    then show "lastControlPoint (segments md ! j) < length (points md)"
      using assms by (simp add: curveInRange_def)
  qed
  have last: "last (curveSegments md ?c) = segments md ! (?b + ?n - 1)"
    unfolding curveSegments_nth[OF assms] using pos by (simp add: last_map)
  show ?thesis
    unfolding findSegment_scan[OF le rng] last using pos by simp
qed

lemma curveInRange_bezier_md: "curveInRange bezier_md 0"
  by (simp add: curveInRange_def bezier_md_def curveSegments_def lastControlPoint_def)

lemma curveInRange_loop_md: "curveInRange loop_md 0"
  by (simp add: curveInRange_def loop_md_def curveSegments_def lastControlPoint_def)

subsection \<open>Sampling without end-point correction\<close>

text \<open>
  C2, as amended. For every curve whose indices are in range and every query time,
  \<open>evaluateCurve\<close> without end-point correction evaluates, on its own control points,
  the first segment in curve order whose last control point lies strictly after the
  query time, where the last control point is the fourth of a Bezier segment's four points
  and the second point of any other segment; when no segment qualifies it returns the
  value of the curve's last stored point.
\<close>

theorem evaluateCurve_first_exceeding_segment:
  assumes "curveInRange md index"
  shows "evaluateCurve md index time False endTime = sampleBy lastControlPoint md index time"
proof -
  let ?c = "curves md ! index"
  let ?b = "baseSegmentIndex ?c"
  let ?n = "segmentCount ?c"
  let ?P = "\<lambda>seg. time < p_time (points md ! lastControlPoint seg)"
  have idx: "index < length (curves md)" and le: "?b + ?n \<le> length (segments md)"
    using assms by (simp_all add: curveInRange_def)
  have fm: "find ?P (curveSegments md ?c) =
      map_option ((!) (segments md)) (find (?P \<circ> (!) (segments md)) [?b..<?b + ?n])"
    unfolding curveSegments_nth[OF assms] by (rule find_map_option)
  show ?thesis
  proof (cases "find (?P \<circ> (!) (segments md)) [?b..<?b + ?n]")
    case None
    then have f: "find (\<lambda>j. time < p_time (points md ! lastControlPoint (segments md ! j)))
        [?b..<?b + ?n] = None"
      by (simp add: comp_def)
    have "curveSegments md ?c \<noteq> []"
      unfolding curveSegments_nth[OF assms] using assms by (simp add: curveInRange_def)
    then have "last (curveSegments md ?c) \<in> set (curveSegments md ?c)" by simp
    then have "lastControlPoint (last (curveSegments md ?c)) < length (points md)"
      using assms by (simp add: curveInRange_def)
    then show ?thesis
      using idx fm None f
      by (simp add: evaluateCurve_def sampleBy_def Let_def findSegment_curve[OF assms])
  next
    case (Some j)
    then have f: "find (\<lambda>j. time < p_time (points md ! lastControlPoint (segments md ! j)))
        [?b..<?b + ?n] = Some j"
      by (simp add: comp_def)
    from Some have "j \<in> set [?b..<?b + ?n]" by (auto simp: find_Some_iff)
    then have "j < length (segments md)" using le by simp
    then show ?thesis
      using idx fm Some f
      by (simp add: evaluateCurve_def sampleBy_def Let_def findSegment_curve[OF assms]
          csmVector_get_def)
  qed
qed

theorem evaluateCurve_first_exceeding_segment_witness:
  "curveInRange bezier_md 0 \<and>
   evaluateCurve bezier_md 0 (5/2) False (Finite 0) = sampleBy lastControlPoint bezier_md 0 (5/2) \<and>
   sampleBy lastControlPoint bezier_md 0 (5/2) = Some (25/27)"
  using evaluateCurve_first_exceeding_segment [OF curveInRange_bezier_md, of "5/2" "Finite 0"]
    curveInRange_bezier_md
  by (simp add: sampleBy_def bezier_md_def curveSegments_def lastControlPoint_def
      bezierEvaluate_def deCasteljau_def lerpPoints_def Let_def)

text \<open>
  C2 as stated takes the third of a Bezier segment's four points. At the query time 2.5
  the Bezier segment of \<open>bezier_md\<close> has its third point at time 2 and its fourth at
  time 3: the code evaluates the segment, the statement holds the last value.
\<close>

theorem evaluateCurve_third_of_four_counterexample:
  "evaluateCurve bezier_md 0 (5/2) False (Finite 0) = Some (25/27) \<and>
   sampleBy thirdOfFour bezier_md 0 (5/2) = Some 1"
  by (simp add: evaluateCurve_def findSegment.simps sampleBy_def thirdOfFour_def bezier_md_def
      curveSegments_def lastControlPoint_def csmVector_get_def bezierEvaluate_def
      deCasteljau_def lerpPoints_def Let_def)

subsection \<open>End-point correction\<close>

text \<open>
  C3. When no segment of the curve has its last control point after the query time,
  correction is enabled and the query time is strictly below \<open>loopEndTime\<close>,
  \<open>evaluateCurve\<close> evaluates two synthesized points, the curve's last stored point at its
  own time and the value of the curve's first point placed at \<open>loopEndTime\<close>, with the
  evaluator of the last segment's type, Linear standing in for Bezier.
\<close>

theorem evaluateCurve_loop_correction:
  assumes "curveInRange md index"
    and "\<forall>seg \<in> set (curveSegments md (curves md ! index)).
           p_time (points md ! lastControlPoint seg) \<le> time"
    and "time < loopEndTime"
  shows "evaluateCurve md index time True (Finite loopEndTime) =
     (let segs = curveSegments md (curves md ! index);
          lastPoint = points md ! lastControlPoint (last segs);
          firstPoint = points md ! basePointIndex (hd segs);
          blend = [\<lparr> p_time = p_time lastPoint, p_value = p_value lastPoint \<rparr>,
                   \<lparr> p_time = loopEndTime, p_value = p_value firstPoint \<rparr>]
      in case segmentType (last segs) of
           CubismMotionSegmentType_Linear \<Rightarrow> linearEvaluate blend time
         | CubismMotionSegmentType_Bezier \<Rightarrow> linearEvaluate blend time
         | CubismMotionSegmentType_Stepped \<Rightarrow> steppedEvaluate blend time
         | CubismMotionSegmentType_InverseStepped \<Rightarrow> inverseSteppedEvaluate blend time)"
proof -
  let ?c = "curves md ! index"
  let ?b = "baseSegmentIndex ?c"
  let ?n = "segmentCount ?c"
  let ?segs = "curveSegments md ?c"
  have idx: "index < length (curves md)" and le: "?b + ?n \<le> length (segments md)" and pos: "1 \<le> ?n"
    using assms(1) by (simp_all add: curveInRange_def)
  have none: "find (\<lambda>j. time < p_time (points md ! lastControlPoint (segments md ! j)))
      [?b..<?b + ?n] = None"
  proof -
    have "\<forall>j \<in> set [?b..<?b + ?n]. segments md ! j \<in> set ?segs"
      unfolding curveSegments_nth[OF assms(1)] by auto
    then show ?thesis using assms(2) by (auto simp: find_None_iff not_less)
  qed
  have ne: "?segs \<noteq> []" unfolding curveSegments_nth[OF assms(1)] using pos by simp
  have lastseg: "last ?segs = segments md ! (?b + ?n - 1)"
    unfolding curveSegments_nth[OF assms(1)] using pos by (simp add: last_map)
  have hdseg: "hd ?segs = segments md ! ?b"
    unfolding curveSegments_nth[OF assms(1)] using pos by (simp add: hd_map upt_conv_Cons)
  have lastin: "lastControlPoint (last ?segs) < length (points md)"
    using assms(1) ne by (simp add: curveInRange_def)
  have "lastControlPoint (hd ?segs) < length (points md)"
    using assms(1) ne by (simp add: curveInRange_def)
  then have hdin: "basePointIndex (hd ?segs) < length (points md)"
    by (simp add: lastControlPoint_def split: if_splits)
  have b: "csmVector_at (segments md) ?b = Some (hd ?segs)"
    and l: "csmVector_at (segments md) (?b + ?n - Suc 0) = Some (last ?segs)"
    and m: "minus_one (?b + ?n) = Some (?b + ?n - Suc 0)"
    using le pos by (simp_all add: hdseg lastseg minus_one_def)
  have p0: "csmVector_at (points md) (lastControlPoint (last ?segs)) =
              Some (points md ! lastControlPoint (last ?segs))"
    and p1: "csmVector_at (points md) (basePointIndex (hd ?segs)) =
              Some (points md ! basePointIndex (hd ?segs))"
    using lastin hdin by simp_all
  have fs: "findSegment md time (?b + ?n) ?b 0 = Some (None, lastControlPoint (last ?segs))"
    by (simp add: findSegment_curve[OF assms(1)] none)
  show ?thesis
    using idx assms(3)
    by (simp add: evaluateCurve_def Let_def fs m b l p0 p1 correctEndPoint_def
        split: CubismMotionSegmentType.splits)
qed

theorem evaluateCurve_loop_correction_witness:
  "curveInRange loop_md 0 \<and>
   list_all (\<lambda>seg. p_time (points loop_md ! lastControlPoint seg) \<le> 201/100)
     (curveSegments loop_md (curves loop_md ! 0)) \<and>
   (201/100::real) < 2 + 1/30 \<and>
   evaluateCurve loop_md 0 (201/100) True (Finite (2 + 1/30)) = Some (7/20)"
proof -
  have a: "\<forall>seg \<in> set (curveSegments loop_md (curves loop_md ! 0)).
           p_time (points loop_md ! lastControlPoint seg) \<le> 201/100"
    by (simp add: loop_md_def curveSegments_def lastControlPoint_def)
  have b: "(201/100::real) < 2 + 1/30" by simp
  have "evaluateCurve loop_md 0 (201/100) True (Finite (2 + 1/30)) = Some (7/20)"
    using evaluateCurve_loop_correction [OF curveInRange_loop_md a b]
    by (simp add: loop_md_def curveSegments_def lastControlPoint_def linearEvaluate_def Let_def)
  with a b curveInRange_loop_md show ?thesis by (simp add: list_all_iff)
qed

text \<open>
  With the end time \<^verbatim>\<open>Infinity\<close> (a V2 loop whose frame rate is 0) the correction holds
  the curve's last value, or gives the first value when the last segment is
  InverseStepped.
\<close>

lemma evaluateCurve_loop_correction_unbounded:
  assumes "curveInRange md index"
    and "\<forall>seg \<in> set (curveSegments md (curves md ! index)).
           p_time (points md ! lastControlPoint seg) \<le> time"
  shows "evaluateCurve md index time True Infinity =
     (let segs = curveSegments md (curves md ! index)
      in if segmentType (last segs) = CubismMotionSegmentType_InverseStepped
         then Some (p_value (points md ! basePointIndex (hd segs)))
         else Some (p_value (points md ! lastControlPoint (last segs))))"
proof -
  let ?c = "curves md ! index"
  let ?b = "baseSegmentIndex ?c"
  let ?n = "segmentCount ?c"
  let ?segs = "curveSegments md ?c"
  have idx: "index < length (curves md)" and le: "?b + ?n \<le> length (segments md)" and pos: "1 \<le> ?n"
    using assms(1) by (simp_all add: curveInRange_def)
  have none: "find (\<lambda>j. time < p_time (points md ! lastControlPoint (segments md ! j)))
      [?b..<?b + ?n] = None"
  proof -
    have "\<forall>j \<in> set [?b..<?b + ?n]. segments md ! j \<in> set ?segs"
      unfolding curveSegments_nth[OF assms(1)] by auto
    then show ?thesis using assms(2) by (auto simp: find_None_iff not_less)
  qed
  have ne: "?segs \<noteq> []" unfolding curveSegments_nth[OF assms(1)] using pos by simp
  have lastseg: "last ?segs = segments md ! (?b + ?n - 1)"
    unfolding curveSegments_nth[OF assms(1)] using pos by (simp add: last_map)
  have hdseg: "hd ?segs = segments md ! ?b"
    unfolding curveSegments_nth[OF assms(1)] using pos by (simp add: hd_map upt_conv_Cons)
  have lastin: "lastControlPoint (last ?segs) < length (points md)"
    using assms(1) ne by (simp add: curveInRange_def)
  have "lastControlPoint (hd ?segs) < length (points md)"
    using assms(1) ne by (simp add: curveInRange_def)
  then have hdin: "basePointIndex (hd ?segs) < length (points md)"
    by (simp add: lastControlPoint_def split: if_splits)
  have b: "csmVector_at (segments md) ?b = Some (hd ?segs)"
    and l: "csmVector_at (segments md) (?b + ?n - Suc 0) = Some (last ?segs)"
    and m: "minus_one (?b + ?n) = Some (?b + ?n - Suc 0)"
    using le pos by (simp_all add: hdseg lastseg minus_one_def)
  have p0: "csmVector_at (points md) (lastControlPoint (last ?segs)) =
              Some (points md ! lastControlPoint (last ?segs))"
    and p1: "csmVector_at (points md) (basePointIndex (hd ?segs)) =
              Some (points md ! basePointIndex (hd ?segs))"
    using lastin hdin by simp_all
  have fs: "findSegment md time (?b + ?n) ?b 0 = Some (None, lastControlPoint (last ?segs))"
    by (simp add: findSegment_curve[OF assms(1)] none)
  show ?thesis
    using idx
    by (simp add: evaluateCurve_def Let_def fs m b l p0 p1 correctEndPoint_def
        split: CubismMotionSegmentType.splits)
qed

subsection \<open>Fired events\<close>

lemma firedEvents_filter:
  assumes "eventCount md \<le> length (events md)" and "u \<le> eventCount md"
  shows "firedEvents md a b u fired =
     map_option ((@) fired)
       (those (map ev_value (filter (\<lambda>ev. a < fireTime ev \<and> fireTime ev \<le> b)
                                (drop u (take (eventCount md) (events md))))))"
  using assms
proof (induction md a b u fired rule: firedEvents.induct)
  case (1 md a b u fired)
  show ?case
  proof (cases "u < eventCount md")
    case False
    with "1.prems" show ?thesis by (simp add: firedEvents.simps)
  next
    case True
    then have at: "csmVector_at (events md) u = Some (events md ! u)" using "1.prems" by simp
    have dr: "drop u (take (eventCount md) (events md)) =
        events md ! u # drop (Suc u) (take (eventCount md) (events md))"
    proof -
      have "u < length (take (eventCount md) (events md))" using True "1.prems" by simp
      from Cons_nth_drop_Suc[OF this] show ?thesis using True by simp
    qed
    show ?thesis
    proof (cases "a < fireTime (events md ! u) \<and> fireTime (events md ! u) \<le> b")
      case False
      have su: "Suc u \<le> eventCount md" using True by simp
      have "firedEvents md a b (Suc u) fired =
        map_option ((@) fired)
          (those (map ev_value (filter (\<lambda>ev. a < fireTime ev \<and> fireTime ev \<le> b)
                                   (drop (Suc u) (take (eventCount md) (events md))))))"
        by (rule "1.IH"(2)[OF True at False "1.prems"(1) su])
      then show ?thesis
        using True at False by (subst firedEvents.simps) (auto simp add: dr)
    next
      case inside: True
      show ?thesis
      proof (cases "ev_value (events md ! u)")
        case None
        then show ?thesis
          using True at inside by (subst firedEvents.simps) (simp add: dr)
      next
        case (Some s)
        have su: "Suc u \<le> eventCount md" using True by simp
        have "firedEvents md a b (Suc u) (fired @ [s]) =
          map_option ((@) (fired @ [s]))
            (those (map ev_value (filter (\<lambda>ev. a < fireTime ev \<and> fireTime ev \<le> b)
                                     (drop (Suc u) (take (eventCount md) (events md))))))"
          by (rule "1.IH"(1)[OF True at inside Some "1.prems"(1) su])
        moreover have "(@) (fired @ [s]) = (\<lambda>a. fired @ s # a)" by (rule ext) simp
        ultimately show ?thesis
          using True at inside Some
          by (subst firedEvents.simps)
             (simp add: dr option.map_comp comp_def split: option.splits)
      qed
    qed
  qed
qed

text \<open>
  C9. \<open>getFiredEvent\<close> returns the payloads of exactly the events whose fire time lies
  in \<open>(beforeCheckTimeSeconds, motionTimeSeconds]\<close>, in stored order; for two calls over
  the adjoining intervals \<open>(a, b]\<close> and \<open>(b, c]\<close> no event is among those returned by both.
  The payload of an event may be unset: \<open>those\<close> gives the list of the payloads when every
  event of the interval has one, and \<open>None\<close>, the TypeError of the call, when one of them
  has none.
\<close>

theorem getFiredEvent_half_open:
  assumes "motionData m = Some md" and "eventCount md \<le> length (events md)"
  shows "getFiredEvent m a b = those (map ev_value (eventsIn md a b)) \<and>
         getFiredEvent m b c = those (map ev_value (eventsIn md b c)) \<and>
         set (eventsIn md a b) \<inter> set (eventsIn md b c) = {}"
proof -
  have "(@) ([] :: string list) = (\<lambda>x. x)" by (rule ext) simp
  then have "getFiredEvent m x y = those (map ev_value (eventsIn md x y))" for x y
    using assms
    by (simp add: getFiredEvent_def eventsIn_def firedEvents_filter option.map_ident)
  moreover have "set (eventsIn md a b) \<inter> set (eventsIn md b c) = {}"
    by (auto simp: eventsIn_def)
  ultimately show ?thesis by simp
qed

theorem getFiredEvent_half_open_witness:
  "motionData scenario_motion = Some scenario_md \<and>
   eventCount scenario_md \<le> length (events scenario_md) \<and>
   getFiredEvent scenario_motion (7/5) (8/5) = Some [''blink''] \<and>
   getFiredEvent scenario_motion (8/5) (9/5) = Some []"
proof -
  have a: "motionData scenario_motion = Some scenario_md" by (simp add: scenario_motion_def)
  have b: "eventCount scenario_md \<le> length (events scenario_md)" by (simp add: scenario_md_def)
  show ?thesis
    using getFiredEvent_half_open [OF a b, of "7/5" "8/5" "9/5"] a b
    by (simp add: eventsIn_def scenario_md_def)
qed

text \<open>
  A motion created from a document that declares one event and has no \<^verbatim>\<open>UserData\<close>: the
  call over an interval that holds the fire time 0 of the event throws, and the call over
  an interval that does not returns the empty list.
\<close>

lemma getFiredEvent_unset_payload:
  "\<exists>m md. create framework0 scenario_motion (Some nodata_json) True = Returns (Some m) \<and>
     motionData m = Some md \<and> eventCount md = 1 \<and>
     events md = [\<lparr> fireTime = 0, ev_value = None \<rparr>] \<and>
     getFiredEvent m (-1) 1 = None \<and> getFiredEvent m 0 1 = Some []"
  by (simp add: create_def parse_def Let_def nodata_json_def framework0_def newMotion_def
      parseCurves.simps getFiredEvent_def firedEvents.simps)

subsection \<open>The curve loops\<close>

lemma linearEvaluate_two: "\<exists>v. linearEvaluate [p, q] time = Some v"
  by (simp add: linearEvaluate_def Let_def)

lemma evaluateCurve_total:
  assumes "curveInRange md index" and "evaluatorsDefined md index"
  shows "\<exists>v. evaluateCurve md index time isCorrection endTime = Some v"
proof -
  let ?c = "curves md ! index"
  let ?b = "baseSegmentIndex ?c"
  let ?n = "segmentCount ?c"
  let ?segs = "curveSegments md ?c"
  have idx: "index < length (curves md)" and le: "?b + ?n \<le> length (segments md)" and pos: "1 \<le> ?n"
    using assms(1) by (simp_all add: curveInRange_def)
  have ne: "?segs \<noteq> []" unfolding curveSegments_nth[OF assms(1)] using pos by simp
  have lastseg: "last ?segs = segments md ! (?b + ?n - 1)"
    unfolding curveSegments_nth[OF assms(1)] using pos by (simp add: last_map)
  have hdseg: "hd ?segs = segments md ! ?b"
    unfolding curveSegments_nth[OF assms(1)] using pos by (simp add: hd_map upt_conv_Cons)
  have lastin: "lastControlPoint (last ?segs) < length (points md)"
    using assms(1) ne by (simp add: curveInRange_def)
  have "lastControlPoint (hd ?segs) < length (points md)"
    using assms(1) ne by (simp add: curveInRange_def)
  then have hdin: "basePointIndex (hd ?segs) < length (points md)"
    by (simp add: lastControlPoint_def split: if_splits)
  have b: "csmVector_at (segments md) ?b = Some (hd ?segs)"
    and l: "csmVector_at (segments md) (?b + ?n - Suc 0) = Some (last ?segs)"
    and m: "minus_one (?b + ?n) = Some (?b + ?n - Suc 0)"
    using le pos by (simp_all add: hdseg lastseg minus_one_def)
  show ?thesis
  proof (cases "find (\<lambda>j. time < p_time (points md ! lastControlPoint (segments md ! j))) [?b..<?b + ?n]")
    case None
    then have fs: "findSegment md time (?b + ?n) ?b 0 = Some (None, lastControlPoint (last ?segs))"
      by (simp add: findSegment_curve[OF assms(1)])
    show ?thesis
      using idx lastin hdin
      by (simp add: evaluateCurve_def Let_def fs m b l correctEndPoint_def linearEvaluate_two
          steppedEvaluate_def inverseSteppedEvaluate_def
          split: CubismMotionSegmentType.splits span.splits)
  next
    case (Some j)
    then have fs: "findSegment md time (?b + ?n) ?b 0 = Some (Some j, lastControlPoint (segments md ! j))"
      by (simp add: findSegment_curve[OF assms(1)])
    from Some have j: "j \<in> set [?b..<?b + ?n]" by (auto simp: find_Some_iff)
    then have jl: "j < length (segments md)" using le by simp
    from j have "segments md ! j \<in> set ?segs"
      unfolding curveSegments_nth[OF assms(1)] by auto
    then have "evaluate (segments md ! j) (drop (basePointIndex (segments md ! j)) (points md)) time \<noteq> None"
      using assms(2) by (simp add: evaluatorsDefined_def)
    then show ?thesis
      using idx jl by (auto simp add: evaluateCurve_def Let_def fs csmVector_get_def)
  qed
qed

lemma wellFormed_curve:
  assumes "wellFormed md" and "c < curveCount md"
  shows "csmVector_at (curves md) c = Some (curves md ! c)"
    and "\<exists>v. evaluateCurve md c time isCorrection dur = Some v"
proof -
  from assms have cr: "curveInRange md c" and ed: "evaluatorsDefined md c"
    by (simp_all add: wellFormed_def)
  from cr show "csmVector_at (curves md) c = Some (curves md ! c)"
    by (simp add: curveInRange_def)
  from evaluateCurve_total[OF cr ed]
  show "\<exists>v. evaluateCurve md c time isCorrection dur = Some v" .
qed

lemma modelCurves_fold:
  assumes "wellFormed md" and "c \<le> curveCount md"
  shows "\<exists>c2. modelCurves md time isCorrection dur c st =
            Some (c2, fold (modelStep md time isCorrection dur) [c..<c2] st) \<and>
          c \<le> c2 \<and> c2 \<le> curveCount md \<and>
          (\<forall>k. c \<le> k \<and> k < c2 \<longrightarrow> c_type (curves md ! k) = CubismMotionCurveTarget_Model) \<and>
          (c2 < curveCount md \<longrightarrow> c_type (curves md ! c2) \<noteq> CubismMotionCurveTarget_Model)"
  using assms
proof (induction md time isCorrection dur c st rule: modelCurves.induct)
  case (1 md time isCorrection dur c st)
  show ?case
  proof (cases "c < curveCount md")
    case False
    with "1.prems" have "c = curveCount md" by simp
    then show ?thesis by (auto simp add: modelCurves.simps)
  next
    case True
    note at = wellFormed_curve(1)[OF "1.prems"(1) True]
    obtain v where v: "evaluateCurve md c time isCorrection dur = Some v"
      using wellFormed_curve(2)[OF "1.prems"(1) True] by blast
    show ?thesis
    proof (cases "c_type (curves md ! c) = CubismMotionCurveTarget_Model")
      case False
      then show ?thesis using True at by (auto simp add: modelCurves.simps)
    next
      case isModel: True
      let ?st = "modelStep md time isCorrection dur c st"
      have st_eq: "?st =
          (if c_id (curves md ! c) = EffectNameEyeBlink then st\<lparr>eyeBlinkValue := v\<rparr>
           else if c_id (curves md ! c) = EffectNameLipSync then st\<lparr>lipSyncValue := v\<rparr>
           else if c_id (curves md ! c) = IdNameOpacity then
             st\<lparr>opacity := v, trace := trace st @ [SetModelOpacity v]\<rparr>
           else st)"
        using v by (simp add: modelStep_def)
      have step: "modelCurves md time isCorrection dur c st =
                  modelCurves md time isCorrection dur (Suc c) ?st"
        apply (subst modelCurves.simps)
        using True at isModel v by (simp add: st_eq)
      have sc: "Suc c \<le> curveCount md" using True by simp
      from "1.IH"[OF True at isModel v "1.prems"(1) sc, folded st_eq]
      obtain c2 where c2: "modelCurves md time isCorrection dur (Suc c) ?st =
            Some (c2, fold (modelStep md time isCorrection dur) [Suc c..<c2] ?st)"
          "Suc c \<le> c2" "c2 \<le> curveCount md"
          "\<forall>k. Suc c \<le> k \<and> k < c2 \<longrightarrow> c_type (curves md ! k) = CubismMotionCurveTarget_Model"
          "c2 < curveCount md \<longrightarrow> c_type (curves md ! c2) \<noteq> CubismMotionCurveTarget_Model"
        by blast
      have upt: "[c..<c2] = c # [Suc c..<c2]" using c2(2) by (simp add: upt_conv_Cons)
      have all: "\<forall>k. c \<le> k \<and> k < c2 \<longrightarrow> c_type (curves md ! k) = CubismMotionCurveTarget_Model"
        using c2(4) isModel by (metis Suc_leI le_neq_implies_less)
      show ?thesis
        apply (rule exI[of _ c2])
        using step c2 upt all by simp
    qed
  qed
qed


lemma parameterCurves_fold:
  assumes "wellFormed md" and "c \<le> curveCount md"
  shows "\<exists>c2. parameterCurves E m model entry now fw fin fout md time isCorrection dur c st =
            Some (c2, fold (parameterStep E m model entry now fw fin fout md time isCorrection dur)
                        [c..<c2] st) \<and>
          c \<le> c2 \<and> c2 \<le> curveCount md \<and>
          (\<forall>k. c \<le> k \<and> k < c2 \<longrightarrow> c_type (curves md ! k) = CubismMotionCurveTarget_Parameter) \<and>
          (c2 < curveCount md \<longrightarrow> c_type (curves md ! c2) \<noteq> CubismMotionCurveTarget_Parameter)"
  using assms
proof (induction E m model entry now fw fin fout md time isCorrection dur c st
    rule: parameterCurves.induct)
  case (1 E m model entry now fw fin fout md time isCorrection dur c st)
  show ?case
  proof (cases "c < curveCount md")
    case False
    with "1.prems" have "c = curveCount md" by simp
    then show ?thesis by (auto simp add: parameterCurves.simps)
  next
    case True
    note at = wellFormed_curve(1)[OF "1.prems"(1) True]
    obtain v where v: "evaluateCurve md c time isCorrection dur = Some v"
      using wellFormed_curve(2)[OF "1.prems"(1) True] by blast
    have sc: "Suc c \<le> curveCount md" using True by simp
    show ?thesis
    proof (cases "c_type (curves md ! c) = CubismMotionCurveTarget_Parameter")
      case False
      then show ?thesis using True at by (auto simp add: parameterCurves.simps)
    next
      case isParam: True
      let ?step = "parameterStep E m model entry now fw fin fout md time isCorrection dur"
      let ?st = "?step c st"
      have "\<exists>c2. parameterCurves E m model entry now fw fin fout md time isCorrection dur (Suc c) ?st =
            Some (c2, fold ?step [Suc c..<c2] ?st) \<and>
          Suc c \<le> c2 \<and> c2 \<le> curveCount md \<and>
          (\<forall>k. Suc c \<le> k \<and> k < c2 \<longrightarrow> c_type (curves md ! k) = CubismMotionCurveTarget_Parameter) \<and>
          (c2 < curveCount md \<longrightarrow> c_type (curves md ! c2) \<noteq> CubismMotionCurveTarget_Parameter)"
      proof (cases "findParameterIndex model (c_id (curves md ! c))")
        case None
        then have st_eq: "?st = st" by (simp add: parameterStep_def)
        from "1.IH"(1)[OF True at isParam None "1.prems"(1) sc] show ?thesis
          unfolding st_eq .
      next
        case (Some idx)
        then have st_eq: "?st = applyParameterCurve E m entry now fw fin fout (curves md ! c) idx v st"
          using v by (simp add: parameterStep_def)
        from "1.IH"(2)[OF True at isParam Some v "1.prems"(1) sc] show ?thesis
          unfolding st_eq .
      qed
      then obtain c2 where c2:
          "parameterCurves E m model entry now fw fin fout md time isCorrection dur (Suc c) ?st =
            Some (c2, fold ?step [Suc c..<c2] ?st)"
          "Suc c \<le> c2" "c2 \<le> curveCount md"
          "\<forall>k. Suc c \<le> k \<and> k < c2 \<longrightarrow> c_type (curves md ! k) = CubismMotionCurveTarget_Parameter"
          "c2 < curveCount md \<longrightarrow> c_type (curves md ! c2) \<noteq> CubismMotionCurveTarget_Parameter"
        by blast
      have step: "parameterCurves E m model entry now fw fin fout md time isCorrection dur c st =
                  parameterCurves E m model entry now fw fin fout md time isCorrection dur (Suc c) ?st"
        apply (subst parameterCurves.simps)
        using True at isParam v by (simp add: parameterStep_def split: option.splits)
      have upt: "[c..<c2] = c # [Suc c..<c2]" using c2(2) by (simp add: upt_conv_Cons)
      have all: "\<forall>k. c \<le> k \<and> k < c2 \<longrightarrow> c_type (curves md ! k) = CubismMotionCurveTarget_Parameter"
        using c2(4) isParam by (metis Suc_leI le_neq_implies_less)
      show ?thesis
        apply (rule exI[of _ c2])
        using step c2 upt all by simp
    qed
  qed
qed

lemma partOpacityCurves_fold:
  assumes "wellFormed md" and "c \<le> curveCount md"
  shows "\<exists>c2. partOpacityCurves m model md time isCorrection dur c st =
            Some (c2, fold (partOpacityStep m model md time isCorrection dur) [c..<c2] st) \<and>
          c \<le> c2 \<and> c2 \<le> curveCount md"
  using assms
proof (induction m model md time isCorrection dur c st rule: partOpacityCurves.induct)
  case (1 m model md time isCorrection dur c st)
  show ?case
  proof (cases "c < curveCount md")
    case False
    with "1.prems" have "c = curveCount md" by simp
    then show ?thesis by (auto simp add: partOpacityCurves.simps)
  next
    case True
    note at = wellFormed_curve(1)[OF "1.prems"(1) True]
    obtain v where v: "evaluateCurve md c time isCorrection dur = Some v"
      using wellFormed_curve(2)[OF "1.prems"(1) True] by blast
    have sc: "Suc c \<le> curveCount md" using True by simp
    show ?thesis
    proof (cases "c_type (curves md ! c) = CubismMotionCurveTarget_PartOpacity")
      case False
      then show ?thesis using True at by (auto simp add: partOpacityCurves.simps)
    next
      case isPart: True
      let ?step = "partOpacityStep m model md time isCorrection dur"
      let ?st = "?step c st"
      have "\<exists>c2. partOpacityCurves m model md time isCorrection dur (Suc c) ?st =
            Some (c2, fold ?step [Suc c..<c2] ?st) \<and> Suc c \<le> c2 \<and> c2 \<le> curveCount md"
      proof (cases "getParameterIndex model (c_id (curves md ! c)) = -1")
        case True
        then have st_eq: "?st = st" by (simp add: partOpacityStep_def)
        from "1.IH"(1)[OF \<open>c < curveCount md\<close> at isPart refl True "1.prems"(1) sc] show ?thesis
          unfolding st_eq .
      next
        case False
        then have st_eq: "?st = st\<lparr> trace := trace st @
                     [if getParameterIndex model (c_id (curves md ! c)) \<in> set (partOpacityAdditiveIndicies m)
                      then AddParameterValueByIndex (getParameterIndex model (c_id (curves md ! c))) v None
                      else SetParameterValueByIndex (getParameterIndex model (c_id (curves md ! c))) v None] \<rparr>"
          using v by (simp add: partOpacityStep_def)
        from "1.IH"(2)[OF \<open>c < curveCount md\<close> at isPart refl False v "1.prems"(1) sc] show ?thesis
          unfolding st_eq .
      qed
      then obtain c2 where c2:
          "partOpacityCurves m model md time isCorrection dur (Suc c) ?st =
            Some (c2, fold ?step [Suc c..<c2] ?st)"
          "Suc c \<le> c2" "c2 \<le> curveCount md"
        by blast
      have step: "partOpacityCurves m model md time isCorrection dur c st =
                  partOpacityCurves m model md time isCorrection dur (Suc c) ?st"
        apply (subst partOpacityCurves.simps)
        using True at isPart v by (simp add: partOpacityStep_def Let_def)
      have upt: "[c..<c2] = c # [Suc c..<c2]" using c2(2) by (simp add: upt_conv_Cons)
      show ?thesis
        apply (rule exI[of _ c2])
        using step c2 upt by simp
    qed
  qed
qed

subsection \<open>Claim flags and target lists\<close>

lemma testFlag_bit: "testFlag flags i \<longleftrightarrow> bit flags (i mod 32)"
proof -
  have "signed_drop_bit (i mod 32) flags AND 1 \<noteq> 0 \<longleftrightarrow> bit (signed_drop_bit (i mod 32) flags) 0"
    by (simp add: and_one_eq bit_0 mod_2_eq_odd)
  also have "\<dots> \<longleftrightarrow> bit flags (i mod 32)"
  proof -
    have "bit (signed_drop_bit n flags) 0 \<longleftrightarrow> bit flags n" if "n < 32" for n
      using that by (simp add: bit_signed_drop_bit_iff)
    then show ?thesis by simp
  qed
  finally show ?thesis by (simp add: testFlag_def)
qed

lemma testFlag_zero [simp]: "\<not> testFlag 0 i"
  by (simp add: testFlag_bit)

lemma testFlag_setFlag: "testFlag (setFlag flags i) j \<longleftrightarrow> testFlag flags j \<or> i mod 32 = j mod 32"
  by (auto simp add: testFlag_bit setFlag_def bit_or_iff bit_exp_iff possible_bit_word)

lemma claimIndex_Some:
  "claimIndex ids name i = Some j \<Longrightarrow>
     i \<le> j \<and> j < maxTargetSize \<and> j - i < length ids \<and> ids ! (j - i) = name \<and>
     (\<forall>k < j - i. ids ! k \<noteq> name)"
proof (induction ids name i rule: claimIndex.induct)
  case (1 name i)
  then show ?case by simp
next
  case (2 id0 ids name i)
  show ?case
  proof (cases "i < maxTargetSize \<and> id0 \<noteq> name")
    case False
    with "2.prems" show ?thesis by (auto split: if_splits)
  next
    case True
    with "2.prems" have r: "claimIndex ids name (Suc i) = Some j" by simp
    from "2.IH"[OF _ _ r] True
    have ih: "Suc i \<le> j" "j < maxTargetSize" "j - Suc i < length ids" "ids ! (j - Suc i) = name"
      "\<forall>k < j - Suc i. ids ! k \<noteq> name" by auto
    have e: "j - i = Suc (j - Suc i)" using ih(1) by simp
    show ?thesis using ih True unfolding e
      by (auto simp: nth_Cons split: nat.splits)
  qed
qed

lemma claimIndex_None:
  "claimIndex ids name i = None \<Longrightarrow> i + length ids \<le> maxTargetSize \<Longrightarrow> name \<notin> set ids"
  by (induction ids name i rule: claimIndex.induct) (auto split: if_splits)

lemma claimIndex_distinct:
  assumes "distinct ids" and "length ids \<le> maxTargetSize" and "j < length ids"
  shows "claimIndex ids name 0 = Some j \<longleftrightarrow> ids ! j = name"
proof
  assume "claimIndex ids name 0 = Some j"
  from claimIndex_Some[OF this] show "ids ! j = name" by simp
next
  assume n: "ids ! j = name"
  then have "name \<in> set ids" using assms(3) by auto
  then obtain j' where j': "claimIndex ids name 0 = Some j'"
    using claimIndex_None[of ids name 0] assms(2) by (cases "claimIndex ids name 0") auto
  from claimIndex_Some[OF j'] have "j' < length ids" "ids ! j' = name" by simp_all
  with n assms(1,3) have "j' = j" by (metis nth_eq_iff_index_eq)
  with j' show "claimIndex ids name 0 = Some j" by simp
qed

lemma overlayTargets_unclaimed:
  assumes "\<forall>j < length ids. testFlag flags (i + j) \<longleftrightarrow> C (ids ! j)"
    and "i + length ids \<le> maxTargetSize"
  shows "List.map_filter byIdWrite (overlayTargets ids i flags isAdditive v w) =
         map (\<lambda>name. (name, v, w)) (filter (\<lambda>name. \<not> C name) ids)"
  using assms
proof (induction ids arbitrary: i)
  case Nil
  then show ?case by (simp add: List.map_filter_simps)
next
  case (Cons id0 ids)
  have i: "i < maxTargetSize" using Cons.prems(2) by simp
  have h: "testFlag flags i \<longleftrightarrow> C id0" using Cons.prems(1) by auto
  have t: "\<forall>j < length ids. testFlag flags (Suc i + j) \<longleftrightarrow> C (ids ! j)"
    using Cons.prems(1) by auto
  have l: "Suc i + length ids \<le> maxTargetSize" using Cons.prems(2) by simp
  note IH = Cons.IH[OF t l]
  show ?case using i h IH by (cases isAdditive) (simp_all add: List.map_filter_simps)
qed

subsection \<open>What the steps of a pass change\<close>

lemma callbackCount_simps [simp]:
  "callbackCount [] = 0"
  "callbackCount (xs @ ys) = callbackCount xs + callbackCount ys"
  "callbackCount (x # xs) = (if x = FinishedMotionCallback then 1 else 0) + callbackCount xs"
  by (simp_all add: callbackCount_def)

lemma map_filter_append: "List.map_filter f (xs @ ys) = List.map_filter f xs @ List.map_filter f ys"
  by (simp add: List.map_filter_def)

lemma modelStep_keeps:
  "eyeBlinkFlags (modelStep md time isCorrection dur k st) = eyeBlinkFlags st"
  "lipSyncFlags (modelStep md time isCorrection dur k st) = lipSyncFlags st"
  "List.map_filter byIdWrite (trace (modelStep md time isCorrection dur k st)) =
     List.map_filter byIdWrite (trace st)"
  "List.map_filter weightedWrite (trace (modelStep md time isCorrection dur k st)) =
     List.map_filter weightedWrite (trace st)"
  "callbackCount (trace (modelStep md time isCorrection dur k st)) =
     callbackCount (trace st)"
  by (simp_all add: modelStep_def List.map_filter_simps map_filter_append split: option.splits)

lemma fold_modelStep_keeps:
  "eyeBlinkFlags (fold (modelStep md time isCorrection dur) ks st) = eyeBlinkFlags st"
  "lipSyncFlags (fold (modelStep md time isCorrection dur) ks st) = lipSyncFlags st"
  "List.map_filter byIdWrite (trace (fold (modelStep md time isCorrection dur) ks st)) =
     List.map_filter byIdWrite (trace st)"
  "List.map_filter weightedWrite (trace (fold (modelStep md time isCorrection dur) ks st)) =
     List.map_filter weightedWrite (trace st)"
  "callbackCount (trace (fold (modelStep md time isCorrection dur) ks st)) =
     callbackCount (trace st)"
  by (induction ks arbitrary: st; simp add: modelStep_keeps)+

lemma partOpacityStep_keeps:
  "List.map_filter byIdWrite (trace (partOpacityStep m model md time isCorrection dur k st)) =
     List.map_filter byIdWrite (trace st)"
  "List.map_filter weightedWrite (trace (partOpacityStep m model md time isCorrection dur k st)) =
     List.map_filter weightedWrite (trace st)"
  "callbackCount (trace (partOpacityStep m model md time isCorrection dur k st)) =
     callbackCount (trace st)"
  "opacity (partOpacityStep m model md time isCorrection dur k st) = opacity st"
  by (simp_all add: partOpacityStep_def Let_def List.map_filter_simps map_filter_append
      split: option.splits)

lemma fold_partOpacityStep_keeps:
  "List.map_filter byIdWrite (trace (fold (partOpacityStep m model md time isCorrection dur) ks st)) =
     List.map_filter byIdWrite (trace st)"
  "List.map_filter weightedWrite (trace (fold (partOpacityStep m model md time isCorrection dur) ks st)) =
     List.map_filter weightedWrite (trace st)"
  "callbackCount (trace (fold (partOpacityStep m model md time isCorrection dur) ks st)) =
     callbackCount (trace st)"
  "opacity (fold (partOpacityStep m model md time isCorrection dur) ks st) = opacity st"
  by (induction ks arbitrary: st; simp add: partOpacityStep_keeps)+

lemma parameterStep_keeps:
  "eyeBlinkValue (parameterStep E m model entry now fw fin fout md time isCorrection dur k st) =
     eyeBlinkValue st"
  "lipSyncValue (parameterStep E m model entry now fw fin fout md time isCorrection dur k st) =
     lipSyncValue st"
  "opacity (parameterStep E m model entry now fw fin fout md time isCorrection dur k st) =
     opacity st"
  "List.map_filter byIdWrite
     (trace (parameterStep E m model entry now fw fin fout md time isCorrection dur k st)) =
     List.map_filter byIdWrite (trace st)"
  "callbackCount (trace (parameterStep E m model entry now fw fin fout md time isCorrection dur k st)) = callbackCount (trace st)"
  by (simp_all add: parameterStep_def applyParameterCurve_def Let_def List.map_filter_simps
      map_filter_append split: option.splits)

lemma fold_parameterStep_keeps:
  "eyeBlinkValue (fold (parameterStep E m model entry now fw fin fout md time isCorrection dur) ks st) =
     eyeBlinkValue st"
  "lipSyncValue (fold (parameterStep E m model entry now fw fin fout md time isCorrection dur) ks st) =
     lipSyncValue st"
  "opacity (fold (parameterStep E m model entry now fw fin fout md time isCorrection dur) ks st) =
     opacity st"
  "List.map_filter byIdWrite
     (trace (fold (parameterStep E m model entry now fw fin fout md time isCorrection dur) ks st)) =
     List.map_filter byIdWrite (trace st)"
  "callbackCount (trace (fold (parameterStep E m model entry now fw fin fout md time isCorrection dur) ks st)) = callbackCount (trace st)"
  by (induction ks arbitrary: st; simp add: parameterStep_keeps)+

lemma overlayTargets_keeps:
  "List.map_filter weightedWrite (overlayTargets ids i flags isAdditive v w) = []"
  "callbackCount (overlayTargets ids i flags isAdditive v w) = 0"
  by (induction ids arbitrary: i; cases isAdditive; simp add: List.map_filter_simps)+

lemma overlayPass_keeps:
  "List.map_filter weightedWrite (trace (overlayPass m fw st)) =
     List.map_filter weightedWrite (trace st)"
  "callbackCount (trace (overlayPass m fw st)) =
     callbackCount (trace st)"
  "opacity (overlayPass m fw st) = opacity st"
  by (simp_all add: overlayPass_def Let_def map_filter_append overlayTargets_keeps)

lemma claimIndex_take:
  "claimIndex ids name i = None \<longleftrightarrow> name \<notin> set (take (maxTargetSize - i) ids)"
proof (induction ids name i rule: claimIndex.induct)
  case (1 name i)
  then show ?case by simp
next
  case (2 id0 ids name i)
  show ?case
  proof (cases "i < maxTargetSize")
    case False
    then show ?thesis by simp
  next
    case True
    then have e: "maxTargetSize - i = Suc (maxTargetSize - Suc i)" by simp
    show ?thesis using True "2.IH" unfolding e by auto
  qed
qed

lemma parameterStep_weighted:
  assumes "evaluateCurve md k time isCorrection dur = Some v"
  shows "List.map_filter weightedWrite
           (trace (parameterStep E m model entry now fw fin fout md time isCorrection dur k st)) =
         List.map_filter weightedWrite (trace st) @
           (case findParameterIndex model (c_id (curves md ! k)) of
              None \<Rightarrow> []
            | Some idx \<Rightarrow>
                [(int idx,
                  overlaidValue m (eyeBlinkValue st) (lipSyncValue st) (c_id (curves md ! k)) v,
                  paramWeight E m entry (curves md ! k) now fw fin fout)])"
proof (cases "findParameterIndex model (c_id (curves md ! k))")
  case None
  then show ?thesis by (simp add: parameterStep_def)
next
  case (Some idx)
  have eb: "(claimIndex (targetIds (eyeBlinkParameterIds m)) (c_id (curves md ! k)) 0 = None) =
            (c_id (curves md ! k) \<notin> set (take maxTargetSize (targetIds (eyeBlinkParameterIds m))))"
    using claimIndex_take[of "targetIds (eyeBlinkParameterIds m)" "c_id (curves md ! k)" 0] by simp
  have ls: "(claimIndex (targetIds (lipSyncParameterIds m)) (c_id (curves md ! k)) 0 = None) =
            (c_id (curves md ! k) \<notin> set (take maxTargetSize (targetIds (lipSyncParameterIds m))))"
    using claimIndex_take[of "targetIds (lipSyncParameterIds m)" "c_id (curves md ! k)" 0] by simp
  show ?thesis
    using Some assms eb ls
    by (auto simp add: parameterStep_def applyParameterCurve_def overlaidValue_def Let_def
        List.map_filter_simps map_filter_append split: option.splits)
qed

lemma fold_parameterStep_weighted:
  assumes "\<forall>k \<in> set ks. \<exists>v. evaluateCurve md k time isCorrection dur = Some v"
  shows "List.map_filter weightedWrite
           (trace (fold (parameterStep E m model entry now fw fin fout md time isCorrection dur) ks st)) =
         List.map_filter weightedWrite (trace st) @
           map (\<lambda>k. (int (the (findParameterIndex model (c_id (curves md ! k)))),
                     overlaidValue m (eyeBlinkValue st) (lipSyncValue st) (c_id (curves md ! k))
                       (the (evaluateCurve md k time isCorrection dur)),
                     paramWeight E m entry (curves md ! k) now fw fin fout))
             (filter (\<lambda>k. findParameterIndex model (c_id (curves md ! k)) \<noteq> None) ks)"
  using assms
proof (induction ks arbitrary: st)
  case Nil
  then show ?case by simp
next
  case (Cons k ks)
  obtain v where v: "evaluateCurve md k time isCorrection dur = Some v"
    using Cons.prems by auto
  have rest: "\<forall>k \<in> set ks. \<exists>v. evaluateCurve md k time isCorrection dur = Some v"
    using Cons.prems by simp
  show ?case
    using Cons.IH[OF rest] parameterStep_weighted[OF v] v
    by (auto simp add: parameterStep_keeps split: option.splits)
qed

lemma parameterStep_flags:
  assumes "evaluateCurve md k time isCorrection dur = Some v"
  shows "testFlag (eyeBlinkFlags (parameterStep E m model entry now fw fin fout md time isCorrection dur k st)) j
         \<longleftrightarrow> testFlag (eyeBlinkFlags st) j \<or>
             (eyeBlinkValue st \<noteq> MAX_VALUE \<and>
              findParameterIndex model (c_id (curves md ! k)) \<noteq> None \<and>
              (\<exists>i. claimIndex (targetIds (eyeBlinkParameterIds m)) (c_id (curves md ! k)) 0 = Some i \<and>
                   i mod 32 = j mod 32))"
    and "testFlag (lipSyncFlags (parameterStep E m model entry now fw fin fout md time isCorrection dur k st)) j
         \<longleftrightarrow> testFlag (lipSyncFlags st) j \<or>
             (lipSyncValue st \<noteq> MAX_VALUE \<and>
              findParameterIndex model (c_id (curves md ! k)) \<noteq> None \<and>
              (\<exists>i. claimIndex (targetIds (lipSyncParameterIds m)) (c_id (curves md ! k)) 0 = Some i \<and>
                   i mod 32 = j mod 32))"
  using assms
  by (auto simp add: parameterStep_def applyParameterCurve_def Let_def testFlag_setFlag
      split: option.splits)

lemma fold_parameterStep_flags:
  assumes "\<forall>k \<in> set ks. \<exists>v. evaluateCurve md k time isCorrection dur = Some v"
  shows "testFlag (eyeBlinkFlags (fold (parameterStep E m model entry now fw fin fout md time isCorrection dur) ks st)) j
         \<longleftrightarrow> testFlag (eyeBlinkFlags st) j \<or>
             (eyeBlinkValue st \<noteq> MAX_VALUE \<and>
              (\<exists>k \<in> set ks. findParameterIndex model (c_id (curves md ! k)) \<noteq> None \<and>
                (\<exists>i. claimIndex (targetIds (eyeBlinkParameterIds m)) (c_id (curves md ! k)) 0 = Some i \<and>
                     i mod 32 = j mod 32)))"
    and "testFlag (lipSyncFlags (fold (parameterStep E m model entry now fw fin fout md time isCorrection dur) ks st)) j
         \<longleftrightarrow> testFlag (lipSyncFlags st) j \<or>
             (lipSyncValue st \<noteq> MAX_VALUE \<and>
              (\<exists>k \<in> set ks. findParameterIndex model (c_id (curves md ! k)) \<noteq> None \<and>
                (\<exists>i. claimIndex (targetIds (lipSyncParameterIds m)) (c_id (curves md ! k)) 0 = Some i \<and>
                     i mod 32 = j mod 32)))"
  using assms
proof (induction ks arbitrary: st)
  case Nil
  { case 1 show ?case by simp }
  { case 2 show ?case by simp }
next
  case (Cons k ks)
  { case 1
    obtain v where v: "evaluateCurve md k time isCorrection dur = Some v"
      using 1 by auto
    have rest: "\<forall>k \<in> set ks. \<exists>v. evaluateCurve md k time isCorrection dur = Some v"
      using 1 by simp
    show ?case
      using Cons.IH(1)[OF rest] parameterStep_flags(1)[OF v]
      by (auto simp add: parameterStep_keeps) }
  { case 2
    obtain v where v: "evaluateCurve md k time isCorrection dur = Some v"
      using 2 by auto
    have rest: "\<forall>k \<in> set ks. \<exists>v. evaluateCurve md k time isCorrection dur = Some v"
      using 2 by simp
    show ?case
      using Cons.IH(2)[OF rest] parameterStep_flags(2)[OF v]
      by (auto simp add: parameterStep_keeps) }
qed

lemma claim_mod_distinct:
  assumes "distinct ids" and "length ids \<le> 32" and "j < length ids"
  shows "(\<exists>i. claimIndex ids name 0 = Some i \<and> i mod 32 = j mod 32) \<longleftrightarrow> ids ! j = name"
proof
  assume "\<exists>i. claimIndex ids name 0 = Some i \<and> i mod 32 = j mod 32"
  then obtain i where i: "claimIndex ids name 0 = Some i" "i mod 32 = j mod 32" by blast
  from claimIndex_Some[OF i(1)] have "i < length ids" "ids ! i = name" by simp_all
  moreover have "i = j" using i(2) \<open>i < length ids\<close> assms(2,3) by simp
  ultimately show "ids ! j = name" by simp
next
  assume "ids ! j = name"
  moreover have "length ids \<le> maxTargetSize" using assms(2) by (simp add: maxTargetSize_def)
  ultimately have "claimIndex ids name 0 = Some j"
    using claimIndex_distinct[OF assms(1) _ assms(3)] by simp
  then show "\<exists>i. claimIndex ids name 0 = Some i \<and> i mod 32 = j mod 32" by blast
qed

subsection \<open>The curve groups\<close>

lemma wellFormed_curveCount: "wellFormed md \<Longrightarrow> curveCount md \<le> length (curves md)"
proof (cases "curveCount md")
  case 0
  then show ?thesis by simp
next
  case (Suc n)
  assume "wellFormed md"
  then have "curveInRange md n" using Suc by (simp add: wellFormed_def)
  then show ?thesis using Suc by (simp add: curveInRange_def)
qed

lemma modelGroupEnd_eq:
  assumes "c1 \<le> curveCount md" and "curveCount md \<le> length (curves md)"
    and "\<forall>k. k < c1 \<longrightarrow> c_type (curves md ! k) = CubismMotionCurveTarget_Model"
    and "c1 < curveCount md \<longrightarrow> c_type (curves md ! c1) \<noteq> CubismMotionCurveTarget_Model"
  shows "modelGroupEnd md = c1"
proof -
  let ?xs = "declaredCurves md"
  have len: "length ?xs = curveCount md" using assms(2) by (simp add: declaredCurves_def)
  have nth: "?xs ! i = curves md ! i" if "i < curveCount md" for i
    using that by (simp add: declaredCurves_def)
  have "takeWhile (\<lambda>curve. c_type curve = CubismMotionCurveTarget_Model) ?xs = take c1 ?xs"
  proof (rule takeWhile_eq_take_P_nth)
    fix i assume "i < c1" "i < length ?xs"
    then show "c_type (?xs ! i) = CubismMotionCurveTarget_Model"
      using assms(3) nth len by simp
  next
    assume "c1 < length ?xs"
    then show "c_type (?xs ! c1) \<noteq> CubismMotionCurveTarget_Model"
      using assms(4) nth len by simp
  qed
  then show ?thesis using assms(1) len by (simp add: modelGroupEnd_def)
qed

lemma parameterGroupEnd_eq:
  assumes "modelGroupEnd md = c1" and "c1 \<le> c2" and "c2 \<le> curveCount md"
    and "curveCount md \<le> length (curves md)"
    and "\<forall>k. c1 \<le> k \<and> k < c2 \<longrightarrow> c_type (curves md ! k) = CubismMotionCurveTarget_Parameter"
    and "c2 < curveCount md \<longrightarrow> c_type (curves md ! c2) \<noteq> CubismMotionCurveTarget_Parameter"
  shows "parameterGroupEnd md = c2"
proof -
  let ?xs = "drop c1 (declaredCurves md)"
  have len: "length ?xs = curveCount md - c1" using assms(4) by (simp add: declaredCurves_def)
  have nth: "?xs ! i = curves md ! (c1 + i)" if "c1 + i < curveCount md" for i
    using that assms(4) by (simp add: declaredCurves_def)
  have "takeWhile (\<lambda>curve. c_type curve = CubismMotionCurveTarget_Parameter) ?xs = take (c2 - c1) ?xs"
  proof (rule takeWhile_eq_take_P_nth)
    fix i assume "i < c2 - c1" "i < length ?xs"
    then show "c_type (?xs ! i) = CubismMotionCurveTarget_Parameter"
      using assms(3,5) nth[of i] len by simp
  next
    assume "c2 - c1 < length ?xs"
    then show "c_type (?xs ! (c2 - c1)) \<noteq> CubismMotionCurveTarget_Parameter"
      using assms(2,6) nth[of "c2 - c1"] len by simp
  qed
  then show ?thesis using assms(1,2,3) len by (simp add: parameterGroupEnd_def)
qed

lemma groups_ordered: "modelGroupEnd md \<le> parameterGroupEnd md"
  by (simp add: parameterGroupEnd_def)

lemma parameterGroupEnd_le: "parameterGroupEnd md \<le> max (curveCount md) (modelGroupEnd md)"
proof -
  have "length (takeWhile (\<lambda>curve. c_type curve = CubismMotionCurveTarget_Parameter)
               (drop (modelGroupEnd md) (declaredCurves md)))
        \<le> length (drop (modelGroupEnd md) (declaredCurves md))"
    by (rule length_takeWhile_le)
  then show ?thesis by (simp add: parameterGroupEnd_def declaredCurves_def)
qed

subsection \<open>The structure of a pass\<close>

lemma blendCurves_structure:
  assumes "wellFormed md"
  shows "\<exists>c3. blendCurves E m model entry now fw fin fout md time isCorrection dur =
     Some (fold (partOpacityStep m model md time isCorrection dur) [parameterGroupEnd md..<c3]
            (overlayPass m fw
              (fold (parameterStep E m model entry now fw fin fout md time isCorrection dur)
                 [modelGroupEnd md..<parameterGroupEnd md]
                 (fold (modelStep md time isCorrection dur) [0..<modelGroupEnd md]
                    (initialPassState m))))) \<and>
     modelCurves md time isCorrection dur 0 (initialPassState m) =
       Some (modelGroupEnd md,
             fold (modelStep md time isCorrection dur) [0..<modelGroupEnd md] (initialPassState m)) \<and>
     parameterGroupEnd md \<le> curveCount md"
proof -
  note n = wellFormed_curveCount[OF assms]
  obtain c1 where c1:
      "modelCurves md time isCorrection dur 0 (initialPassState m) =
         Some (c1, fold (modelStep md time isCorrection dur) [0..<c1] (initialPassState m))"
      "c1 \<le> curveCount md"
      "\<forall>k. 0 \<le> k \<and> k < c1 \<longrightarrow> c_type (curves md ! k) = CubismMotionCurveTarget_Model"
      "c1 < curveCount md \<longrightarrow> c_type (curves md ! c1) \<noteq> CubismMotionCurveTarget_Model"
    using modelCurves_fold[OF assms, of 0 time isCorrection dur "initialPassState m"] by auto
  have g1: "modelGroupEnd md = c1"
    using modelGroupEnd_eq[OF c1(2) n] c1(3,4) by simp
  let ?st1 = "fold (modelStep md time isCorrection dur) [0..<c1] (initialPassState m)"
  obtain c2 where c2:
      "parameterCurves E m model entry now fw fin fout md time isCorrection dur c1 ?st1 =
         Some (c2, fold (parameterStep E m model entry now fw fin fout md time isCorrection dur)
                     [c1..<c2] ?st1)"
      "c1 \<le> c2" "c2 \<le> curveCount md"
      "\<forall>k. c1 \<le> k \<and> k < c2 \<longrightarrow> c_type (curves md ! k) = CubismMotionCurveTarget_Parameter"
      "c2 < curveCount md \<longrightarrow> c_type (curves md ! c2) \<noteq> CubismMotionCurveTarget_Parameter"
    using parameterCurves_fold[OF assms c1(2), of E m model entry now fw fin fout time isCorrection dur ?st1]
    by auto
  have g2: "parameterGroupEnd md = c2"
    using parameterGroupEnd_eq[OF g1 c2(2,3) n] c2(4,5) by simp
  let ?st2 = "fold (parameterStep E m model entry now fw fin fout md time isCorrection dur) [c1..<c2] ?st1"
  obtain c3 where c3:
      "partOpacityCurves m model md time isCorrection dur c2 (overlayPass m fw ?st2) =
         Some (c3, fold (partOpacityStep m model md time isCorrection dur) [c2..<c3]
                     (overlayPass m fw ?st2))"
    using partOpacityCurves_fold[OF assms c2(3), of m model time isCorrection dur "overlayPass m fw ?st2"]
    by auto
  show ?thesis
    apply (rule exI[of _ c3])
    using c1(1) c2(1,3) c3 by (simp add: blendCurves_def g1 g2)
qed

subsection \<open>The sampling time of a looping motion\<close>

lemma repeatTime_bounded:
  assumes "0 < d" and "x \<le> real (Suc n) * d"
  shows "\<exists>t k. repeatTime x d = Some t \<and> x = t + real k * d \<and>
               (if d < x then 0 < t \<and> t \<le> d else t = x)"
  using assms(2)
proof (induction n arbitrary: x)
  case 0
  then have "\<not> d < x" by simp
  then have "repeatTime x d = Some x" by (subst repeatTime.simps) simp
  then show ?case using \<open>\<not> d < x\<close> by (intro exI[of _ x] exI[of _ 0]) simp
next
  case (Suc n)
  show ?case
  proof (cases "d < x")
    case False
    then have "repeatTime x d = Some x" by (subst repeatTime.simps) simp
    then show ?thesis using False by (intro exI[of _ x] exI[of _ 0]) simp
  next
    case True
    have "x - d \<le> real (Suc n) * d" using Suc.prems by (simp add: algebra_simps)
    from Suc.IH[OF this] obtain t k where tk: "repeatTime (x - d) d = Some t"
      "x - d = t + real k * d" "if d < x - d then 0 < t \<and> t \<le> d else t = x - d" by blast
    have r: "repeatTime x d = Some t" using True tk(1) by (subst repeatTime.simps) simp
    have e: "x = t + real (Suc k) * d" using tk(2) by (simp add: algebra_simps)
    have b: "0 < t \<and> t \<le> d" using tk(3) True by (auto split: if_splits)
    show ?thesis using r e b True by (intro exI[of _ t] exI[of _ "Suc k"]) simp
  qed
qed

lemma repeatTime_terminates:
  assumes "0 < d"
  shows "\<exists>t k. repeatTime x d = Some t \<and> x = t + real k * d \<and>
               (if d < x then 0 < t \<and> t \<le> d else t = x)"
proof -
  obtain n where "x < real n * d" using assms ex_less_of_nat_mult by blast
  then have "x \<le> real (Suc n) * d" using assms by (simp add: algebra_simps)
  from repeatTime_bounded[OF assms this] show ?thesis .
qed

lemma passTime_defined:
  assumes "isLoop m \<longrightarrow> positiveSpan (passDuration m md)"
  shows "\<exists>time. passTime m md e now = Some time"
proof (cases "isLoop m")
  case False
  then show ?thesis by (simp add: passTime_def)
next
  case True
  show ?thesis
  proof (cases "passDuration m md")
    case (Finite D)
    with assms True have "0 < D" by simp
    from repeatTime_terminates[OF this, of "timeOffsetSeconds e now"] True Finite
    show ?thesis by (auto simp add: passTime_def loopTime_def)
  next
    case Infinity
    then show ?thesis using True by (simp add: passTime_def loopTime_def)
  qed
qed

subsection \<open>The outcome of a call\<close>

lemma adjustedMotion_fields [simp]:
  "isLoop (adjustedMotion m) = isLoop m"
  "motionBehavior (adjustedMotion m) = motionBehavior m"
  "isLoopFadeIn (adjustedMotion m) = isLoopFadeIn m"
  "onFinishedMotion (adjustedMotion m) = onFinishedMotion m"
  "fadeInSeconds (adjustedMotion m) = fadeInSeconds m"
  "fadeOutSeconds (adjustedMotion m) = fadeOutSeconds m"
  "weight (adjustedMotion m) = weight m"
  "eyeBlinkParameterIds (adjustedMotion m) = eyeBlinkParameterIds m"
  "lipSyncParameterIds (adjustedMotion m) = lipSyncParameterIds m"
  "eyeBlinkAdditive (adjustedMotion m) = eyeBlinkAdditive m"
  "parameterAdditiveIndicies (adjustedMotion m) = parameterAdditiveIndicies m"
  "modelOpacity (adjustedMotion m) = modelOpacity m"
  by (simp_all add: adjustedMotion_def)

lemma adjustedEntry_fields [simp]:
  "startTimeSeconds (adjustedEntry A m e) = startTimeSeconds e"
  "fadeInStartTimeSeconds (adjustedEntry A m e) = fadeInStartTimeSeconds e"
  "finished (adjustedEntry A m e) = finished e"
  by (simp_all add: adjustedEntry_def)

lemma adjusted_derived [simp]:
  "timeOffsetSeconds (adjustedEntry A m e) now = timeOffsetSeconds e now"
  "passDuration (adjustedMotion m) md = passDuration m md"
  "passTime (adjustedMotion m) md (adjustedEntry A m e) now = passTime m md e now"
  "tmpFadeIn E (adjustedMotion m) entry now = tmpFadeIn E m entry now"
  "tmpFadeOut E (adjustedMotion m) entry now = tmpFadeOut E m entry now"
  by (simp_all add: timeOffsetSeconds_def passDuration_def passTime_def tmpFadeIn_def tmpFadeOut_def)

lemma finishPass_adjusted [simp]:
  "finishPass (adjustedMotion m) entry now offset dur time = finishPass m entry now offset dur time"
  by (cases "motionBehavior m") (simp_all add: finishPass_def updateForNextLoop_def)

lemma doUpdateParameters_pass:
  assumes "motionData m = Some md"
  shows "doUpdateParameters A E m model now fw e =
     (case passTime m md e now of
        None \<Rightarrow> Diverges
      | Some time \<Rightarrow>
          (case blendCurves E (adjustedMotion m) model (adjustedEntry A m e) now fw
                  (tmpFadeIn E m (adjustedEntry A m e) now) (tmpFadeOut E m (adjustedEntry A m e) now)
                  md time (motionBehavior m = MotionBehavior_V2 \<and> isLoop m) (passDuration m md) of
             None \<Rightarrow> Throws
           | Some st \<Rightarrow>
               Returns
                 \<lparr> r_motion = (adjustedMotion m)\<lparr> modelOpacity := opacity st, lastWeight := fw \<rparr>,
                   r_entry = fst (finishPass m (adjustedEntry A m e) now (timeOffsetSeconds e now)
                                    (passDuration m md) time),
                   r_effects = trace st @
                     snd (finishPass m (adjustedEntry A m e) now (timeOffsetSeconds e now)
                            (passDuration m md) time) \<rparr>))"
  using assms
  by (simp add: doUpdateParameters_def Let_def passTime_def split: option.splits prod.splits)

lemma blendCurves_callbacks:
  assumes "wellFormed md"
    and "blendCurves E m model entry now fw fin fout md time isCorrection dur = Some st"
  shows "callbackCount (trace st) = 0"
proof -
  from blendCurves_structure[OF assms(1), of E m model entry now fw fin fout time isCorrection dur]
    assms(2)
  obtain c3 where "st = fold (partOpacityStep m model md time isCorrection dur) [parameterGroupEnd md..<c3]
            (overlayPass m fw
              (fold (parameterStep E m model entry now fw fin fout md time isCorrection dur)
                 [modelGroupEnd md..<parameterGroupEnd md]
                 (fold (modelStep md time isCorrection dur) [0..<modelGroupEnd md]
                    (initialPassState m))))"
    by auto
  then show ?thesis
    by (simp add: fold_partOpacityStep_keeps overlayPass_keeps fold_parameterStep_keeps
        fold_modelStep_keeps initialPassState_def)
qed

lemma doUpdateParameters_Returns:
  assumes "motionData m = Some md" and "wellFormed md" and "passTime m md e now = Some time"
  shows "\<exists>r. doUpdateParameters A E m model now fw e = Returns r \<and>
     r_entry r = fst (finishPass m (adjustedEntry A m e) now (timeOffsetSeconds e now)
                        (passDuration m md) time) \<and>
     callbackCount (r_effects r) =
       callbackCount (snd (finishPass m (adjustedEntry A m e) now (timeOffsetSeconds e now)
                          (passDuration m md) time))"
proof -
  obtain st where st: "blendCurves E (adjustedMotion m) model (adjustedEntry A m e) now fw
                  (tmpFadeIn E m (adjustedEntry A m e) now) (tmpFadeOut E m (adjustedEntry A m e) now)
                  md time (motionBehavior m = MotionBehavior_V2 \<and> isLoop m) (passDuration m md) = Some st"
    using blendCurves_structure[OF assms(2)] by blast
  note cb = blendCurves_callbacks[OF assms(2) st]
  show ?thesis
    unfolding doUpdateParameters_pass[OF assms(1)] using assms(3) st cb by simp
qed

lemma doUpdateParameters_Returns_iff:
  assumes "motionData m = Some md" and "wellFormed md"
  shows "(\<exists>r. doUpdateParameters A E m model now fw e = Returns r) \<longleftrightarrow> passTime m md e now \<noteq> None"
proof
  assume "\<exists>r. doUpdateParameters A E m model now fw e = Returns r"
  then show "passTime m md e now \<noteq> None"
    unfolding doUpdateParameters_pass[OF assms(1)] by (auto split: option.splits)
next
  assume "passTime m md e now \<noteq> None"
  then obtain time where "passTime m md e now = Some time" by auto
  from doUpdateParameters_Returns[OF assms this] show "\<exists>r. doUpdateParameters A E m model now fw e = Returns r"
    by blast
qed

subsection \<open>Completion and looping\<close>

lemma wellFormed_scenario_md: "wellFormed scenario_md"
  by (simp add: wellFormed_def curveInRange_def evaluatorsDefined_def scenario_md_def
      curveSegments_def lastControlPoint_def linearEvaluate_def Let_def)

lemma wellFormed_loop_md: "wellFormed loop_md"
  by (auto simp add: wellFormed_def curveInRange_def evaluatorsDefined_def loop_md_def
      curveSegments_def lastControlPoint_def linearEvaluate_def Let_def)

lemma wellFormed_still_md: "wellFormed still_md"
  by (simp add: wellFormed_def still_md_def)

lemma wellFormed_frozen_md: "wellFormed frozen_md"
  by (auto simp add: wellFormed_def curveInRange_def evaluatorsDefined_def loop_md_def
      frozen_md_def curveSegments_def lastControlPoint_def linearEvaluate_def Let_def)

lemmas example_defs = scenario_motion_def scenario_md_def scenario_model_def entry0_def
  loop_md_def loop_motion_def legacy_motion_def still_md_def still_motion_def late_entry_def
  keepEndTime_def linearEasing_def frozen_md_def frozen_motion_def

lemmas pass_defs = doUpdateParameters_def adjustedEntry_def adjustedMotion_def timeOffsetSeconds_def
  tmpFadeIn_def tmpFadeOut_def passDuration_def blendCurves_def initialPassState_def
  finishPass_def updateForNextLoop_def
  modelCurves.simps parameterCurves.simps partOpacityCurves.simps overlayPass_def
  applyParameterCurve_def paramWeight_def evaluateCurve_def findSegment.simps
  csmVector_get_def linearEvaluate_def findParameterIndex_def targetIds_def Let_def
  repeatTime.simps loopTime_def

text \<open>
  C4, as amended. For a non-looping motion that is well formed, a call of
  \<open>doUpdateParameters\<close> returns, and it compares the elapsed time since the entry's start
  time, floored at zero, with the motion's duration: when it is at least the duration the
  entry's finished flag is set and the finished-motion callback is called once (when one
  is registered); when it is below, the flag is left as it was and no callback is called.
\<close>

theorem doUpdateParameters_finishes_non_looping:
  assumes "motionData m = Some md" and "wellFormed md" and "\<not> isLoop m"
  shows "\<exists>r. doUpdateParameters A E m model now fw e = Returns r \<and>
     (if duration md \<le> timeOffsetSeconds e now
      then finished (r_entry r) \<and>
           callbackCount (r_effects r) = (if onFinishedMotion m then 1 else 0)
      else finished (r_entry r) = finished e \<and>
           callbackCount (r_effects r) = 0)"
proof -
  have t: "passTime m md e now = Some (timeOffsetSeconds e now)"
    using assms(3) by (simp add: passTime_def)
  have d: "passDuration m md = Finite (duration md)"
    using assms(3) by (simp add: passDuration_def)
  from doUpdateParameters_Returns[OF assms(1,2) t, of A E model fw]
  obtain r where r: "doUpdateParameters A E m model now fw e = Returns r"
    "r_entry r = fst (finishPass m (adjustedEntry A m e) now (timeOffsetSeconds e now)
                        (Finite (duration md)) (timeOffsetSeconds e now))"
    "callbackCount (r_effects r) =
       callbackCount (snd (finishPass m (adjustedEntry A m e) now (timeOffsetSeconds e now)
                          (Finite (duration md)) (timeOffsetSeconds e now)))"
    unfolding d by blast
  show ?thesis
    apply (rule exI[of _ r])
    using r assms(3) by (simp add: finishPass_def)
qed

theorem doUpdateParameters_finishes_non_looping_witness:
  "motionData scenario_motion = Some scenario_md \<and> wellFormed scenario_md \<and>
   \<not> isLoop scenario_motion \<and>
   (\<exists>r. doUpdateParameters keepEndTime linearEasing scenario_motion scenario_model 3 1 entry0 = Returns r \<and>
        finished (r_entry r) \<and> callbackCount (r_effects r) = 1) \<and>
   (\<exists>r. doUpdateParameters keepEndTime linearEasing scenario_motion scenario_model 1 1 entry0 = Returns r \<and>
        \<not> finished (r_entry r) \<and> callbackCount (r_effects r) = 0)"
proof -
  have a: "motionData scenario_motion = Some scenario_md" by (simp add: scenario_motion_def)
  have c: "\<not> isLoop scenario_motion" by (simp add: scenario_motion_def)
  have f: "onFinishedMotion scenario_motion" "\<not> finished entry0"
    "duration scenario_md \<le> timeOffsetSeconds entry0 3"
    "\<not> duration scenario_md \<le> timeOffsetSeconds entry0 1"
    by (simp_all add: example_defs timeOffsetSeconds_def)
  show ?thesis
    using doUpdateParameters_finishes_non_looping [OF a wellFormed_scenario_md c,
        of keepEndTime linearEasing scenario_model 3 1 entry0]
      doUpdateParameters_finishes_non_looping [OF a wellFormed_scenario_md c,
        of keepEndTime linearEasing scenario_model 1 1 entry0]
      a wellFormed_scenario_md c f
    by simp
qed

text \<open>
  C4 as stated compares the elapsed time itself. For a motion of duration 0 whose entry
  starts at 5 seconds, the call at 4 seconds has an elapsed time of -1, below the
  duration; the code floors it to 0, sets the finished flag and calls the callback.
\<close>

theorem doUpdateParameters_unfloored_elapsed_counterexample:
  "\<not> isLoop still_motion \<and> motionData still_motion = Some still_md \<and>
   4 - startTimeSeconds late_entry < duration still_md \<and>
   map_option (finished \<circ> r_entry)
     (returned (doUpdateParameters keepEndTime linearEasing still_motion scenario_model 4 1 late_entry)) =
   Some True \<and>
   map_option r_effects
     (returned (doUpdateParameters keepEndTime linearEasing still_motion scenario_model 4 1 late_entry)) =
   Some [FinishedMotionCallback]"
  by (simp add: pass_defs example_defs)


text \<open>
  C8, as amended. When the elapsed time of a looping, well-formed motion reaches the
  (adjusted) duration \<open>D\<close>, finite and positive, the call returns and: under \<open>MotionBehavior_V2\<close> the
  entry's start time is the current time minus the sampling time, which is the elapsed
  time reduced by a multiple of the duration into \<open>(0, duration]\<close>, and the fade-in start
  time is set to the same instant when loop fade-in is enabled; under
  \<open>MotionBehavior_V1\<close> the start time is the current time, and the fade-in start time is
  set to the current time when loop fade-in is enabled. Without loop fade-in the fade-in
  start time is left as it was, under both behaviors.
\<close>

theorem updateForNextLoop_rewinds:
  assumes "motionData m = Some md" and "wellFormed md" and "isLoop m"
    and "motionBehavior m = MotionBehavior_V2 \<longrightarrow> fps md \<noteq> 0"
    and "passDuration m md = Finite D"
    and "0 < D" and "D \<le> timeOffsetSeconds e now"
  shows "\<exists>r time k.
     doUpdateParameters A E m model now fw e = Returns r \<and>
     repeatTime (timeOffsetSeconds e now) D = Some time \<and>
     timeOffsetSeconds e now = time + real k * D \<and>
     0 < time \<and> time \<le> D \<and>
     (case motionBehavior m of
        MotionBehavior_V2 \<Rightarrow>
          D = duration md + 1 / fps md \<and>
          startTimeSeconds (r_entry r) = now - time \<and>
          fadeInStartTimeSeconds (r_entry r) =
            (if isLoopFadeIn m then now - time else fadeInStartTimeSeconds e)
      | MotionBehavior_V1 \<Rightarrow>
          D = duration md \<and>
          startTimeSeconds (r_entry r) = now \<and>
          fadeInStartTimeSeconds (r_entry r) =
            (if isLoopFadeIn m then now else fadeInStartTimeSeconds e))"
proof -
  let ?x = "timeOffsetSeconds e now"
  from repeatTime_terminates[OF assms(6), of ?x]
  obtain time k where tk: "repeatTime ?x D = Some time" "?x = time + real k * D"
    "if D < ?x then 0 < time \<and> time \<le> D else time = ?x" by blast
  have b: "0 < time \<and> time \<le> D" using tk(3) assms(6,7) by (auto split: if_splits)
  have t: "passTime m md e now = Some time"
    using assms(3,5) tk(1) by (simp add: passTime_def loopTime_def)
  from doUpdateParameters_Returns[OF assms(1,2) t, of A E model fw]
  obtain r where r: "doUpdateParameters A E m model now fw e = Returns r"
    "r_entry r = fst (finishPass m (adjustedEntry A m e) now ?x (Finite D) time)"
    unfolding assms(5) by blast
  have f: "r_entry r = fst (updateForNextLoop m (adjustedEntry A m e) now time)"
    using r(2) assms(3,7) by (simp add: finishPass_def)
  have d: "D = (if motionBehavior m = MotionBehavior_V2 then duration md + 1 / fps md
                else duration md)"
    using assms(3,5) by (auto simp add: passDuration_def split: if_splits)
  show ?thesis
    apply (rule exI[of _ r], rule exI[of _ time], rule exI[of _ k])
    using r(1) tk(1,2) b f d
    by (cases "motionBehavior m") (simp_all add: updateForNextLoop_def Let_def)
qed

theorem updateForNextLoop_rewinds_witness:
  "map_option (startTimeSeconds \<circ> r_entry)
     (returned (doUpdateParameters keepEndTime linearEasing loop_motion scenario_model 5 1 entry0)) =
   Some (61/15) \<and>
   map_option (fadeInStartTimeSeconds \<circ> r_entry)
     (returned (doUpdateParameters keepEndTime linearEasing loop_motion scenario_model 5 1 entry0)) =
   Some (61/15)"
proof -
  have a: "motionData loop_motion = Some loop_md" "isLoop loop_motion"
    "motionBehavior loop_motion = MotionBehavior_V2 \<longrightarrow> fps loop_md \<noteq> 0"
    "passDuration loop_motion loop_md = Finite (61/30)"
    "(0::real) < 61/30"
    "61/30 \<le> timeOffsetSeconds entry0 5"
    by (simp_all add: example_defs passDuration_def timeOffsetSeconds_def)
  have t: "repeatTime (timeOffsetSeconds entry0 5) (61/30) = Some (14/15)"
    by (simp add: example_defs timeOffsetSeconds_def repeatTime.simps)
  from updateForNextLoop_rewinds [OF a(1) wellFormed_loop_md a(2,3,4,5,6),
      of keepEndTime linearEasing scenario_model 1]
  show ?thesis
    unfolding t by (auto simp add: example_defs)
qed

text \<open>
  C8 as stated resets the fade-in start time under the legacy behavior in every case. With
  loop fade-in disabled the code resets the start time to the current time 5 and leaves
  the fade-in start time at 0.
\<close>

theorem updateForNextLoop_legacy_fade_in_counterexample:
  "isLoop legacy_motion \<and> motionBehavior legacy_motion = MotionBehavior_V1 \<and>
   motionData legacy_motion = Some loop_md \<and>
   reaches (timeOffsetSeconds entry0 5) (passDuration legacy_motion loop_md) \<and>
   map_option (startTimeSeconds \<circ> r_entry)
     (returned (doUpdateParameters keepEndTime linearEasing legacy_motion scenario_model 5 1 entry0)) =
   Some 5 \<and>
   map_option (fadeInStartTimeSeconds \<circ> r_entry)
     (returned (doUpdateParameters keepEndTime linearEasing legacy_motion scenario_model 5 1 entry0)) =
   Some 0"
  by (simp add: pass_defs example_defs)

text \<open>
  The curve loops write values only: whether or not the motion data is well formed, a
  pass that is not cut short by an exception calls the finished-motion callback only
  at its end.
\<close>

lemma modelCurves_callbacks:
  "modelCurves md time isCorrection dur c st = Some (c', st') \<Longrightarrow>
     callbackCount (trace st') = callbackCount (trace st)"
proof (induction md time isCorrection dur c st rule: modelCurves.induct)
  case (1 md time isCorrection dur c st)
  from "1.prems" "1.IH" show ?case
    by (subst (asm) modelCurves.simps) (fastforce split: if_splits option.splits)
qed

lemma applyParameterCurve_callbacks:
  "callbackCount (trace (applyParameterCurve E m entry now fw fin fout curve i v st)) =
     callbackCount (trace st)"
  by (simp add: applyParameterCurve_def Let_def)

lemma parameterCurves_callbacks:
  "parameterCurves E m model entry now fw fin fout md time isCorrection dur c st = Some (c', st') \<Longrightarrow>
     callbackCount (trace st') = callbackCount (trace st)"
proof (induction E m model entry now fw fin fout md time isCorrection dur c st
    rule: parameterCurves.induct)
  case (1 E m model entry now fw fin fout md time isCorrection dur c st)
  from "1.prems" "1.IH" show ?case
    by (subst (asm) parameterCurves.simps)
       (fastforce split: if_splits option.splits simp add: applyParameterCurve_callbacks)
qed

lemma partOpacityCurves_callbacks:
  "partOpacityCurves m model md time isCorrection dur c st = Some (c', st') \<Longrightarrow>
     callbackCount (trace st') = callbackCount (trace st)"
proof (induction m model md time isCorrection dur c st rule: partOpacityCurves.induct)
  case (1 m model md time isCorrection dur c st)
  from "1.prems" "1.IH" show ?case
    by (subst (asm) partOpacityCurves.simps)
       (fastforce split: if_splits option.splits simp add: Let_def)
qed

lemma blendCurves_no_callbacks:
  assumes "blendCurves E m model entry now fw fin fout md time isCorrection dur = Some st"
  shows "callbackCount (trace st) = 0"
  using assms
  by (auto simp add: blendCurves_def initialPassState_def overlayPass_keeps
      split: option.splits prod.splits
      dest!: modelCurves_callbacks parameterCurves_callbacks partOpacityCurves_callbacks)

lemma doUpdateParameters_Returns_pass:
  assumes "motionData m = Some md" and "doUpdateParameters A E m model now fw e = Returns r"
  shows "\<exists>time. passTime m md e now = Some time \<and>
     r_entry r = fst (finishPass m (adjustedEntry A m e) now (timeOffsetSeconds e now)
                        (passDuration m md) time) \<and>
     callbackCount (r_effects r) =
       callbackCount (snd (finishPass m (adjustedEntry A m e) now (timeOffsetSeconds e now)
                          (passDuration m md) time))"
  using assms(2) unfolding doUpdateParameters_pass[OF assms(1)]
  by (auto split: option.splits dest!: blendCurves_no_callbacks)

text \<open>
  C10. A call of \<open>doUpdateParameters\<close> on a looping motion that returns leaves the entry's
  finished flag as it was, whatever the time and whatever the motion data; it calls the
  finished-motion callback (when one is registered) exactly when the behavior is
  \<open>MotionBehavior_V2\<close> and the elapsed time has reached the adjusted duration, and never
  under \<open>MotionBehavior_V1\<close>. The adjusted duration of a V2 loop whose frame rate is 0 is
  \<^verbatim>\<open>Infinity\<close>, which no elapsed time reaches: such a motion never wraps and its callback is
  never called. On well-formed motion data the call returns when the adjusted duration is
  positive or infinite.
\<close>

theorem doUpdateParameters_looping_never_finishes:
  assumes "motionData m = Some md" and "isLoop m"
  shows "(\<forall>r. doUpdateParameters A E m model now fw e = Returns r \<longrightarrow>
            finished (r_entry r) = finished e \<and>
            callbackCount (r_effects r) =
              (if motionBehavior m = MotionBehavior_V2 \<and> onFinishedMotion m \<and>
                  reaches (timeOffsetSeconds e now) (passDuration m md)
               then 1 else 0)) \<and>
         (wellFormed md \<and> positiveSpan (passDuration m md) \<longrightarrow>
            (\<exists>r. doUpdateParameters A E m model now fw e = Returns r))"
proof (intro conjI allI impI)
  fix r assume r: "doUpdateParameters A E m model now fw e = Returns r"
  from doUpdateParameters_Returns_pass[OF assms(1) r]
  obtain time where
    e: "r_entry r = fst (finishPass m (adjustedEntry A m e) now (timeOffsetSeconds e now)
                        (passDuration m md) time)"
    and c: "callbackCount (r_effects r) =
       callbackCount (snd (finishPass m (adjustedEntry A m e) now (timeOffsetSeconds e now)
                          (passDuration m md) time))"
    by auto
  show "finished (r_entry r) = finished e"
    unfolding e using assms(2)
    by (cases "motionBehavior m") (simp_all add: finishPass_def updateForNextLoop_def Let_def)
  show "callbackCount (r_effects r) =
              (if motionBehavior m = MotionBehavior_V2 \<and> onFinishedMotion m \<and>
                  reaches (timeOffsetSeconds e now) (passDuration m md)
               then 1 else 0)"
    unfolding c using assms(2)
    by (cases "motionBehavior m") (simp_all add: finishPass_def updateForNextLoop_def Let_def)
next
  assume a: "wellFormed md \<and> positiveSpan (passDuration m md)"
  then have wf: "wellFormed md" and "isLoop m \<longrightarrow> positiveSpan (passDuration m md)" by simp_all
  from passTime_defined[OF this(2), of e now]
  have "passTime m md e now \<noteq> None" by auto
  then show "\<exists>r. doUpdateParameters A E m model now fw e = Returns r"
    using doUpdateParameters_Returns_iff[OF assms(1) wf] by blast
qed

theorem doUpdateParameters_looping_never_finishes_witness:
  "map_option (finished \<circ> r_entry)
     (returned (doUpdateParameters keepEndTime linearEasing loop_motion scenario_model 5 1 entry0)) =
   Some False \<and>
   map_option (callbackCount \<circ> r_effects)
     (returned (doUpdateParameters keepEndTime linearEasing loop_motion scenario_model 5 1 entry0)) =
   Some 1 \<and>
   map_option (callbackCount \<circ> r_effects)
     (returned (doUpdateParameters keepEndTime linearEasing legacy_motion scenario_model 5 1 entry0)) =
   Some 0 \<and>
   passDuration frozen_motion frozen_md = Infinity \<and>
   map_option (finished \<circ> r_entry)
     (returned (doUpdateParameters keepEndTime linearEasing frozen_motion scenario_model 5 1 entry0)) =
   Some False \<and>
   map_option (callbackCount \<circ> r_effects)
     (returned (doUpdateParameters keepEndTime linearEasing frozen_motion scenario_model 5 1 entry0)) =
   Some 0"
proof -
  have a: "motionData loop_motion = Some loop_md" "isLoop loop_motion"
    "motionData legacy_motion = Some loop_md" "isLoop legacy_motion"
    "motionData frozen_motion = Some frozen_md" "isLoop frozen_motion"
    by (simp_all add: example_defs)
  have p: "passDuration loop_motion loop_md = Finite (61/30)"
    "passDuration legacy_motion loop_md = Finite 2"
    "passDuration frozen_motion frozen_md = Infinity"
    "timeOffsetSeconds entry0 5 = 5"
    "motionBehavior loop_motion = MotionBehavior_V2" "onFinishedMotion loop_motion"
    "motionBehavior legacy_motion = MotionBehavior_V1" "\<not> finished entry0"
    by (simp_all add: example_defs passDuration_def timeOffsetSeconds_def)
  from doUpdateParameters_looping_never_finishes [OF a(1,2),
      of keepEndTime linearEasing scenario_model 5 1 entry0]
    doUpdateParameters_looping_never_finishes [OF a(3,4),
      of keepEndTime linearEasing scenario_model 5 1 entry0]
    doUpdateParameters_looping_never_finishes [OF a(5,6),
      of keepEndTime linearEasing scenario_model 5 1 entry0]
  show ?thesis using p wellFormed_loop_md wellFormed_frozen_md by auto
qed

text \<open>
  The looping motion with the frame rate 0, called at 5 seconds: the sampling time is the
  elapsed time 5 itself, the curve holds the value 1/2 of its last point, and the entry
  and its start time are left as they were.
\<close>

lemma doUpdateParameters_zero_fps:
  "doUpdateParameters keepEndTime linearEasing frozen_motion scenario_model 5 1 entry0 =
   Returns \<lparr> r_motion = frozen_motion\<lparr> lastWeight := 1 \<rparr>, r_entry = entry0,
             r_effects = [SetParameterValueByIndex 0 (1/2) (Some 1)] \<rparr>"
  by (simp add: pass_defs example_defs correctEndPoint_def minus_one_def)

subsection \<open>The writes of a pass\<close>

lemma initialPassState_adjusted [simp]: "initialPassState (adjustedMotion m) = initialPassState m"
  by (simp add: initialPassState_def)

lemma paramWeight_curveWeight:
  "paramWeight E (adjustedMotion m) entry curve now fw (tmpFadeIn E m entry now) (tmpFadeOut E m entry now) =
   curveWeight E m entry now fw curve"
  by (simp add: paramWeight_def curveWeight_def fadeInFactor_def fadeOutFactor_def Let_def)

lemma overlaidValue_adjusted [simp]:
  "overlaidValue (adjustedMotion m) ev lv name v = overlaidValue m ev lv name v"
  by (simp add: overlaidValue_def)

lemma finishPass_writes:
  "List.map_filter weightedWrite (snd (finishPass m entry now offset dur time)) = []"
  "List.map_filter byIdWrite (snd (finishPass m entry now offset dur time)) = []"
  by (cases "motionBehavior m";
      simp add: finishPass_def updateForNextLoop_def Let_def List.map_filter_simps)+

lemma overlayTargets_first_targets:
  "fst ` set (List.map_filter byIdWrite (overlayTargets ids i flags isAdditive v w))
     \<subseteq> set (take (maxTargetSize - i) ids)"
proof (induction ids arbitrary: i)
  case Nil
  then show ?case by (simp add: List.map_filter_simps)
next
  case (Cons id0 ids)
  show ?case
  proof (cases "i < maxTargetSize")
    case False
    then show ?thesis by (simp add: List.map_filter_simps)
  next
    case True
    then have e: "maxTargetSize - i = Suc (maxTargetSize - Suc i)" by simp
    show ?thesis
      using True Cons.IH[of "Suc i"] unfolding e
      by (cases isAdditive) (auto simp add: List.map_filter_simps)
  qed
qed

text \<open>
  The effects of a call on a well-formed motion, by kind: the weighted writes by index
  are those of the resolved curves of the Parameter group, in order; the writes by
  identifier are those of the overlay pass, made from the flags the Parameter curves left.
\<close>

lemma doUpdateParameters_effects:
  assumes "motionData m = Some md" and "wellFormed md" and "passTime m md e now = Some time"
  shows "\<exists>r st1 (st2 :: PassState).
     doUpdateParameters A E m model now fw e = Returns r \<and>
     modelCurves md time (motionBehavior m = MotionBehavior_V2 \<and> isLoop m) (passDuration m md) 0
       (initialPassState m) = Some (modelGroupEnd md, st1) \<and>
     eyeBlinkValue st2 = eyeBlinkValue st1 \<and> lipSyncValue st2 = lipSyncValue st1 \<and>
     (\<forall>j. testFlag (eyeBlinkFlags st2) j \<longleftrightarrow>
        (eyeBlinkValue st1 \<noteq> MAX_VALUE \<and>
         (\<exists>k \<in> set [modelGroupEnd md..<parameterGroupEnd md].
            findParameterIndex model (c_id (curves md ! k)) \<noteq> None \<and>
            (\<exists>i. claimIndex (targetIds (eyeBlinkParameterIds m)) (c_id (curves md ! k)) 0 = Some i \<and>
                 i mod 32 = j mod 32)))) \<and>
     (\<forall>j. testFlag (lipSyncFlags st2) j \<longleftrightarrow>
        (lipSyncValue st1 \<noteq> MAX_VALUE \<and>
         (\<exists>k \<in> set [modelGroupEnd md..<parameterGroupEnd md].
            findParameterIndex model (c_id (curves md ! k)) \<noteq> None \<and>
            (\<exists>i. claimIndex (targetIds (lipSyncParameterIds m)) (c_id (curves md ! k)) 0 = Some i \<and>
                 i mod 32 = j mod 32)))) \<and>
     List.map_filter byIdWrite (r_effects r) =
       (if eyeBlinkValue st1 \<noteq> MAX_VALUE
        then List.map_filter byIdWrite
               (overlayTargets (targetIds (eyeBlinkParameterIds m)) 0 (eyeBlinkFlags st2)
                  (eyeBlinkAdditive m) (eyeBlinkValue st1) fw)
        else []) @
       (if lipSyncValue st1 \<noteq> MAX_VALUE
        then List.map_filter byIdWrite
               (overlayTargets (targetIds (lipSyncParameterIds m)) 0 (lipSyncFlags st2)
                  (eyeBlinkAdditive m) (lipSyncValue st1) fw)
        else []) \<and>
     List.map_filter weightedWrite (r_effects r) =
       map (\<lambda>k. (int (the (findParameterIndex model (c_id (curves md ! k)))),
                 overlaidValue m (eyeBlinkValue st1) (lipSyncValue st1) (c_id (curves md ! k))
                   (the (evaluateCurve md k time (motionBehavior m = MotionBehavior_V2 \<and> isLoop m)
                           (passDuration m md))),
                 curveWeight E m (adjustedEntry A m e) now fw (curves md ! k)))
         (filter (\<lambda>k. findParameterIndex model (c_id (curves md ! k)) \<noteq> None)
            [modelGroupEnd md..<parameterGroupEnd md])"
proof -
  let ?m = "adjustedMotion m"
  let ?e = "adjustedEntry A m e"
  let ?corr = "motionBehavior m = MotionBehavior_V2 \<and> isLoop m"
  let ?dur = "passDuration m md"
  let ?fin = "tmpFadeIn E m ?e now"
  let ?fout = "tmpFadeOut E m ?e now"
  let ?st1 = "fold (modelStep md time ?corr ?dur) [0..<modelGroupEnd md] (initialPassState m)"
  let ?pstep = "parameterStep E ?m model ?e now fw ?fin ?fout md time ?corr ?dur"
  let ?st2 = "fold ?pstep [modelGroupEnd md..<parameterGroupEnd md] ?st1"
  from blendCurves_structure[OF assms(2), of E ?m model ?e now fw ?fin ?fout time ?corr ?dur]
  obtain c3 where bc: "blendCurves E ?m model ?e now fw ?fin ?fout md time ?corr ?dur =
      Some (fold (partOpacityStep ?m model md time ?corr ?dur) [parameterGroupEnd md..<c3]
             (overlayPass ?m fw ?st2))"
    and mc: "modelCurves md time ?corr ?dur 0 (initialPassState m) = Some (modelGroupEnd md, ?st1)"
    and le: "parameterGroupEnd md \<le> curveCount md"
    by auto
  let ?st3 = "fold (partOpacityStep ?m model md time ?corr ?dur) [parameterGroupEnd md..<c3]
             (overlayPass ?m fw ?st2)"
  let ?cb = "snd (finishPass m ?e now (timeOffsetSeconds e now) ?dur time)"
  have r: "doUpdateParameters A E m model now fw e =
      Returns \<lparr> r_motion = ?m\<lparr> modelOpacity := opacity ?st3, lastWeight := fw \<rparr>,
                r_entry = fst (finishPass m ?e now (timeOffsetSeconds e now) ?dur time),
                r_effects = trace ?st3 @ ?cb \<rparr>"
    unfolding doUpdateParameters_pass[OF assms(1)] using assms(3) bc by simp
  have ev: "\<forall>k \<in> set [modelGroupEnd md..<parameterGroupEnd md].
              \<exists>v. evaluateCurve md k time ?corr ?dur = Some v"
    using wellFormed_curve(2)[OF assms(2)] le by auto
  have v2: "eyeBlinkValue ?st2 = eyeBlinkValue ?st1" "lipSyncValue ?st2 = lipSyncValue ?st1"
    by (simp_all add: fold_parameterStep_keeps)
  have f1: "\<not> testFlag (eyeBlinkFlags ?st1) j" "\<not> testFlag (lipSyncFlags ?st1) j" for j
    by (simp_all add: fold_modelStep_keeps initialPassState_def)
  have fe: "\<forall>j. testFlag (eyeBlinkFlags ?st2) j \<longleftrightarrow>
        (eyeBlinkValue ?st1 \<noteq> MAX_VALUE \<and>
         (\<exists>k \<in> set [modelGroupEnd md..<parameterGroupEnd md].
            findParameterIndex model (c_id (curves md ! k)) \<noteq> None \<and>
            (\<exists>i. claimIndex (targetIds (eyeBlinkParameterIds m)) (c_id (curves md ! k)) 0 = Some i \<and>
                 i mod 32 = j mod 32)))"
    using fold_parameterStep_flags(1)[OF ev, of E ?m model ?e now fw ?fin ?fout ?st1] f1(1)
    by simp
  have fl: "\<forall>j. testFlag (lipSyncFlags ?st2) j \<longleftrightarrow>
        (lipSyncValue ?st1 \<noteq> MAX_VALUE \<and>
         (\<exists>k \<in> set [modelGroupEnd md..<parameterGroupEnd md].
            findParameterIndex model (c_id (curves md ! k)) \<noteq> None \<and>
            (\<exists>i. claimIndex (targetIds (lipSyncParameterIds m)) (c_id (curves md ! k)) 0 = Some i \<and>
                 i mod 32 = j mod 32)))"
    using fold_parameterStep_flags(2)[OF ev, of E ?m model ?e now fw ?fin ?fout ?st1] f1(2)
    by simp
  have t1: "List.map_filter byIdWrite (trace ?st1) = []"
    "List.map_filter weightedWrite (trace ?st1) = []"
    by (simp_all add: fold_modelStep_keeps initialPassState_def List.map_filter_simps)
  have bi: "List.map_filter byIdWrite (trace ?st3 @ ?cb) =
       (if eyeBlinkValue ?st1 \<noteq> MAX_VALUE
        then List.map_filter byIdWrite
               (overlayTargets (targetIds (eyeBlinkParameterIds m)) 0 (eyeBlinkFlags ?st2)
                  (eyeBlinkAdditive m) (eyeBlinkValue ?st1) fw)
        else []) @
       (if lipSyncValue ?st1 \<noteq> MAX_VALUE
        then List.map_filter byIdWrite
               (overlayTargets (targetIds (lipSyncParameterIds m)) 0 (lipSyncFlags ?st2)
                  (eyeBlinkAdditive m) (lipSyncValue ?st1) fw)
        else [])"
    by (simp add: map_filter_append finishPass_writes fold_partOpacityStep_keeps overlayPass_def
        Let_def fold_parameterStep_keeps t1 List.map_filter_simps)
  have wi: "List.map_filter weightedWrite (trace ?st3 @ ?cb) =
       map (\<lambda>k. (int (the (findParameterIndex model (c_id (curves md ! k)))),
                 overlaidValue m (eyeBlinkValue ?st1) (lipSyncValue ?st1) (c_id (curves md ! k))
                   (the (evaluateCurve md k time ?corr ?dur)),
                 curveWeight E m ?e now fw (curves md ! k)))
         (filter (\<lambda>k. findParameterIndex model (c_id (curves md ! k)) \<noteq> None)
            [modelGroupEnd md..<parameterGroupEnd md])"
    by (simp add: map_filter_append finishPass_writes fold_partOpacityStep_keeps overlayPass_keeps
        fold_parameterStep_weighted[OF ev] t1 paramWeight_curveWeight)
  define res where "res = \<lparr> r_motion = ?m\<lparr> modelOpacity := opacity ?st3, lastWeight := fw \<rparr>,
                r_entry = fst (finishPass m ?e now (timeOffsetSeconds e now) ?dur time),
                r_effects = trace ?st3 @ ?cb \<rparr>"
  have eff: "r_effects res = trace ?st3 @ ?cb" by (simp add: res_def)
  define st1 where "st1 = ?st1"
  define st2 where "st2 = ?st2"
  note facts = r[folded res_def] mc[folded st1_def] v2[folded st1_def st2_def]
    fe[folded st1_def st2_def] fl[folded st1_def st2_def]
    bi[folded eff, folded st1_def st2_def] wi[folded eff, folded st1_def st2_def]
  show ?thesis
    apply (rule exI[of _ res])
    apply (rule exI[of _ st1])
    apply (rule exI[of _ st2])
    using facts by blast
qed


lemma overlayTargets_written:
  assumes "\<forall>j < length ids. i + j < maxTargetSize \<longrightarrow> (testFlag flags (i + j) \<longleftrightarrow> C (ids ! j))"
  shows "List.map_filter byIdWrite (overlayTargets ids i flags isAdditive v w) =
         map (\<lambda>name. (name, v, w)) (filter (\<lambda>name. \<not> C name) (take (maxTargetSize - i) ids))"
  using assms
proof (induction ids arbitrary: i)
  case Nil
  then show ?case by (simp add: List.map_filter_simps)
next
  case (Cons id0 ids)
  show ?case
  proof (cases "i < maxTargetSize")
    case False
    then show ?thesis by (simp add: List.map_filter_simps)
  next
    case True
    then have e: "maxTargetSize - i = Suc (maxTargetSize - Suc i)" by simp
    have h: "testFlag flags i \<longleftrightarrow> C id0" using Cons.prems True by auto
    have t: "\<forall>j < length ids. Suc i + j < maxTargetSize \<longrightarrow> (testFlag flags (Suc i + j) \<longleftrightarrow> C (ids ! j))"
      using Cons.prems by auto
    note IH = Cons.IH[OF t]
    show ?thesis using True h IH unfolding e
      by (cases isAdditive) (simp_all add: List.map_filter_simps)
  qed
qed

lemma claimedIds_iff:
  "name \<in> set (claimedIds model md) \<longleftrightarrow>
     (\<exists>k \<in> set [modelGroupEnd md..<parameterGroupEnd md].
        findParameterIndex model (c_id (curves md ! k)) \<noteq> None \<and> c_id (curves md ! k) = name)"
  by (auto simp add: claimedIds_def)

lemma unclaimed_targets:
  assumes "distinct ids" and "length ids \<le> 32"
    and "\<forall>j. testFlag flags j \<longleftrightarrow>
          (\<exists>k \<in> set [modelGroupEnd md..<parameterGroupEnd md].
             findParameterIndex model (c_id (curves md ! k)) \<noteq> None \<and>
             (\<exists>i. claimIndex ids (c_id (curves md ! k)) 0 = Some i \<and> i mod 32 = j mod 32))"
  shows "List.map_filter byIdWrite (overlayTargets ids 0 flags isAdditive v w) =
         map (\<lambda>name. (name, v, w)) (filter (\<lambda>name. name \<notin> set (claimedIds model md)) ids)"
proof -
  have "\<forall>j < length ids. 0 + j < maxTargetSize \<longrightarrow>
          (testFlag flags (0 + j) \<longleftrightarrow> ids ! j \<in> set (claimedIds model md))"
    using assms(3) claim_mod_distinct[OF assms(1,2)]
    by (auto simp add: claimedIds_iff)
  from overlayTargets_written[OF this, of isAdditive v w]
  show ?thesis using assms(2) by (simp add: maxTargetSize_def)
qed

subsection \<open>Fade weights of the Parameter curves\<close>

text \<open>
  C5, as amended. A call on a well-formed motion returns, and the weighted writes by index
  it makes are, in order, those of the curves of the Parameter group whose parameter the
  model has, each with the weight \<open>curveWeight\<close>: the call's global fade weight when both
  of the curve's fade times are negative, and otherwise the motion weight times a fade-in
  and a fade-out factor, where a fade time of 0 gives the factor 1 and a negative fade
  time the asset-level ramp of that side. That product may itself be equal to the global
  fade weight: a weight equal to the global fade weight does not tell that both fade
  times are negative.
\<close>

theorem parameter_write_weights:
  assumes "motionData m = Some md" and "wellFormed md"
    and "isLoop m \<longrightarrow> positiveSpan (passDuration m md)"
  shows "\<exists>r. doUpdateParameters A E m model now fw e = Returns r \<and>
     map (\<lambda>(i, v, w). (i, w)) (List.map_filter weightedWrite (r_effects r)) =
     map (\<lambda>k. (int (the (findParameterIndex model (c_id (curves md ! k)))),
               curveWeight E m (adjustedEntry A m e) now fw (curves md ! k)))
       (filter (\<lambda>k. findParameterIndex model (c_id (curves md ! k)) \<noteq> None)
          [modelGroupEnd md..<parameterGroupEnd md])"
proof -
  obtain time where t: "passTime m md e now = Some time"
    using passTime_defined[OF assms(3)] by blast
  from doUpdateParameters_effects[OF assms(1,2) t, of A E model fw]
  obtain r and st1 :: PassState where r: "doUpdateParameters A E m model now fw e = Returns r"
    and w: "List.map_filter weightedWrite (r_effects r) =
       map (\<lambda>k. (int (the (findParameterIndex model (c_id (curves md ! k)))),
                 overlaidValue m (eyeBlinkValue st1) (lipSyncValue st1) (c_id (curves md ! k))
                   (the (evaluateCurve md k time (motionBehavior m = MotionBehavior_V2 \<and> isLoop m)
                           (passDuration m md))),
                 curveWeight E m (adjustedEntry A m e) now fw (curves md ! k)))
         (filter (\<lambda>k. findParameterIndex model (c_id (curves md ! k)) \<noteq> None)
            [modelGroupEnd md..<parameterGroupEnd md])"
    by blast
  show ?thesis
    apply (rule exI[of _ r])
    using r by (simp add: w comp_def)
qed


lemma linearEvaluate_defined: "2 \<le> length pts \<Longrightarrow> \<exists>v. linearEvaluate pts time = Some v"
proof -
  assume "2 \<le> length pts"
  then have "0 < length pts" "1 < length pts" by linarith+
  then have "csmVector_at pts 0 = Some (pts ! 0)" "csmVector_at pts 1 = Some (pts ! 1)"
    by (simp_all add: csmVector_at_def)
  then show ?thesis by (simp add: linearEvaluate_def Let_def)
qed

lemma wellFormed_blink_md: "wellFormed blink_md"
proof -
  have "curveInRange blink_md c \<and> evaluatorsDefined blink_md c" if "c < 2" for c
  proof -
    from that have "c = 0 \<or> c = 1" by auto
    then show ?thesis
      by (auto simp add: curveInRange_def evaluatorsDefined_def blink_md_def
          curveSegments_def lastControlPoint_def linearEvaluate_defined)
  qed
  then show ?thesis by (simp add: wellFormed_def blink_md_def)
qed

lemma groups_blink_md: "modelGroupEnd blink_md = 1" "parameterGroupEnd blink_md = 2"
  by (simp_all add: modelGroupEnd_def parameterGroupEnd_def declaredCurves_def blink_md_def)

lemma wellFormed_fade_md: "wellFormed fade_md"
proof -
  have "curveInRange fade_md c \<and> evaluatorsDefined fade_md c" if "c < 4" for c
  proof -
    from that have "c = 0 \<or> c = 1 \<or> c = 2 \<or> c = 3" by auto
    then show ?thesis
      by (auto simp add: curveInRange_def evaluatorsDefined_def fade_md_def
          curveSegments_def lastControlPoint_def linearEvaluate_defined)
  qed
  then show ?thesis by (simp add: wellFormed_def fade_md_def)
qed

lemma groups_fade_md: "modelGroupEnd fade_md = 0" "parameterGroupEnd fade_md = 4"
  by (simp_all add: modelGroupEnd_def parameterGroupEnd_def declaredCurves_def fade_md_def)

lemmas fade_defs = fade_md_def fade_motion_def fade_model_def ending_entry_def
  scenario_motion_def keepEndTime_def linearEasing_def

theorem parameter_write_weights_witness:
  "motionData fade_motion = Some fade_md \<and> wellFormed fade_md \<and> \<not> isLoop fade_motion \<and>
   (\<exists>r. doUpdateParameters keepEndTime linearEasing fade_motion fade_model (1/4) (1/3) ending_entry =
          Returns r \<and>
        map (\<lambda>(i, v, w). (i, w)) (List.map_filter weightedWrite (r_effects r)) =
          [(0, 1/3), (1, 3/8), (2, 1/4), (3, 1)])"
proof -
  have a: "motionData fade_motion = Some fade_md" and c: "\<not> isLoop fade_motion"
    by (simp_all add: fade_defs)
  have b: "isLoop fade_motion \<longrightarrow> positiveSpan (passDuration fade_motion fade_md)"
    using c by simp
  have w: "curveWeight linearEasing fade_motion (adjustedEntry keepEndTime fade_motion ending_entry)
             (1/4) (1/3) (curves fade_md ! 0) = 1/3"
    "curveWeight linearEasing fade_motion (adjustedEntry keepEndTime fade_motion ending_entry)
             (1/4) (1/3) (curves fade_md ! Suc 0) = 3/8"
    "curveWeight linearEasing fade_motion (adjustedEntry keepEndTime fade_motion ending_entry)
             (1/4) (1/3) (curves fade_md ! 2) = 1/4"
    "curveWeight linearEasing fade_motion (adjustedEntry keepEndTime fade_motion ending_entry)
             (1/4) (1/3) (curves fade_md ! 3) = 1"
    by (simp_all add: curveWeight_def fadeInFactor_def fadeOutFactor_def tmpFadeIn_def
        tmpFadeOut_def adjustedEntry_def fade_defs)
  have f: "findParameterIndex fade_model (c_id (curves fade_md ! 0)) = Some 0"
    "findParameterIndex fade_model (c_id (curves fade_md ! Suc 0)) = Some 1"
    "findParameterIndex fade_model (c_id (curves fade_md ! 2)) = Some 2"
    "findParameterIndex fade_model (c_id (curves fade_md ! 3)) = Some 3"
    by (simp_all add: findParameterIndex_def fade_defs)
  have u: "[0..<4] = [0, Suc 0, 2, 3]" by (simp add: upt_rec)
  from parameter_write_weights [OF a wellFormed_fade_md b,
      of keepEndTime linearEasing fade_model "1/4" "1/3" ending_entry]
  show ?thesis
    using a c wellFormed_fade_md by (simp add: groups_fade_md u f w)
qed

text \<open>
  C5 as stated gives the global fade weight exactly when both fade times are negative. The
  fourth curve of \<open>fade_md\<close> has the fade times 0 and 0; in a call with the global fade
  weight 1 on the motion of weight 1 its write has the weight \<open>1 * 1 * 1\<close>, which is the
  global fade weight.
\<close>

theorem parameter_write_weight_coincides_counterexample:
  "fadeInTime (curves fade_md ! 3) = 0 \<and> fadeOutTime (curves fade_md ! 3) = 0 \<and>
   map_option (List.map_filter weightedWrite \<circ> r_effects)
     (returned (doUpdateParameters keepEndTime linearEasing fade_motion fade_model (1/4) 1
                  ending_entry)) =
   Some [(0, 1/8, 1), (1, 1/8, 3/8), (2, 1/8, 1/4), (3, 1/8, 1)]"
  by (simp add: pass_defs fade_defs List.map_filter_simps MAX_VALUE_def)


subsection \<open>The overlay pass\<close>

text \<open>
  C6, as amended. In a call on a well-formed motion, the overlay pass writes by
  identifier, and only to targets among the first 64 entries of the two target lists.
  When the identifiers of each list are pairwise distinct and each list has at most 32
  entries, the writes of the overlay pass are exactly these: for the eye-blink list, if
  an eye-blink value is pending, every target that no resolved curve of the Parameter
  group has claimed receives that value at the call's global fade weight, once and in
  list order, and no claimed target is written; then the same for the lip-sync list. The
  value a Parameter curve writes is its sampled value, multiplied by the pending
  eye-blink value when its identifier is an eye-blink target and with the pending
  lip-sync value added when it is a lip-sync target.
\<close>

theorem overlay_applied_once:
  assumes "motionData m = Some md" and "wellFormed md"
    and "isLoop m \<longrightarrow> positiveSpan (passDuration m md)"
  shows "\<exists>r time st1.
     doUpdateParameters A E m model now fw e = Returns r \<and>
     passTime m md e now = Some time \<and>
     modelCurves md time (motionBehavior m = MotionBehavior_V2 \<and> isLoop m) (passDuration m md) 0
       (initialPassState m) = Some (modelGroupEnd md, st1) \<and>
     fst ` set (List.map_filter byIdWrite (r_effects r))
       \<subseteq> set (take maxTargetSize (targetIds (eyeBlinkParameterIds m))) \<union>
         set (take maxTargetSize (targetIds (lipSyncParameterIds m))) \<and>
     (distinct (targetIds (eyeBlinkParameterIds m)) \<and>
      length (targetIds (eyeBlinkParameterIds m)) \<le> 32 \<and>
      distinct (targetIds (lipSyncParameterIds m)) \<and>
      length (targetIds (lipSyncParameterIds m)) \<le> 32 \<longrightarrow>
      List.map_filter byIdWrite (r_effects r) =
        (if eyeBlinkValue st1 \<noteq> MAX_VALUE
         then map (\<lambda>name. (name, eyeBlinkValue st1, fw))
                (filter (\<lambda>name. name \<notin> set (claimedIds model md))
                   (targetIds (eyeBlinkParameterIds m)))
         else []) @
        (if lipSyncValue st1 \<noteq> MAX_VALUE
         then map (\<lambda>name. (name, lipSyncValue st1, fw))
                (filter (\<lambda>name. name \<notin> set (claimedIds model md))
                   (targetIds (lipSyncParameterIds m)))
         else [])) \<and>
     map (\<lambda>(i, v, w). (i, v)) (List.map_filter weightedWrite (r_effects r)) =
       map (\<lambda>k. (int (the (findParameterIndex model (c_id (curves md ! k)))),
                 overlaidValue m (eyeBlinkValue st1) (lipSyncValue st1) (c_id (curves md ! k))
                   (the (evaluateCurve md k time (motionBehavior m = MotionBehavior_V2 \<and> isLoop m)
                           (passDuration m md)))))
         (filter (\<lambda>k. findParameterIndex model (c_id (curves md ! k)) \<noteq> None)
            [modelGroupEnd md..<parameterGroupEnd md])"
proof -
  let ?eb = "targetIds (eyeBlinkParameterIds m)"
  let ?ls = "targetIds (lipSyncParameterIds m)"
  obtain time where t: "passTime m md e now = Some time"
    using passTime_defined[OF assms(3)] by blast
  from doUpdateParameters_effects[OF assms(1,2) t, of A E model fw]
  obtain r and st1 st2 :: PassState where r: "doUpdateParameters A E m model now fw e = Returns r"
    and mc: "modelCurves md time (motionBehavior m = MotionBehavior_V2 \<and> isLoop m) (passDuration m md) 0
       (initialPassState m) = Some (modelGroupEnd md, st1)"
    and fe: "\<forall>j. testFlag (eyeBlinkFlags st2) j \<longleftrightarrow>
        (eyeBlinkValue st1 \<noteq> MAX_VALUE \<and>
         (\<exists>k \<in> set [modelGroupEnd md..<parameterGroupEnd md].
            findParameterIndex model (c_id (curves md ! k)) \<noteq> None \<and>
            (\<exists>i. claimIndex ?eb (c_id (curves md ! k)) 0 = Some i \<and> i mod 32 = j mod 32)))"
    and fl: "\<forall>j. testFlag (lipSyncFlags st2) j \<longleftrightarrow>
        (lipSyncValue st1 \<noteq> MAX_VALUE \<and>
         (\<exists>k \<in> set [modelGroupEnd md..<parameterGroupEnd md].
            findParameterIndex model (c_id (curves md ! k)) \<noteq> None \<and>
            (\<exists>i. claimIndex ?ls (c_id (curves md ! k)) 0 = Some i \<and> i mod 32 = j mod 32)))"
    and bi: "List.map_filter byIdWrite (r_effects r) =
       (if eyeBlinkValue st1 \<noteq> MAX_VALUE
        then List.map_filter byIdWrite
               (overlayTargets ?eb 0 (eyeBlinkFlags st2) (eyeBlinkAdditive m) (eyeBlinkValue st1) fw)
        else []) @
       (if lipSyncValue st1 \<noteq> MAX_VALUE
        then List.map_filter byIdWrite
               (overlayTargets ?ls 0 (lipSyncFlags st2) (eyeBlinkAdditive m) (lipSyncValue st1) fw)
        else [])"
    and w: "List.map_filter weightedWrite (r_effects r) =
       map (\<lambda>k. (int (the (findParameterIndex model (c_id (curves md ! k)))),
                 overlaidValue m (eyeBlinkValue st1) (lipSyncValue st1) (c_id (curves md ! k))
                   (the (evaluateCurve md k time (motionBehavior m = MotionBehavior_V2 \<and> isLoop m)
                           (passDuration m md))),
                 curveWeight E m (adjustedEntry A m e) now fw (curves md ! k)))
         (filter (\<lambda>k. findParameterIndex model (c_id (curves md ! k)) \<noteq> None)
            [modelGroupEnd md..<parameterGroupEnd md])"
    by blast
  have cap: "fst ` set (List.map_filter byIdWrite (r_effects r))
       \<subseteq> set (take maxTargetSize ?eb) \<union> set (take maxTargetSize ?ls)"
    unfolding bi
    using overlayTargets_first_targets[of ?eb 0 "eyeBlinkFlags st2" "eyeBlinkAdditive m" "eyeBlinkValue st1" fw]
      overlayTargets_first_targets[of ?ls 0 "lipSyncFlags st2" "eyeBlinkAdditive m" "lipSyncValue st1" fw]
    by auto
  have exact: "List.map_filter byIdWrite (r_effects r) =
        (if eyeBlinkValue st1 \<noteq> MAX_VALUE
         then map (\<lambda>name. (name, eyeBlinkValue st1, fw))
                (filter (\<lambda>name. name \<notin> set (claimedIds model md)) ?eb)
         else []) @
        (if lipSyncValue st1 \<noteq> MAX_VALUE
         then map (\<lambda>name. (name, lipSyncValue st1, fw))
                (filter (\<lambda>name. name \<notin> set (claimedIds model md)) ?ls)
         else [])"
    if d: "distinct ?eb" "length ?eb \<le> 32" "distinct ?ls" "length ?ls \<le> 32"
  proof -
    have e1: "List.map_filter byIdWrite
               (overlayTargets ?eb 0 (eyeBlinkFlags st2) (eyeBlinkAdditive m) (eyeBlinkValue st1) fw) =
             map (\<lambda>name. (name, eyeBlinkValue st1, fw))
                (filter (\<lambda>name. name \<notin> set (claimedIds model md)) ?eb)"
      if "eyeBlinkValue st1 \<noteq> MAX_VALUE"
      using unclaimed_targets[OF d(1,2), of "eyeBlinkFlags st2" md model] fe that by simp
    have e2: "List.map_filter byIdWrite
               (overlayTargets ?ls 0 (lipSyncFlags st2) (eyeBlinkAdditive m) (lipSyncValue st1) fw) =
             map (\<lambda>name. (name, lipSyncValue st1, fw))
                (filter (\<lambda>name. name \<notin> set (claimedIds model md)) ?ls)"
      if "lipSyncValue st1 \<noteq> MAX_VALUE"
      using unclaimed_targets[OF d(3,4), of "lipSyncFlags st2" md model] fl that by simp
    show ?thesis unfolding bi using e1 e2 by simp
  qed
  have vals: "map (\<lambda>(i, v, w). (i, v)) (List.map_filter weightedWrite (r_effects r)) =
       map (\<lambda>k. (int (the (findParameterIndex model (c_id (curves md ! k)))),
                 overlaidValue m (eyeBlinkValue st1) (lipSyncValue st1) (c_id (curves md ! k))
                   (the (evaluateCurve md k time (motionBehavior m = MotionBehavior_V2 \<and> isLoop m)
                           (passDuration m md)))))
         (filter (\<lambda>k. findParameterIndex model (c_id (curves md ! k)) \<noteq> None)
            [modelGroupEnd md..<parameterGroupEnd md])"
    by (simp add: w comp_def)
  show ?thesis
    apply (rule exI[of _ r], rule exI[of _ time], rule exI[of _ st1])
    using r t mc cap exact vals by blast
qed


lemma MAX_VALUE_large: "2 < MAX_VALUE"
proof -
  have "(2::real) \<le> 2 ^ 53 - 1" by simp
  moreover have "(1::real) \<le> 2 ^ 971" by simp
  ultimately have "(2::real) * 1 \<le> (2 ^ 53 - 1) * 2 ^ 971"
    by (intro mult_mono) simp_all
  moreover have "(2::real) \<noteq> (2 ^ 53 - 1) * 2 ^ 971"
  proof
    assume "(2::real) = (2 ^ 53 - 1) * 2 ^ 971"
    moreover have "(2 ^ 53 - 1) * (2::real) ^ 1 \<le> (2 ^ 53 - 1) * 2 ^ 971"
      by (intro mult_left_mono power_increasing) simp_all
    ultimately show False by simp
  qed
  ultimately show ?thesis by (simp add: MAX_VALUE_def)
qed

lemma half_not_MAX_VALUE [simp]: "1 / 2 \<noteq> MAX_VALUE" "MAX_VALUE * 2 \<noteq> 1"
  using MAX_VALUE_large by simp_all

lemma wellFormed_eyeblink_md: "wellFormed eyeblink_md"
  by (simp add: wellFormed_def curveInRange_def evaluatorsDefined_def eyeblink_md_def
      curveSegments_def lastControlPoint_def linearEvaluate_defined)

lemma wellFormed_lipsync_md: "wellFormed lipsync_md"
  by (simp add: wellFormed_def curveInRange_def evaluatorsDefined_def lipsync_md_def
      curveSegments_def lastControlPoint_def linearEvaluate_defined)

lemma model_pass_blink_md:
  "modelCurves blink_md (1/4) False (Finite 2) 0 (initialPassState blink_motion) =
     Some (1, (initialPassState blink_motion)\<lparr> eyeBlinkValue := 1/2 \<rparr>)"
  by (simp add: modelCurves.simps blink_md_def evaluateCurve_def findSegment.simps
      csmVector_get_def linearEvaluate_def Let_def EffectNameEyeBlink_def)

theorem overlay_applied_once_witness:
  "motionData blink_motion = Some blink_md \<and> wellFormed blink_md \<and> \<not> isLoop blink_motion \<and>
   distinct (targetIds (eyeBlinkParameterIds blink_motion)) \<and>
   length (targetIds (eyeBlinkParameterIds blink_motion)) \<le> 32 \<and>
   claimedIds eye_model blink_md = [''ParamEyeLOpen''] \<and>
   (\<exists>r. doUpdateParameters keepEndTime linearEasing blink_motion eye_model (1/4) 1 entry0 = Returns r \<and>
        List.map_filter byIdWrite (r_effects r) = [(''ParamEyeROpen'', 1/2, 1)] \<and>
        map (\<lambda>(i, v, w). (i, v)) (List.map_filter weightedWrite (r_effects r)) = [(0, 1/16)])"
proof -
  have a: "motionData blink_motion = Some blink_md" and c: "\<not> isLoop blink_motion"
    by (simp_all add: blink_motion_def scenario_motion_def)
  have b: "isLoop blink_motion \<longrightarrow> positiveSpan (passDuration blink_motion blink_md)"
    using c by simp
  have ids: "targetIds (eyeBlinkParameterIds blink_motion) = [''ParamEyeLOpen'', ''ParamEyeROpen'']"
    "targetIds (lipSyncParameterIds blink_motion) = []"
    by (simp_all add: blink_motion_def scenario_motion_def targetIds_def)
  have u: "[Suc 0..<2] = [Suc 0]" by (simp add: upt_rec)
  have f: "findParameterIndex eye_model ''ParamEyeLOpen'' = Some 0"
    "c_id (curves blink_md ! Suc 0) = ''ParamEyeLOpen''"
    by (simp_all add: findParameterIndex_def eye_model_def blink_md_def)
  have cl: "claimedIds eye_model blink_md = [''ParamEyeLOpen'']"
    by (simp add: claimedIds_def groups_blink_md u f)
  have pt: "passTime blink_motion blink_md entry0 (1/4) = Some (1/4)"
    "passDuration blink_motion blink_md = Finite 2"
    "(motionBehavior blink_motion = MotionBehavior_V2 \<and> isLoop blink_motion) = False"
    using c by (simp_all add: passTime_def passDuration_def timeOffsetSeconds_def entry0_def blink_md_def)
  have ev: "evaluateCurve blink_md (Suc 0) (1/4) False (Finite 2) = Some (1/8)"
    by (simp add: blink_md_def evaluateCurve_def findSegment.simps csmVector_get_def
        linearEvaluate_def Let_def)
  from overlay_applied_once [OF a wellFormed_blink_md b,
      of keepEndTime linearEasing eye_model "1/4" 1 entry0]
  obtain r time st1 where r:
    "doUpdateParameters keepEndTime linearEasing blink_motion eye_model (1/4) 1 entry0 = Returns r"
    "passTime blink_motion blink_md entry0 (1/4) = Some time"
    "modelCurves blink_md time (motionBehavior blink_motion = MotionBehavior_V2 \<and> isLoop blink_motion)
       (passDuration blink_motion blink_md) 0 (initialPassState blink_motion) =
       Some (modelGroupEnd blink_md, st1)"
    "List.map_filter byIdWrite (r_effects r) =
        (if eyeBlinkValue st1 \<noteq> MAX_VALUE
         then map (\<lambda>name. (name, eyeBlinkValue st1, 1))
                (filter (\<lambda>name. name \<notin> set (claimedIds eye_model blink_md))
                   (targetIds (eyeBlinkParameterIds blink_motion)))
         else []) @
        (if lipSyncValue st1 \<noteq> MAX_VALUE
         then map (\<lambda>name. (name, lipSyncValue st1, 1))
                (filter (\<lambda>name. name \<notin> set (claimedIds eye_model blink_md))
                   (targetIds (lipSyncParameterIds blink_motion)))
         else [])"
    "map (\<lambda>(i, v, w). (i, v)) (List.map_filter weightedWrite (r_effects r)) =
       map (\<lambda>k. (int (the (findParameterIndex eye_model (c_id (curves blink_md ! k)))),
                 overlaidValue blink_motion (eyeBlinkValue st1) (lipSyncValue st1) (c_id (curves blink_md ! k))
                   (the (evaluateCurve blink_md k time
                           (motionBehavior blink_motion = MotionBehavior_V2 \<and> isLoop blink_motion)
                           (passDuration blink_motion blink_md)))))
         (filter (\<lambda>k. findParameterIndex eye_model (c_id (curves blink_md ! k)) \<noteq> None)
            [modelGroupEnd blink_md..<parameterGroupEnd blink_md])"
    using ids by auto
  have time: "time = 1/4" using r(2) pt(1) by simp
  have st1: "st1 = (initialPassState blink_motion)\<lparr> eyeBlinkValue := 1/2 \<rparr>"
    using r(3) model_pass_blink_md unfolding time pt by simp
  have e1: "eyeBlinkValue st1 = 1/2" "lipSyncValue st1 = MAX_VALUE"
    by (simp_all add: st1 initialPassState_def)
  have w1: "List.map_filter byIdWrite (r_effects r) = [(''ParamEyeROpen'', 1/2, 1)]"
    unfolding r(4) by (simp add: e1 cl ids)
  have w2: "map (\<lambda>(i, v, w). (i, v)) (List.map_filter weightedWrite (r_effects r)) = [(0, 1/16)]"
    unfolding r(5) time pt
    by (simp add: groups_blink_md u f ev e1 overlaidValue_def ids maxTargetSize_def)
  show ?thesis
    using a c wellFormed_blink_md cl r(1) w1 w2 by (simp add: ids)
qed


lemma manyTargets_facts: "length manyTargets = 65" "distinct manyTargets"
proof -
  show "length manyTargets = 65" by (simp add: manyTargets_def)
  have "inj_on (\<lambda>n. replicate (Suc n) CHR ''x'') (set [0..<65])"
  proof (rule inj_onI)
    fix a b :: nat
    assume "replicate (Suc a) CHR ''x'' = replicate (Suc b) CHR ''x''"
    then have "length (replicate (Suc a) CHR ''x'') = length (replicate (Suc b) CHR ''x'')"
      by simp
    then show "a = b" by simp
  qed
  then show "distinct manyTargets" by (simp add: manyTargets_def distinct_map)
qed

lemma groups_eyeblink_md: "modelGroupEnd eyeblink_md = 1" "parameterGroupEnd eyeblink_md = 1"
  by (simp_all add: modelGroupEnd_def parameterGroupEnd_def declaredCurves_def eyeblink_md_def)

lemma model_pass_eyeblink_md:
  "modelCurves eyeblink_md 1 False (Finite 2) 0 (initialPassState eyeblink_motion) =
     Some (1, (initialPassState eyeblink_motion)\<lparr> eyeBlinkValue := 1/2 \<rparr>)"
  by (simp add: modelCurves.simps eyeblink_md_def evaluateCurve_def findSegment.simps
      csmVector_get_def linearEvaluate_def Let_def EffectNameEyeBlink_def)

text \<open>
  C6 as stated gives the overlay value to every unclaimed target of the configured lists.
  With 65 eye-blink targets, a pending eye-blink value and no Parameter curve, no target
  is claimed, and the overlay pass writes the first 64 targets only: the 65th is left out.
\<close>

theorem overlay_target_limit_counterexample:
  "length manyTargets = 65 \<and> distinct manyTargets \<and>
   targetIds (eyeBlinkParameterIds eyeblink_motion) = manyTargets \<and>
   claimedIds eye_model eyeblink_md = [] \<and>
   map_option (map fst \<circ> List.map_filter byIdWrite \<circ> r_effects)
     (returned (doUpdateParameters keepEndTime linearEasing eyeblink_motion eye_model 1 1 entry0)) =
   Some (take 64 manyTargets)"
proof -
  have a: "motionData eyeblink_motion = Some eyeblink_md" and c: "\<not> isLoop eyeblink_motion"
    by (simp_all add: eyeblink_motion_def scenario_motion_def)
  have ids: "targetIds (eyeBlinkParameterIds eyeblink_motion) = manyTargets"
    "targetIds (lipSyncParameterIds eyeblink_motion) = []"
    by (simp_all add: eyeblink_motion_def scenario_motion_def targetIds_def)
  have cl: "claimedIds eye_model eyeblink_md = []"
    by (simp add: claimedIds_def groups_eyeblink_md)
  have pt: "passTime eyeblink_motion eyeblink_md entry0 1 = Some 1"
    "passDuration eyeblink_motion eyeblink_md = Finite 2"
    "(motionBehavior eyeblink_motion = MotionBehavior_V2 \<and> isLoop eyeblink_motion) = False"
    using c by (simp_all add: passTime_def passDuration_def timeOffsetSeconds_def entry0_def
        eyeblink_md_def)
  from doUpdateParameters_effects[OF a wellFormed_eyeblink_md pt(1),
      of keepEndTime linearEasing eye_model 1]
  obtain r and st1 st2 :: PassState where r:
    "doUpdateParameters keepEndTime linearEasing eyeblink_motion eye_model 1 1 entry0 = Returns r"
    "modelCurves eyeblink_md 1 False (Finite 2) 0 (initialPassState eyeblink_motion) = Some (1, st1)"
    "\<forall>j. \<not> testFlag (eyeBlinkFlags st2) j"
    "List.map_filter byIdWrite (r_effects r) =
       (if eyeBlinkValue st1 \<noteq> MAX_VALUE
        then List.map_filter byIdWrite
               (overlayTargets manyTargets 0 (eyeBlinkFlags st2)
                  (eyeBlinkAdditive eyeblink_motion) (eyeBlinkValue st1) 1)
        else [])"
    unfolding pt ids groups_eyeblink_md by (auto simp add: List.map_filter_simps)
  have st1: "st1 = (initialPassState eyeblink_motion)\<lparr> eyeBlinkValue := 1/2 \<rparr>"
    using r(2) model_pass_eyeblink_md by simp
  have e1: "eyeBlinkValue st1 = 1/2" by (simp add: st1)
  have "\<forall>j < length manyTargets. 0 + j < maxTargetSize \<longrightarrow>
          (testFlag (eyeBlinkFlags st2) (0 + j) \<longleftrightarrow> False)"
    using r(3) by simp
  from overlayTargets_written[OF this, of "eyeBlinkAdditive eyeblink_motion" "1/2" 1]
  have "map fst (List.map_filter byIdWrite (r_effects r)) = take 64 manyTargets"
    unfolding r(4) by (simp add: e1 maxTargetSize_def comp_def)
  then show ?thesis
    using manyTargets_facts ids(1) cl r(1) by simp
qed

lemma claimedIds_blink_md: "claimedIds eye_model blink_md = [''ParamEyeLOpen'']"
proof -
  have u: "[Suc 0..<2] = [Suc 0]" by (simp add: upt_rec)
  have f: "findParameterIndex eye_model ''ParamEyeLOpen'' = Some 0"
    "c_id (curves blink_md ! Suc 0) = ''ParamEyeLOpen''"
    by (simp_all add: findParameterIndex_def eye_model_def blink_md_def)
  show ?thesis by (simp add: claimedIds_def groups_blink_md u f)
qed

text \<open>
  The condition of pairwise distinct identifiers is needed: a claim is recorded at the
  index of the first list entry that equals the curve's identifier. When the identifier
  that a Parameter curve drives is listed twice, its second entry is written by the
  overlay pass although the identifier is claimed.
\<close>

lemma overlay_duplicate_target:
  "claimedIds eye_model blink_md = [''ParamEyeLOpen''] \<and>
   map_option (List.map_filter byIdWrite \<circ> r_effects)
     (returned (doUpdateParameters keepEndTime linearEasing twin_motion eye_model (1/4) 1 entry0)) =
   Some [(''ParamEyeLOpen'', 1/2, 1)]"
proof -
  have "map_option (List.map_filter byIdWrite \<circ> r_effects)
     (returned (doUpdateParameters keepEndTime linearEasing twin_motion eye_model (1/4) 1 entry0)) =
   Some [(''ParamEyeLOpen'', 1/2, 1)]"
    by (simp add: pass_defs twin_motion_def blink_motion_def blink_md_def eye_model_def
      scenario_motion_def entry0_def keepEndTime_def linearEasing_def
      List.map_filter_simps testFlag_setFlag maxTargetSize_def
      EffectNameEyeBlink_def EffectNameLipSync_def IdNameOpacity_def)
  then show ?thesis using claimedIds_blink_md by simp
qed


text \<open>
  The bound of 32 entries is needed, and is a defect of the code inside the limit of 64
  targets that it sets itself: the flags are 32-bit integers and the shifts
  \<^verbatim>\<open>1 << i\<close> and \<^verbatim>\<open>>> i\<close> take their count modulo 32, so that entry \<open>i + 32\<close> shares its
  flag with entry \<open>i\<close>. With 33 targets of pairwise distinct identifiers, the claim of the
  last target (index 32) sets the flag of the first: the overlay pass writes neither,
  although no curve drives the first target.
\<close>

lemma aliasTargets_facts:
  "length aliasTargets = 33" "distinct aliasTargets"
  "aliasTargets ! 0 = ''x''" "aliasTargets ! 32 = ''ParamEyeLOpen''"
proof -
  show "length aliasTargets = 33" by (simp add: aliasTargets_def)
  have "inj_on (\<lambda>n. replicate (Suc n) CHR ''x'') (set [0..<32])"
  proof (rule inj_onI)
    fix a b :: nat
    assume "replicate (Suc a) CHR ''x'' = replicate (Suc b) CHR ''x''"
    then have "length (replicate (Suc a) CHR ''x'') = length (replicate (Suc b) CHR ''x'')"
      by simp
    then show "a = b" by simp
  qed
  then show "distinct aliasTargets" by (auto simp add: aliasTargets_def distinct_map)
  show "aliasTargets ! 0 = ''x''" by (simp add: aliasTargets_def nth_append)
  show "aliasTargets ! 32 = ''ParamEyeLOpen''" by (simp add: aliasTargets_def nth_append)
qed

lemma overlay_flag_aliasing:
  "length aliasTargets = 33 \<and> distinct aliasTargets \<and> hd aliasTargets = ''x'' \<and>
   last aliasTargets = ''ParamEyeLOpen'' \<and>
   claimedIds eye_model blink_md = [''ParamEyeLOpen''] \<and>
   map_option (map fst \<circ> List.map_filter byIdWrite \<circ> r_effects)
     (returned (doUpdateParameters keepEndTime linearEasing alias_motion eye_model (1/4) 1 entry0)) =
   Some (butlast (tl aliasTargets))"
proof -
  have a: "motionData alias_motion = Some blink_md" and c: "\<not> isLoop alias_motion"
    by (simp_all add: alias_motion_def blink_motion_def scenario_motion_def)
  have ids: "targetIds (eyeBlinkParameterIds alias_motion) = aliasTargets"
    "targetIds (lipSyncParameterIds alias_motion) = []"
    by (simp_all add: alias_motion_def blink_motion_def scenario_motion_def targetIds_def)
  have pt: "passTime alias_motion blink_md entry0 (1/4) = Some (1/4)"
    "passDuration alias_motion blink_md = Finite 2"
    "(motionBehavior alias_motion = MotionBehavior_V2 \<and> isLoop alias_motion) = False"
    using c by (simp_all add: passTime_def passDuration_def timeOffsetSeconds_def entry0_def
        blink_md_def)
  have ini: "initialPassState alias_motion = initialPassState blink_motion"
    by (simp add: initialPassState_def alias_motion_def)
  have u: "[Suc 0..<2] = [Suc 0]" by (simp add: upt_rec)
  have f: "findParameterIndex eye_model ''ParamEyeLOpen'' = Some 0"
    "c_id (curves blink_md ! Suc 0) = ''ParamEyeLOpen''"
    by (simp_all add: findParameterIndex_def eye_model_def blink_md_def)
  have ci: "claimIndex aliasTargets ''ParamEyeLOpen'' 0 = Some 32"
    using claimIndex_distinct[OF aliasTargets_facts(2), of 32 "''ParamEyeLOpen''"]
      aliasTargets_facts(1,4) by (simp add: maxTargetSize_def)
  have u1: "set [1..<(2::nat)] = {Suc 0}" by (simp add: upt_rec)
  from doUpdateParameters_effects[OF a wellFormed_blink_md pt(1),
      of keepEndTime linearEasing eye_model 1]
  obtain r and st1 st2 :: PassState where r1:
    "doUpdateParameters keepEndTime linearEasing alias_motion eye_model (1/4) 1 entry0 = Returns r"
    "modelCurves blink_md (1/4) False (Finite 2) 0 (initialPassState blink_motion) = Some (1, st1)"
    and fl: "\<forall>j. testFlag (eyeBlinkFlags st2) j \<longleftrightarrow>
        (eyeBlinkValue st1 \<noteq> MAX_VALUE \<and>
         (\<exists>k \<in> set [1..<2].
            findParameterIndex eye_model (c_id (curves blink_md ! k)) \<noteq> None \<and>
            (\<exists>i. claimIndex aliasTargets (c_id (curves blink_md ! k)) 0 = Some i \<and>
                 i mod 32 = j mod 32)))"
    and bi: "List.map_filter byIdWrite (r_effects r) =
       (if eyeBlinkValue st1 \<noteq> MAX_VALUE
        then List.map_filter byIdWrite
               (overlayTargets aliasTargets 0 (eyeBlinkFlags st2)
                  (eyeBlinkAdditive alias_motion) (eyeBlinkValue st1) 1)
        else []) @
       (if lipSyncValue st1 \<noteq> MAX_VALUE
        then List.map_filter byIdWrite
               (overlayTargets [] 0 (lipSyncFlags st2)
                  (eyeBlinkAdditive alias_motion) (lipSyncValue st1) 1)
        else [])"
    unfolding pt ids groups_blink_md ini by blast
  have r: "doUpdateParameters keepEndTime linearEasing alias_motion eye_model (1/4) 1 entry0 = Returns r"
    "modelCurves blink_md (1/4) False (Finite 2) 0 (initialPassState blink_motion) = Some (1, st1)"
    "\<forall>j. testFlag (eyeBlinkFlags st2) j \<longleftrightarrow> (eyeBlinkValue st1 \<noteq> MAX_VALUE \<and> j mod 32 = 0)"
    "List.map_filter byIdWrite (r_effects r) =
       (if eyeBlinkValue st1 \<noteq> MAX_VALUE
        then List.map_filter byIdWrite
               (overlayTargets aliasTargets 0 (eyeBlinkFlags st2)
                  (eyeBlinkAdditive alias_motion) (eyeBlinkValue st1) 1)
        else [])"
  proof -
    show "doUpdateParameters keepEndTime linearEasing alias_motion eye_model (1/4) 1 entry0 = Returns r"
      by (rule r1(1))
    show "modelCurves blink_md (1/4) False (Finite 2) 0 (initialPassState blink_motion) = Some (1, st1)"
      by (rule r1(2))
    show "\<forall>j. testFlag (eyeBlinkFlags st2) j \<longleftrightarrow> (eyeBlinkValue st1 \<noteq> MAX_VALUE \<and> j mod 32 = 0)"
      using fl unfolding u1 by (auto simp add: f ci)
    show "List.map_filter byIdWrite (r_effects r) =
       (if eyeBlinkValue st1 \<noteq> MAX_VALUE
        then List.map_filter byIdWrite
               (overlayTargets aliasTargets 0 (eyeBlinkFlags st2)
                  (eyeBlinkAdditive alias_motion) (eyeBlinkValue st1) 1)
        else [])"
      unfolding bi by (simp add: List.map_filter_simps)
  qed
  have st1: "st1 = (initialPassState blink_motion)\<lparr> eyeBlinkValue := 1/2 \<rparr>"
    using r(2) model_pass_blink_md by simp
  have e1: "eyeBlinkValue st1 = 1/2" by (simp add: st1)
  have "\<forall>j < length aliasTargets. 0 + j < maxTargetSize \<longrightarrow>
          (testFlag (eyeBlinkFlags st2) (0 + j) \<longleftrightarrow>
             aliasTargets ! j = ''x'' \<or> aliasTargets ! j = ''ParamEyeLOpen'')"
  proof (intro allI impI)
    fix j assume j: "j < length aliasTargets"
    then have "j mod 32 = 0 \<longleftrightarrow> j = 0 \<or> j = 32"
      using aliasTargets_facts(1) by auto
    moreover have "aliasTargets ! j = aliasTargets ! 0 \<longleftrightarrow> j = 0"
      using nth_eq_iff_index_eq[OF aliasTargets_facts(2) j, of 0] aliasTargets_facts(1) by simp
    moreover have "aliasTargets ! j = aliasTargets ! 32 \<longleftrightarrow> j = 32"
      using nth_eq_iff_index_eq[OF aliasTargets_facts(2) j, of 32] aliasTargets_facts(1) by simp
    ultimately show "testFlag (eyeBlinkFlags st2) (0 + j) \<longleftrightarrow>
             aliasTargets ! j = ''x'' \<or> aliasTargets ! j = ''ParamEyeLOpen''"
      using r(3) e1 aliasTargets_facts(3,4) by simp
  qed
  from overlayTargets_written[OF this, of "eyeBlinkAdditive alias_motion" "1/2" 1]
  have w: "map fst (List.map_filter byIdWrite (r_effects r)) =
     filter (\<lambda>name. name \<noteq> ''x'' \<and> name \<noteq> ''ParamEyeLOpen'') aliasTargets"
    unfolding r(4) using aliasTargets_facts(1) by (simp add: e1 maxTargetSize_def comp_def)
  have sp: "aliasTargets = ''x'' # map (\<lambda>n. replicate (Suc n) CHR ''x'') [1..<32] @ [''ParamEyeLOpen'']"
    by (simp add: aliasTargets_def upt_conv_Cons[of 0 32])
  have keep: "name \<noteq> ''x'' \<and> name \<noteq> ''ParamEyeLOpen''"
    if "name \<in> set (map (\<lambda>n. replicate (Suc n) CHR ''x'') [1..<32])" for name
  proof -
    from that obtain n where n: "1 \<le> n" "name = replicate (Suc n) CHR ''x''" by auto
    then have "length name \<noteq> length ''x''" by simp
    then have "name \<noteq> ''x''" by auto
    moreover have "hd name \<noteq> hd ''ParamEyeLOpen''" using n by simp
    then have "name \<noteq> ''ParamEyeLOpen''" by auto
    ultimately show ?thesis by simp
  qed
  have "filter (\<lambda>name. name \<noteq> ''x'' \<and> name \<noteq> ''ParamEyeLOpen'') aliasTargets =
        butlast (tl aliasTargets)"
    unfolding sp using keep by (simp add: butlast_append filter_id_conv)
  with w have "map fst (List.map_filter byIdWrite (r_effects r)) = butlast (tl aliasTargets)"
    by simp
  moreover have "hd aliasTargets = ''x''" "last aliasTargets = ''ParamEyeLOpen''"
    unfolding sp by simp_all
  ultimately show ?thesis
    using aliasTargets_facts(1,2) claimedIds_blink_md r(1) by simp
qed

text \<open>
  C7 does not hold of the code: the loop over the lip-sync targets reads
  \<open>eyeBlinkAdditive\<close>, and the flag that \<open>setLipSyncAdditive\<close> sets is never read. With
  the lip-sync flag set and the eye-blink flag unset, the unclaimed lip-sync target is
  written by override; with the lip-sync flag unset and the eye-blink flag set, it is
  written additively.
\<close>

theorem overlay_lipSync_reads_eyeBlinkAdditive:
  "lipSyncAdditive (setLipSyncAdditive lipsync_motion True) \<and>
   \<not> eyeBlinkAdditive (setLipSyncAdditive lipsync_motion True) \<and>
   map_option r_effects
     (returned (doUpdateParameters keepEndTime linearEasing (setLipSyncAdditive lipsync_motion True)
                  mouth_model 1 1 entry0)) =
   Some [SetParameterValueById ''ParamMouthOpenY'' (1/2) 1] \<and>
   map_option r_effects
     (returned (doUpdateParameters keepEndTime linearEasing
                  (setEyeBlinkAdditive (setLipSyncAdditive lipsync_motion False) True)
                  mouth_model 1 1 entry0)) =
   Some [AddParameterValueById ''ParamMouthOpenY'' (1/2) 1]"
  by (simp add: doUpdateParameters_def adjustedEntry_def adjustedMotion_def timeOffsetSeconds_def
      tmpFadeIn_def tmpFadeOut_def passDuration_def blendCurves_def initialPassState_def
      finishPass_def modelCurves.simps parameterCurves.simps partOpacityCurves.simps overlayPass_def
      evaluateCurve_def findSegment.simps csmVector_get_def linearEvaluate_def targetIds_def Let_def
      setLipSyncAdditive_def setEyeBlinkAdditive_def lipsync_motion_def scenario_motion_def
      lipsync_md_def mouth_model_def entry0_def keepEndTime_def linearEasing_def
      EffectNameEyeBlink_def EffectNameLipSync_def maxTargetSize_def)

lemma overlayPass_ignores_lipSyncAdditive:
  "overlayPass (setLipSyncAdditive m b) fw st = overlayPass m fw st"
  by (simp add: overlayPass_def setLipSyncAdditive_def)

section \<open>Parsing: an unrecognized segment type code\<close>

text \<open>
  At a type code other than 0, 1, 2 and 3 the default branch of the switch leaves the
  position where it is, so the segment loop reads the same code again and again, each
  time counting one more segment, until \<^verbatim>\<open>segments.at(totalSegmentCount)\<close> has no
  element left: the loop ends in a TypeError (or earlier, where \<^verbatim>\<open>CSM_ASSERT\<close> throws).
\<close>

lemma parseSegments_unrecognized:
  "0 < pos \<Longrightarrow> unrecognizedTypeCode segs pos \<Longrightarrow> parseSegments fw r segs c pos st = None"
proof (induction fw r segs c pos st rule: parseSegments.induct)
  case (1 fw r segs c pos st)
  from "1.prems"(2) have lt: "pos < length segs"
    by (subst (asm) unrecognizedTypeCode.simps) (simp split: if_splits)
  show ?case
  proof (cases "beginSegment segs pos st")
    case None
    then show ?thesis using lt by (subst parseSegments.simps) simp
  next
    case (Some a)
    then obtain st1 pos1 where b: "beginSegment segs pos st = Some (st1, pos1)" by (cases a) auto
    with "1.prems"(1) have p1: "pos1 = pos" by (auto simp add: beginSegment_def)
    show ?thesis
    proof (cases "parseSegment fw r segs pos1 st1")
      case None
      then show ?thesis using lt b by (subst parseSegments.simps) simp
    next
      case (Some a2)
      then obtain st2 pos2 where ps: "parseSegment fw r segs pos1 st1 = Some (st2, pos2)"
        by (cases a2) auto
      have u: "(segs ! pos = 1 \<longrightarrow> unrecognizedTypeCode segs (pos + 7)) \<and>
        (segs ! pos = 0 \<or> segs ! pos = 2 \<or> segs ! pos = 3 \<longrightarrow>
           unrecognizedTypeCode segs (pos + 3))"
        using "1.prems"(2) lt
        by (subst (asm) unrecognizedTypeCode.simps) (auto split: if_splits)
      have nxt: "0 < pos2 \<and> unrecognizedTypeCode segs pos2"
        using ps "1.prems" lt u unfolding p1
        by (auto simp add: parseSegment_def Let_def split: if_splits option.splits)
      show ?thesis
      proof (cases "countSegment c st2")
        case None
        then show ?thesis using lt b ps by (subst parseSegments.simps) simp
      next
        case (Some st3)
        from "1.IH"[OF lt b refl ps refl Some] nxt
        have "parseSegments fw r segs c pos2 st3 = None" by simp
        then show ?thesis using lt b ps Some by (subst parseSegments.simps) simp
      qed
    qed
  qed
qed


lemma parseSegments_first_unrecognized:
  assumes "unrecognizedTypeCode segs 2"
  shows "parseSegments fw r segs c 0 st = None"
proof -
  from assms have lt: "2 < length segs"
    by (subst (asm) unrecognizedTypeCode.simps) (simp split: if_splits)
  then have ne: "0 < length segs" by (cases segs) auto
  have u: "(segs ! 2 = 1 \<longrightarrow> unrecognizedTypeCode segs 9) \<and>
        (segs ! 2 = 0 \<or> segs ! 2 = 2 \<or> segs ! 2 = 3 \<longrightarrow>
           unrecognizedTypeCode segs 5)"
    using assms lt
    by (subst (asm) unrecognizedTypeCode.simps) (auto split: if_splits)
  show ?thesis
  proof (cases "beginSegment segs 0 st")
    case None
    then show ?thesis using ne by (subst parseSegments.simps) simp
  next
    case (Some a)
    then obtain st1 pos1 where b: "beginSegment segs 0 st = Some (st1, pos1)" by (cases a) auto
    then have p1: "pos1 = 2" by (auto simp add: beginSegment_def split: option.splits)
    show ?thesis
    proof (cases "parseSegment fw r segs pos1 st1")
      case None
      then show ?thesis using ne b by (subst parseSegments.simps) simp
    next
      case (Some a2)
      then obtain st2 pos2 where ps: "parseSegment fw r segs pos1 st1 = Some (st2, pos2)"
        by (cases a2) auto
      have nxt: "0 < pos2 \<and> unrecognizedTypeCode segs pos2"
        using ps assms lt u unfolding p1
        by (auto simp add: parseSegment_def Let_def split: if_splits option.splits)
      show ?thesis
      proof (cases "countSegment c st2")
        case None
        then show ?thesis using ne b ps by (subst parseSegments.simps) simp
      next
        case (Some st3)
        from parseSegments_unrecognized[of pos2 segs fw r c st3] nxt
        have "parseSegments fw r segs c pos2 st3 = None" by simp
        then show ?thesis using ne b ps Some by (subst parseSegments.simps) simp
      qed
    qed
  qed
qed

lemma parseCurves_unrecognized:
  "c0 \<le> c \<Longrightarrow> c < curveCount (parsed st) \<Longrightarrow> c < length (Curves j) \<Longrightarrow>
   unrecognizedTypeCode (Segments (Curves j ! c)) 2 \<Longrightarrow> parseCurves fw j c0 st = None"
proof (induction fw j c0 st rule: parseCurves.induct)
  case (1 fw j c0 st)
  from "1.prems" have lt: "c0 < curveCount (parsed st)" "c0 < length (Curves j)" by auto
  then have at: "csmVector_at (Curves j) c0 = Some (Curves j ! c0)" by simp
  show ?case
  proof (cases "beginCurve (Curves j ! c0) c0 st")
    case None
    then show ?thesis using lt at by (subst parseCurves.simps) simp
  next
    case (Some st1)
    show ?thesis
    proof (cases "parseSegments fw (AreBeziersRestricted (Meta j)) (Segments (Curves j ! c0)) c0 0 st1")
      case None
      then show ?thesis using lt at Some by (subst parseCurves.simps) simp
    next
      case st2: (Some st2)
      have ne: "c0 \<noteq> c"
        using st2 parseSegments_first_unrecognized[of "Segments (Curves j ! c)"] "1.prems"(4)
        by auto
      from beginCurve_keeps[OF Some] parseSegments_keeps[OF st2]
      have cc: "curveCount (parsed st2) = curveCount (parsed st)" by simp
      from "1.IH"[OF lt(1) at Some st2] ne "1.prems" cc
      have "parseCurves fw j (Suc c0) st2 = None" by simp
      then show ?thesis using lt at Some st2 by (subst parseCurves.simps) simp
    qed
  qed
qed

text \<open>
  \<^verbatim>\<open>parse\<close> assigns \<^verbatim>\<open>_motionData\<close> before it reads the curves and never clears it: for a
  document that is not falsy, \<^verbatim>\<open>create\<close> does not return \<^verbatim>\<open>null\<close>.
\<close>

lemma create_Some_not_null: "create fw base (Some j) h \<noteq> Returns None"
  by (simp add: create_def parse_def Let_def split: option.splits outcome.splits prod.splits)

text \<open>
  C1 does not hold of the code. It says that for a motion JSON whose segment stream holds
  an unrecognized segment type code \<^verbatim>\<open>create\<close> yields \<^verbatim>\<open>null\<close>. Whenever a curve among the
  first \<^verbatim>\<open>Meta.CurveCount\<close> ones has such a code in its stream, \<^verbatim>\<open>create\<close> ends in an
  exception that it does not catch, whatever the rest of the document, the framework's
  values and the handler are.
\<close>

theorem create_unrecognized_segment_type_throws:
  assumes "c < CurveCount (Meta j)" and "c < length (Curves j)"
    and "unrecognizedTypeCode (Segments (Curves j ! c)) 2"
  shows "create fw base (Some j) onFinishedMotionHandler = Throws"
proof -
  have "parseCurves fw j 0 st = None" if "curveCount (parsed st) = CurveCount (Meta j)" for st
    using parseCurves_unrecognized[of 0 c st j fw] assms that by simp
  then show ?thesis
    by (simp add: create_def parse_def Let_def)
qed

lemma unrecognized_bad_json: "unrecognizedTypeCode (Segments (Curves bad_json ! 0)) 2"
  by (simp add: bad_json_def unrecognizedTypeCode.simps)

text \<open>
  The document \<open>bad_json\<close>, whose only curve has the stream \<open>[0, 0, 7, 1, 1]\<close>: the
  first point is stored, the code 7 is read twice, and the second time the segment vector
  of one element has no element 1.
\<close>

theorem create_unrecognized_segment_type_throws_witness:
  "0 < CurveCount (Meta bad_json) \<and> 0 < length (Curves bad_json) \<and>
   unrecognizedTypeCode (Segments (Curves bad_json ! 0)) 2 \<and>
   create framework0 scenario_motion (Some bad_json) True = Throws"
  using create_unrecognized_segment_type_throws[of 0 bad_json framework0 scenario_motion True]
    unrecognized_bad_json
  by (simp add: bad_json_def)


text \<open>
  With the recognized code 0 in place of 7 the same document is parsed into a motion of
  one linear segment.
\<close>

lemma create_good_json:
  "\<exists>m md. create framework0 scenario_motion (Some good_json) True = Returns (Some m) \<and>
     motionData m = Some md \<and>
     points md = [\<lparr> p_time = 0, p_value = 0 \<rparr>, \<lparr> p_time = 1, p_value = 1 \<rparr>] \<and>
     map segmentType (segments md) = [CubismMotionSegmentType_Linear] \<and>
     map basePointIndex (segments md) = [0] \<and>
     map segmentCount (curves md) = [1] \<and>
     map c_id (curves md) = [''ParamAngleX''] \<and>
     map c_type (curves md) = [CubismMotionCurveTarget_Parameter] \<and>
     sourceFrameRate m = 30 \<and> loopDurationSeconds m = 1 \<and>
     fadeInSeconds m = 1 \<and> fadeOutSeconds m = 1 \<and> onFinishedMotion m"
  by (simp add: create_def parse_def Let_def good_json_def bad_json_def framework0_def
      parseCurves.simps beginCurve_def parseSegments.simps beginSegment_def parseSegment_def
      countSegment_def updateSegment_def storePoint_def streamNumber_def newMotion_def
      numeral_2_eq_2)

end
